theory Spec2Isabelle
  imports Complex_Main
begin

section \<open>Python values and exceptions\<close>

text \<open>
  The controller of \<^verbatim>\<open>tapo_onvif_controller.py\<close> wraps an ONVIF client library. The
  body of every method that calls the library is a \<^verbatim>\<open>try\<close> block whose handler catches
  \<^verbatim>\<open>Exception\<close>. The exceptions of the model are the subclasses of \<^verbatim>\<open>Exception\<close> that
  the bodies can meet: the ones Python raises itself while a body is evaluated, the one
  \<^verbatim>\<open>connect\<close> raises, and \<open>LibraryError\<close> for whatever the library raises (a fault, a
  transport error). Floating-point numbers are modelled as reals: the code only compares
  and stores them.
\<close>

datatype exn =
  AttributeError | ValueError | OverflowError | NoMediaProfile | LibraryError string

text \<open>
  An attribute of a response object is in one of three states: the object has no such
  attribute (\<^verbatim>\<open>hasattr\<close> is false), the attribute is \<^verbatim>\<open>None\<close> (what the library
  stores for an optional element that the device left out), or it holds a value.
\<close>

datatype 'a attr = Absent | IsNone | Has 'a

definition hasattr :: "'a attr \<Rightarrow> bool" where
  "hasattr a = (a \<noteq> Absent)"

text \<open>Reading \<^verbatim>\<open>obj.name\<close> on an object: the value, which may be \<^verbatim>\<open>None\<close>.\<close>

definition getattr :: "'a attr \<Rightarrow> exn + 'a option" where
  "getattr a = (case a of Absent \<Rightarrow> Inl AttributeError | IsNone \<Rightarrow> Inr None | Has v \<Rightarrow> Inr (Some v))"

text \<open>Reading or writing an attribute of a value that may be \<^verbatim>\<open>None\<close>.\<close>

definition not_none :: "'a option \<Rightarrow> exn + 'a" where
  "not_none v = (case v of None \<Rightarrow> Inl AttributeError | Some a \<Rightarrow> Inr a)"

text \<open>Python's two-argument \<^verbatim>\<open>max\<close> and \<^verbatim>\<open>min\<close> keep the first argument on a tie.\<close>

definition py_max :: "real \<Rightarrow> real \<Rightarrow> real" where
  "py_max a b = (if b > a then b else a)"

definition py_min :: "real \<Rightarrow> real \<Rightarrow> real" where
  "py_min a b = (if b < a then b else a)"

section \<open>Objects of the ONVIF library\<close>

record vector2d =
  PanTilt_x :: real
  PanTilt_y :: real

record vector1d =
  Zoom_x :: real

text \<open>
  A PTZ vector: the \<^verbatim>\<open>Position\<close> of a status, and the shape of the dictionaries the
  code builds for \<^verbatim>\<open>Speed\<close>, \<^verbatim>\<open>Translation\<close> and \<^verbatim>\<open>Velocity\<close>.
\<close>

record ptz_vector =
  PanTilt :: "vector2d attr"
  Zoom :: "vector1d attr"

record move_status =
  MoveStatus_PanTilt :: "string attr"
  MoveStatus_Zoom :: "string attr"

text \<open>Of a status, the two fields the code reads.\<close>

record ptz_status =
  Position :: "ptz_vector attr"
  MoveStatus :: "move_status attr"

record float_range =
  Min :: real
  Max :: real

record space2d =
  XRange :: float_range
  YRange :: float_range

record space1d =
  Zoom_XRange :: float_range

record ptz_spaces =
  AbsolutePanTiltPositionSpace :: "space2d list attr"
  AbsoluteZoomPositionSpace :: "space1d list attr"

record ptz_configuration_options =
  Spaces :: "ptz_spaces attr"

record ptz_configuration =
  PTZConfiguration_token :: string

record profile =
  Name :: string
  token :: string
  PTZConfiguration :: "ptz_configuration attr"

record device_information =
  Manufacturer :: string
  Model :: string
  FirmwareVersion :: string

record preset =
  Preset_token :: string
  Preset_Name :: string
  PTZPosition :: "ptz_vector attr"

text \<open>Objects the wrapper only holds and hands back: an opaque handle.\<close>

type_synonym handle = nat

text \<open>Serialized objects (\<^verbatim>\<open>zeep.helpers.serialize_object\<close>): nested dictionaries.\<close>

datatype pyval =
  VNone
| VFloat real
| VStr string
| VDict "(string \<times> pyval) list"
| VList "pyval list"

type_synonym pydict = "(string \<times> pyval) list"

section \<open>The controller, the device and the trace of a call\<close>

record controller =
  host :: string
  port :: int
  user :: string
  password :: string
  wsdl_dir :: "string option"
  camera :: "handle option"
  media_service :: "handle option"
  ptz_service :: "handle option"
  media_profile :: "profile option"
  ptz_config_options :: "ptz_configuration_options option"
  pan_range :: "real \<times> real"
  tilt_range :: "real \<times> real"
  zoom_range :: "real \<times> real"

text \<open>
  A console line is recorded by an ASCII label of the line (the texts of the source are
  not ASCII) and, for the line of an exception handler, the exception it prints.
\<close>

datatype msg = Info string | Failure string exn

text \<open>
  What a method does to the outside, in order: calls of the library with their
  arguments, \<^verbatim>\<open>time.sleep\<close>, and console lines.
\<close>

datatype event =
  ONVIFCamera string int string string "string option"
| GetDeviceInformation
| create_media_service
| GetProfiles
| create_ptz_service
| create_type string
| GetConfigurationOptions string
| GetStreamUri string
| GetStatus string
| AbsoluteMove string "ptz_vector option" ptz_vector
| RelativeMove string ptz_vector ptz_vector
| ContinuousMove string ptz_vector
| Stop string bool bool
| GetPresets string
| GotoPreset string string ptz_vector
| SetPreset string string "string option"
| RemovePreset string string
| GotoHomePosition string ptz_vector
| SetHomePosition string
| GetCapabilities
| GetNodes
| Sleep real
| Print msg

text \<open>
  The library and the camera behind it: what each call returns or raises when it is
  made with the given arguments. The last field is the platform's \<^verbatim>\<open>time.sleep\<close>: whether
  it waits for the given length or raises (\<^verbatim>\<open>ValueError\<close> for a negative length,
  \<^verbatim>\<open>OverflowError\<close> for one too large to convert).
\<close>

record device =
  lib_ONVIFCamera :: "string \<Rightarrow> int \<Rightarrow> string \<Rightarrow> string \<Rightarrow> string option \<Rightarrow> exn + handle"
  lib_GetDeviceInformation :: "exn + device_information"
  lib_create_media_service :: "exn + handle"
  lib_GetProfiles :: "exn + profile list"
  lib_create_ptz_service :: "exn + handle"
  lib_create_type :: "string \<Rightarrow> exn + unit"
  lib_GetConfigurationOptions :: "string \<Rightarrow> exn + ptz_configuration_options"
  lib_GetStreamUri :: "string \<Rightarrow> exn + string"
  lib_GetStatus :: "string \<Rightarrow> exn + ptz_status"
  lib_AbsoluteMove :: "string \<Rightarrow> ptz_vector option \<Rightarrow> ptz_vector \<Rightarrow> exn + unit"
  lib_RelativeMove :: "string \<Rightarrow> ptz_vector \<Rightarrow> ptz_vector \<Rightarrow> exn + unit"
  lib_ContinuousMove :: "string \<Rightarrow> ptz_vector \<Rightarrow> exn + unit"
  lib_Stop :: "string \<Rightarrow> bool \<Rightarrow> bool \<Rightarrow> exn + unit"
  lib_GetPresets :: "string \<Rightarrow> exn + preset list"
  lib_GotoPreset :: "string \<Rightarrow> string \<Rightarrow> ptz_vector \<Rightarrow> exn + unit"
  lib_SetPreset :: "string \<Rightarrow> string \<Rightarrow> string option \<Rightarrow> exn + string"
  lib_RemovePreset :: "string \<Rightarrow> string \<Rightarrow> exn + unit"
  lib_GotoHomePosition :: "string \<Rightarrow> ptz_vector \<Rightarrow> exn + unit"
  lib_SetHomePosition :: "string \<Rightarrow> exn + unit"
  lib_GetCapabilities :: "exn + pydict"
  lib_GetNodes :: "exn + pyval list"
  time_sleep :: "real \<Rightarrow> exn + unit"

text \<open>
  A method runs on the controller and the trace so far; it returns a value or raises,
  and leaves the controller and the trace as they are at that point.
\<close>

record state =
  self :: controller
  trace :: "event list"

type_synonym 'a py = "state \<Rightarrow> (exn + 'a) \<times> state"

definition py_return :: "'a \<Rightarrow> 'a py" where
  "py_return v = (\<lambda>s. (Inr v, s))"

definition py_raise :: "exn \<Rightarrow> 'a py" where
  "py_raise e = (\<lambda>s. (Inl e, s))"

definition py_lift :: "exn + 'a \<Rightarrow> 'a py" where
  "py_lift r = (\<lambda>s. (r, s))"

definition py_bind :: "'a py \<Rightarrow> ('a \<Rightarrow> 'b py) \<Rightarrow> 'b py" where
  "py_bind m f = (\<lambda>s. case m s of (Inl e, s') \<Rightarrow> (Inl e, s') | (Inr v, s') \<Rightarrow> f v s')"

definition py_seq :: "'a py \<Rightarrow> 'b py \<Rightarrow> 'b py" where
  "py_seq m n = py_bind m (\<lambda>_. n)"

text \<open>\<^verbatim>\<open>try: m except Exception as e: h e\<close>\<close>

definition py_try :: "'a py \<Rightarrow> (exn \<Rightarrow> 'a py) \<Rightarrow> 'a py" where
  "py_try m h = (\<lambda>s. case m s of (Inl e, s') \<Rightarrow> h e s' | (Inr v, s') \<Rightarrow> (Inr v, s'))"

text \<open>A call of the library: it is made (and recorded), and returns or raises.\<close>

definition call :: "event \<Rightarrow> exn + 'a \<Rightarrow> 'a py" where
  "call ev r = (\<lambda>s. (r, s\<lparr>trace := trace s @ [ev]\<rparr>))"

definition print :: "msg \<Rightarrow> unit py" where
  "print m = (\<lambda>s. (Inr (), s\<lparr>trace := trace s @ [Print m]\<rparr>))"

text \<open>
  \<^verbatim>\<open>time.sleep(d)\<close>: the wait happens, and is recorded, when the platform accepts the
  length; otherwise the call raises and nothing was waited for.
\<close>

definition sleep :: "device \<Rightarrow> real \<Rightarrow> unit py" where
  "sleep dev d =
     (case time_sleep dev d of
        Inl e \<Rightarrow> py_raise e
      | Inr u \<Rightarrow> (\<lambda>s. (Inr (), s\<lparr>trace := trace s @ [Sleep d]\<rparr>)))"

text \<open>
  \<^verbatim>\<open>self.f.name\<close> for a field \<open>f\<close> that starts as \<^verbatim>\<open>None\<close>: the attribute lookup on
  \<^verbatim>\<open>None\<close> raises.
\<close>

definition self_field :: "(controller \<Rightarrow> 'a option) \<Rightarrow> 'a py" where
  "self_field f = (\<lambda>s. (not_none (f (self s)), s))"

definition get_self :: "controller py" where
  "get_self = (\<lambda>s. (Inr (self s), s))"

definition set_self :: "(controller \<Rightarrow> controller) \<Rightarrow> unit py" where
  "set_self upd = (\<lambda>s. (Inr (), s\<lparr>self := upd (self s)\<rparr>))"

section \<open>The controller's methods\<close>

text \<open>
  Each method is written as its \<^verbatim>\<open>try\<close> body and the method around it. Default
  arguments are passed by the caller; an argument that may be \<^verbatim>\<open>None\<close> is an option.
\<close>

definition init :: "string \<Rightarrow> int \<Rightarrow> string \<Rightarrow> string \<Rightarrow> string option \<Rightarrow> controller" where
  "init h p u pw wsdl =
     \<lparr>host = h, port = p, user = u, password = pw, wsdl_dir = wsdl,
      camera = None, media_service = None, ptz_service = None, media_profile = None,
      ptz_config_options = None,
      pan_range = (-1, 1), tilt_range = (-1, 1), zoom_range = (0, 1)\<rparr>"

subsection \<open>Moves\<close>

text \<open>The dictionary \<^verbatim>\<open>{'PanTilt': {'x': a, 'y': b}, 'Zoom': {'x': c}}\<close>.\<close>

definition vector_dict :: "real \<Rightarrow> real \<Rightarrow> real \<Rightarrow> ptz_vector" where
  "vector_dict a b c =
     \<lparr>PanTilt = Has \<lparr>PanTilt_x = a, PanTilt_y = b\<rparr>, Zoom = Has \<lparr>Zoom_x = c\<rparr>\<rparr>"

definition speed_dict :: "real \<Rightarrow> ptz_vector" where
  "speed_dict speed = vector_dict speed speed speed"

text \<open>\<^verbatim>\<open>max(rng[0], min(rng[1], v))\<close>\<close>

definition clamp :: "real \<times> real \<Rightarrow> real \<Rightarrow> real" where
  "clamp rng v = py_max (fst rng) (py_min (snd rng) v)"

text \<open>
  Lines 204 to 212 of \<^verbatim>\<open>absolute_move\<close>, on the position taken from the status. When
  the position is \<^verbatim>\<open>None\<close>, storing \<^verbatim>\<open>PanTilt\<close> on it raises. When it has no
  \<^verbatim>\<open>PanTilt\<close>, an empty dictionary is stored there, and the assignment of \<^verbatim>\<open>x\<close> or
  \<^verbatim>\<open>y\<close> that follows (one of the two is made, since one argument is given) raises on
  the dictionary. When \<^verbatim>\<open>PanTilt\<close> is \<^verbatim>\<open>None\<close>, that assignment raises too.
\<close>

definition set_pan_tilt ::
  "controller \<Rightarrow> real option \<Rightarrow> real option \<Rightarrow> ptz_vector option \<Rightarrow> exn + ptz_vector option" where
  "set_pan_tilt c pan tilt position =
     (if pan \<noteq> None \<or> tilt \<noteq> None then
        (case position of
           None \<Rightarrow> Inl AttributeError
         | Some pos \<Rightarrow>
             (case PanTilt pos of
                Absent \<Rightarrow> Inl AttributeError
              | IsNone \<Rightarrow> Inl AttributeError
              | Has pt \<Rightarrow>
                  (let pt1 = (case pan of None \<Rightarrow> pt
                              | Some v \<Rightarrow> pt\<lparr>PanTilt_x := clamp (pan_range c) v\<rparr>);
                       pt2 = (case tilt of None \<Rightarrow> pt1
                              | Some v \<Rightarrow> pt1\<lparr>PanTilt_y := clamp (tilt_range c) v\<rparr>)
                   in Inr (Some (pos\<lparr>PanTilt := Has pt2\<rparr>)))))
      else Inr position)"

text \<open>Lines 214 to 218, in the same way.\<close>

definition set_zoom ::
  "controller \<Rightarrow> real option \<Rightarrow> ptz_vector option \<Rightarrow> exn + ptz_vector option" where
  "set_zoom c zoom position =
     (case zoom of
        None \<Rightarrow> Inr position
      | Some v \<Rightarrow>
          (case position of
             None \<Rightarrow> Inl AttributeError
           | Some pos \<Rightarrow>
               (case Zoom pos of
                  Absent \<Rightarrow> Inl AttributeError
                | IsNone \<Rightarrow> Inl AttributeError
                | Has z \<Rightarrow> Inr (Some (pos\<lparr>Zoom := Has (z\<lparr>Zoom_x := clamp (zoom_range c) v\<rparr>)\<rparr>)))))"

definition absolute_move_body ::
  "device \<Rightarrow> real option \<Rightarrow> real option \<Rightarrow> real option \<Rightarrow> real \<Rightarrow> bool py" where
  "absolute_move_body dev pan tilt zoom speed =
     py_bind (self_field ptz_service) (\<lambda>_.
     py_bind (call (create_type ''AbsoluteMove'') (lib_create_type dev ''AbsoluteMove'')) (\<lambda>_.
     py_bind (self_field media_profile) (\<lambda>prof.
     py_bind (call (GetStatus (token prof)) (lib_GetStatus dev (token prof))) (\<lambda>status.
     py_bind (py_lift (getattr (Position status))) (\<lambda>position.
     py_bind get_self (\<lambda>c.
     py_bind (py_lift (set_pan_tilt c pan tilt position)) (\<lambda>position1.
     py_bind (py_lift (set_zoom c zoom position1)) (\<lambda>position2.
     py_bind (call (AbsoluteMove (token prof) position2 (speed_dict speed))
                   (lib_AbsoluteMove dev (token prof) position2 (speed_dict speed))) (\<lambda>_.
     py_seq (print (Info ''absolute move''))
            (py_return True))))))))))"

definition absolute_move ::
  "device \<Rightarrow> real option \<Rightarrow> real option \<Rightarrow> real option \<Rightarrow> real \<Rightarrow> bool py" where
  "absolute_move dev pan tilt zoom speed =
     py_try (absolute_move_body dev pan tilt zoom speed)
            (\<lambda>e. py_seq (print (Failure ''absolute move'' e)) (py_return False))"

definition move_to_position :: "device \<Rightarrow> real \<Rightarrow> real \<Rightarrow> real \<Rightarrow> bool py" where
  "move_to_position dev pan tilt speed = absolute_move dev (Some pan) (Some tilt) None speed"

definition relative_move_body :: "device \<Rightarrow> real \<Rightarrow> real \<Rightarrow> real \<Rightarrow> real \<Rightarrow> bool py" where
  "relative_move_body dev pan_delta tilt_delta zoom_delta speed =
     py_bind (self_field ptz_service) (\<lambda>_.
     py_bind (call (create_type ''RelativeMove'') (lib_create_type dev ''RelativeMove'')) (\<lambda>_.
     py_bind (self_field media_profile) (\<lambda>prof.
     py_bind (call (RelativeMove (token prof) (vector_dict pan_delta tilt_delta zoom_delta)
                                 (speed_dict speed))
                   (lib_RelativeMove dev (token prof) (vector_dict pan_delta tilt_delta zoom_delta)
                                     (speed_dict speed))) (\<lambda>_.
     py_seq (print (Info ''relative move''))
            (py_return True)))))"

definition relative_move :: "device \<Rightarrow> real \<Rightarrow> real \<Rightarrow> real \<Rightarrow> real \<Rightarrow> bool py" where
  "relative_move dev pan_delta tilt_delta zoom_delta speed =
     py_try (relative_move_body dev pan_delta tilt_delta zoom_delta speed)
            (\<lambda>e. py_seq (print (Failure ''relative move'' e)) (py_return False))"

definition stop_body :: "device \<Rightarrow> unit py" where
  "stop_body dev =
     py_bind (self_field ptz_service) (\<lambda>_.
     py_bind (self_field media_profile) (\<lambda>prof.
     py_bind (call (Stop (token prof) True True) (lib_Stop dev (token prof) True True)) (\<lambda>_.
     print (Info ''stopped''))))"

definition stop :: "device \<Rightarrow> unit py" where
  "stop dev = py_try (stop_body dev) (\<lambda>e. print (Failure ''stop'' e))"

definition continuous_move_body :: "device \<Rightarrow> real \<Rightarrow> real \<Rightarrow> real \<Rightarrow> real \<Rightarrow> unit py" where
  "continuous_move_body dev pan_speed tilt_speed zoom_speed duration =
     py_bind (self_field ptz_service) (\<lambda>_.
     py_bind (call (create_type ''ContinuousMove'') (lib_create_type dev ''ContinuousMove'')) (\<lambda>_.
     py_bind (self_field media_profile) (\<lambda>prof.
     py_bind (call (ContinuousMove (token prof) (vector_dict pan_speed tilt_speed zoom_speed))
                   (lib_ContinuousMove dev (token prof)
                      (vector_dict pan_speed tilt_speed zoom_speed))) (\<lambda>_.
     py_seq (print (Info ''continuous move started''))
    (py_seq (sleep dev duration)
            (stop dev))))))"

definition continuous_move :: "device \<Rightarrow> real \<Rightarrow> real \<Rightarrow> real \<Rightarrow> real \<Rightarrow> unit py" where
  "continuous_move dev pan_speed tilt_speed zoom_speed duration =
     py_try (continuous_move_body dev pan_speed tilt_speed zoom_speed duration)
            (\<lambda>e. print (Failure ''continuous move'' e))"

definition pan_left :: "device \<Rightarrow> real \<Rightarrow> real \<Rightarrow> unit py" where
  "pan_left dev speed duration = continuous_move dev (- speed) 0 0 duration"

definition pan_right :: "device \<Rightarrow> real \<Rightarrow> real \<Rightarrow> unit py" where
  "pan_right dev speed duration = continuous_move dev speed 0 0 duration"

definition tilt_up :: "device \<Rightarrow> real \<Rightarrow> real \<Rightarrow> unit py" where
  "tilt_up dev speed duration = continuous_move dev 0 speed 0 duration"

definition tilt_down :: "device \<Rightarrow> real \<Rightarrow> real \<Rightarrow> unit py" where
  "tilt_down dev speed duration = continuous_move dev 0 (- speed) 0 duration"

subsection \<open>Status\<close>

text \<open>
  \<^verbatim>\<open>serialize_object\<close> of the library turns an object into a dictionary of the
  attributes it has, a \<^verbatim>\<open>None\<close> attribute staying \<^verbatim>\<open>None\<close>.
\<close>

definition serialize_attr :: "string \<Rightarrow> ('a \<Rightarrow> pyval) \<Rightarrow> 'a attr \<Rightarrow> pydict" where
  "serialize_attr k f a =
     (case a of Absent \<Rightarrow> [] | IsNone \<Rightarrow> [(k, VNone)] | Has v \<Rightarrow> [(k, f v)])"

definition serialize_vector2d :: "vector2d \<Rightarrow> pyval" where
  "serialize_vector2d v = VDict [(''x'', VFloat (PanTilt_x v)), (''y'', VFloat (PanTilt_y v))]"

definition serialize_vector1d :: "vector1d \<Rightarrow> pyval" where
  "serialize_vector1d v = VDict [(''x'', VFloat (Zoom_x v))]"

definition serialize_ptz_vector :: "ptz_vector \<Rightarrow> pyval" where
  "serialize_ptz_vector v =
     VDict (serialize_attr ''PanTilt'' serialize_vector2d (PanTilt v) @
            serialize_attr ''Zoom'' serialize_vector1d (Zoom v))"

definition serialize_move_status :: "move_status \<Rightarrow> pyval" where
  "serialize_move_status m =
     VDict (serialize_attr ''PanTilt'' VStr (MoveStatus_PanTilt m) @
            serialize_attr ''Zoom'' VStr (MoveStatus_Zoom m))"

definition serialize_status :: "ptz_status \<Rightarrow> pydict" where
  "serialize_status st =
     serialize_attr ''Position'' serialize_ptz_vector (Position st) @
     serialize_attr ''MoveStatus'' serialize_move_status (MoveStatus st)"

definition serialize_device_information :: "device_information \<Rightarrow> pydict" where
  "serialize_device_information i =
     [(''Manufacturer'', VStr (Manufacturer i)), (''Model'', VStr (Model i)),
      (''FirmwareVersion'', VStr (FirmwareVersion i))]"

text \<open>
  The console lines of \<^verbatim>\<open>get_status\<close> (lines 362 to 373). The formatted expressions
  \<^verbatim>\<open>pos.PanTilt.x\<close> and \<^verbatim>\<open>pos.Zoom.x\<close> are evaluated before the line is printed,
  and raise when the attribute is there but \<^verbatim>\<open>None\<close>. \<^verbatim>\<open>hasattr\<close> on a position that
  is \<^verbatim>\<open>None\<close> is false.
\<close>

definition print_pan_tilt :: "vector2d attr \<Rightarrow> unit py" where
  "print_pan_tilt a =
     (if hasattr a then
        py_bind (py_lift (getattr a)) (\<lambda>v.
        py_bind (py_lift (not_none v)) (\<lambda>_.
        py_seq (print (Info ''pan'')) (print (Info ''tilt''))))
      else py_return ())"

definition print_zoom :: "vector1d attr \<Rightarrow> unit py" where
  "print_zoom a =
     (if hasattr a then
        py_bind (py_lift (getattr a)) (\<lambda>v.
        py_bind (py_lift (not_none v)) (\<lambda>_.
        print (Info ''zoom'')))
      else py_return ())"

definition print_position :: "ptz_status \<Rightarrow> unit py" where
  "print_position status =
     (if hasattr (Position status) then
        py_bind (py_lift (getattr (Position status))) (\<lambda>pos.
        (case pos of
           None \<Rightarrow> py_return ()
         | Some p \<Rightarrow> py_seq (print_pan_tilt (PanTilt p)) (print_zoom (Zoom p))))
      else py_return ())"

definition print_move_status :: "ptz_status \<Rightarrow> unit py" where
  "print_move_status status =
     (if hasattr (MoveStatus status) then print (Info ''move status'') else py_return ())"

definition get_status_body :: "device \<Rightarrow> pydict py" where
  "get_status_body dev =
     py_bind (self_field ptz_service) (\<lambda>_.
     py_bind (self_field media_profile) (\<lambda>prof.
     py_bind (call (GetStatus (token prof)) (lib_GetStatus dev (token prof))) (\<lambda>status.
     py_bind (py_return (serialize_status status)) (\<lambda>status_dict.
     py_seq (print (Info ''current status''))
    (py_seq (print_position status)
    (py_seq (print_move_status status)
            (py_return status_dict)))))))"

definition get_status :: "device \<Rightarrow> pydict py" where
  "get_status dev =
     py_try (get_status_body dev)
            (\<lambda>e. py_seq (print (Failure ''status'' e)) (py_return []))"

text \<open>
  Lines 391 to 403 of \<^verbatim>\<open>get_current_position\<close>: each component starts as 0.0 and is
  replaced when the position has the attribute; reading \<^verbatim>\<open>x\<close> or \<^verbatim>\<open>y\<close> of an
  attribute that is \<^verbatim>\<open>None\<close> raises.
\<close>

definition read_pan_tilt :: "ptz_vector option \<Rightarrow> exn + real \<times> real" where
  "read_pan_tilt pos =
     (case pos of
        None \<Rightarrow> Inr (0, 0)
      | Some p \<Rightarrow>
          (case PanTilt p of
             Absent \<Rightarrow> Inr (0, 0)
           | IsNone \<Rightarrow> Inl AttributeError
           | Has pt \<Rightarrow> Inr (PanTilt_x pt, PanTilt_y pt)))"

definition read_zoom :: "ptz_vector option \<Rightarrow> exn + real" where
  "read_zoom pos =
     (case pos of
        None \<Rightarrow> Inr 0
      | Some p \<Rightarrow>
          (case Zoom p of
             Absent \<Rightarrow> Inr 0
           | IsNone \<Rightarrow> Inl AttributeError
           | Has z \<Rightarrow> Inr (Zoom_x z)))"

definition read_position :: "ptz_status \<Rightarrow> exn + real \<times> real \<times> real" where
  "read_position status =
     (if hasattr (Position status) then
        (case getattr (Position status) of
           Inl e \<Rightarrow> Inl e
         | Inr pos \<Rightarrow>
             (case read_pan_tilt pos of
                Inl e \<Rightarrow> Inl e
              | Inr (pan, tilt) \<Rightarrow>
                  (case read_zoom pos of
                     Inl e \<Rightarrow> Inl e
                   | Inr zoom \<Rightarrow> Inr (pan, tilt, zoom))))
      else Inr (0, 0, 0))"

definition get_current_position_body :: "device \<Rightarrow> (real \<times> real \<times> real) py" where
  "get_current_position_body dev =
     py_bind (self_field ptz_service) (\<lambda>_.
     py_bind (self_field media_profile) (\<lambda>prof.
     py_bind (call (GetStatus (token prof)) (lib_GetStatus dev (token prof))) (\<lambda>status.
     py_lift (read_position status))))"

definition get_current_position :: "device \<Rightarrow> (real \<times> real \<times> real) py" where
  "get_current_position dev =
     py_try (get_current_position_body dev)
            (\<lambda>e. py_seq (print (Failure ''position'' e)) (py_return (0, 0, 0)))"

subsection \<open>Connecting and range discovery\<close>

text \<open>
  Lines 120 to 126 of \<^verbatim>\<open>_get_ptz_config_options\<close>. The condition
  \<^verbatim>\<open>hasattr(spaces, name) and spaces.name\<close> holds when the attribute is a non-empty
  list; \<^verbatim>\<open>hasattr\<close> on \<^verbatim>\<open>None\<close> is false.
\<close>

definition discover_pan_tilt :: "ptz_spaces option \<Rightarrow> unit py" where
  "discover_pan_tilt spaces =
     (case spaces of
        None \<Rightarrow> py_return ()
      | Some sp \<Rightarrow>
          (case AbsolutePanTiltPositionSpace sp of
             Has (abs_space # _) \<Rightarrow>
               py_seq (set_self (\<lambda>c. c\<lparr>pan_range :=
                                        (Min (XRange abs_space), Max (XRange abs_space))\<rparr>))
              (py_seq (set_self (\<lambda>c. c\<lparr>tilt_range :=
                                        (Min (YRange abs_space), Max (YRange abs_space))\<rparr>))
              (py_seq (print (Info ''absolute range''))
              (py_seq (print (Info ''pan range''))
                      (print (Info ''tilt range'')))))
           | _ \<Rightarrow> py_return ()))"

text \<open>Lines 129 to 132.\<close>

definition discover_zoom :: "ptz_spaces option \<Rightarrow> unit py" where
  "discover_zoom spaces =
     (case spaces of
        None \<Rightarrow> py_return ()
      | Some sp \<Rightarrow>
          (case AbsoluteZoomPositionSpace sp of
             Has (zoom_space # _) \<Rightarrow>
               py_seq (set_self (\<lambda>c. c\<lparr>zoom_range :=
                                        (Min (Zoom_XRange zoom_space), Max (Zoom_XRange zoom_space))\<rparr>))
                      (print (Info ''zoom range''))
           | _ \<Rightarrow> py_return ()))"

definition get_ptz_config_options_body :: "device \<Rightarrow> unit py" where
  "get_ptz_config_options_body dev =
     py_bind (self_field ptz_service) (\<lambda>_.
     py_bind (call (create_type ''GetConfigurationOptions'')
                   (lib_create_type dev ''GetConfigurationOptions'')) (\<lambda>_.
     py_bind (self_field media_profile) (\<lambda>prof.
     py_bind (py_lift (getattr (PTZConfiguration prof))) (\<lambda>cfg.
     py_bind (py_lift (not_none cfg)) (\<lambda>cfg.
     py_bind (call (GetConfigurationOptions (PTZConfiguration_token cfg))
                   (lib_GetConfigurationOptions dev (PTZConfiguration_token cfg))) (\<lambda>opts.
     py_seq (set_self (\<lambda>c. c\<lparr>ptz_config_options := Some opts\<rparr>))
    (py_bind (py_lift (getattr (Spaces opts))) (\<lambda>spaces.
     py_seq (discover_pan_tilt spaces)
            (discover_zoom spaces)))))))))"

definition get_ptz_config_options :: "device \<Rightarrow> unit py" where
  "get_ptz_config_options dev =
     py_try (get_ptz_config_options_body dev)
            (\<lambda>e. print (Failure ''ptz configuration options'' e))"

text \<open>\<^verbatim>\<open>if self.wsdl_dir:\<close> passes the directory on when it is a non-empty string.\<close>

definition wsdl_arg :: "controller \<Rightarrow> string option" where
  "wsdl_arg c = (case wsdl_dir c of None \<Rightarrow> None | Some d \<Rightarrow> (if d = [] then None else Some d))"

definition first_profile :: "profile list \<Rightarrow> profile py" where
  "first_profile profiles =
     (case profiles of [] \<Rightarrow> py_raise NoMediaProfile | p # _ \<Rightarrow> py_return p)"

definition connect_body :: "device \<Rightarrow> bool py" where
  "connect_body dev =
     py_seq (print (Info ''connecting''))
    (py_bind get_self (\<lambda>c.
     py_bind (call (ONVIFCamera (host c) (port c) (user c) (password c) (wsdl_arg c))
                   (lib_ONVIFCamera dev (host c) (port c) (user c) (password c) (wsdl_arg c))) (\<lambda>cam.
     py_seq (set_self (\<lambda>c. c\<lparr>camera := Some cam\<rparr>))
    (py_seq (print (Info ''connected''))
    (py_bind (call GetDeviceInformation (lib_GetDeviceInformation dev)) (\<lambda>device_info.
     py_seq (print (Info ''manufacturer''))
    (py_seq (print (Info ''model''))
    (py_seq (print (Info ''firmware version''))
    (py_bind (call create_media_service (lib_create_media_service dev)) (\<lambda>ms.
     py_seq (set_self (\<lambda>c. c\<lparr>media_service := Some ms\<rparr>))
    (py_seq (print (Info ''media service created''))
    (py_bind (call GetProfiles (lib_GetProfiles dev)) (\<lambda>profiles.
     py_bind (first_profile profiles) (\<lambda>p.
     py_seq (set_self (\<lambda>c. c\<lparr>media_profile := Some p\<rparr>))
    (py_seq (print (Info ''profile name''))
    (py_seq (print (Info ''profile token''))
    (py_bind (call create_ptz_service (lib_create_ptz_service dev)) (\<lambda>ptz.
     py_seq (set_self (\<lambda>c. c\<lparr>ptz_service := Some ptz\<rparr>))
    (py_seq (print (Info ''ptz service created''))
    (py_seq (get_ptz_config_options dev)
            (py_return True)))))))))))))))))))))"

definition connect :: "device \<Rightarrow> bool py" where
  "connect dev =
     py_try (connect_body dev)
            (\<lambda>e. py_seq (print (Failure ''connect'' e)) (py_return False))"

subsection \<open>Stream addresses\<close>

text \<open>\<^verbatim>\<open>str\<close> of an integer, as the formatted string literal applies it.\<close>

definition digit :: "nat \<Rightarrow> char" where
  "digit d = ''0123456789'' ! d"

function decimal :: "nat \<Rightarrow> string" where
  "decimal n = (if n div 10 = 0 then [digit n] else decimal (n div 10) @ [digit (n mod 10)])"
  by pat_completeness auto
termination
  by (relation "measure id") auto

definition str_int :: "int \<Rightarrow> string" where
  "str_int i = (if 0 \<le> i then decimal (nat i) else CHR ''-'' # decimal (nat (- i)))"

definition get_rtsp_url :: "int \<Rightarrow> string py" where
  "get_rtsp_url stream_index =
     py_bind get_self (\<lambda>c.
     py_return (''rtsp://'' @ user c @ '':'' @ password c @ ''@'' @ host c @ '':554/stream'' @
                str_int stream_index))"

definition get_onvif_stream_url_body :: "device \<Rightarrow> string py" where
  "get_onvif_stream_url_body dev =
     py_bind (self_field media_service) (\<lambda>_.
     py_bind (call (create_type ''GetStreamUri'') (lib_create_type dev ''GetStreamUri'')) (\<lambda>_.
     py_bind (self_field media_profile) (\<lambda>prof.
     call (GetStreamUri (token prof)) (lib_GetStreamUri dev (token prof)))))"

definition get_onvif_stream_url :: "device \<Rightarrow> string py" where
  "get_onvif_stream_url dev =
     py_try (get_onvif_stream_url_body dev)
            (\<lambda>e. py_seq (print (Failure ''stream url'' e)) (py_return []))"

subsection \<open>Presets and home position\<close>

text \<open>
  The console line of one preset (lines 427 to 433): \<^verbatim>\<open>pos.PanTilt.x\<close> is read when
  the position has a \<^verbatim>\<open>PanTilt\<close> attribute, and raises when that is \<^verbatim>\<open>None\<close>.
\<close>

definition print_preset :: "preset \<Rightarrow> unit py" where
  "print_preset p =
     (if hasattr (PTZPosition p) then
        py_bind (py_lift (getattr (PTZPosition p))) (\<lambda>pos.
        (case pos of
           None \<Rightarrow> print (Info ''preset with position'')
         | Some v \<Rightarrow>
             (if hasattr (PanTilt v) then
                py_bind (py_lift (getattr (PanTilt v))) (\<lambda>pt.
                py_bind (py_lift (not_none pt)) (\<lambda>_.
                print (Info ''preset with position'')))
              else print (Info ''preset with position''))))
      else print (Info ''preset''))"

fun presets_loop :: "preset list \<Rightarrow> (string \<rightharpoonup> string) \<Rightarrow> (string \<rightharpoonup> string) py" where
  "presets_loop [] preset_dict = py_return preset_dict"
| "presets_loop (p # ps) preset_dict =
     py_seq (print_preset p)
            (presets_loop ps (preset_dict(Preset_token p \<mapsto> Preset_Name p)))"

definition get_presets_body :: "device \<Rightarrow> (string \<rightharpoonup> string) py" where
  "get_presets_body dev =
     py_bind (self_field ptz_service) (\<lambda>_.
     py_bind (self_field media_profile) (\<lambda>prof.
     py_bind (call (GetPresets (token prof)) (lib_GetPresets dev (token prof))) (\<lambda>presets.
     py_seq (print (Info ''presets''))
            (presets_loop presets Map.empty))))"

definition get_presets :: "device \<Rightarrow> (string \<rightharpoonup> string) py" where
  "get_presets dev =
     py_try (get_presets_body dev)
            (\<lambda>e. py_seq (print (Failure ''presets'' e)) (py_return Map.empty))"

definition goto_preset_body :: "device \<Rightarrow> string \<Rightarrow> real \<Rightarrow> unit py" where
  "goto_preset_body dev preset_token speed =
     py_bind (self_field ptz_service) (\<lambda>_.
     py_bind (call (create_type ''GotoPreset'') (lib_create_type dev ''GotoPreset'')) (\<lambda>_.
     py_bind (self_field media_profile) (\<lambda>prof.
     py_bind (call (GotoPreset (token prof) preset_token (speed_dict speed))
                   (lib_GotoPreset dev (token prof) preset_token (speed_dict speed))) (\<lambda>_.
     print (Info ''moving to preset'')))))"

definition goto_preset :: "device \<Rightarrow> string \<Rightarrow> real \<Rightarrow> unit py" where
  "goto_preset dev preset_token speed =
     py_try (goto_preset_body dev preset_token speed)
            (\<lambda>e. print (Failure ''goto preset'' e))"

text \<open>\<^verbatim>\<open>if preset_token:\<close> sets the request's token when it is a non-empty string.\<close>

definition preset_token_arg :: "string option \<Rightarrow> string option" where
  "preset_token_arg t = (case t of None \<Rightarrow> None | Some v \<Rightarrow> (if v = [] then None else Some v))"

text \<open>
  The library hands back the one element of the \<^verbatim>\<open>SetPreset\<close> response, the token, as
  a plain string. Line 484 reads \<^verbatim>\<open>response.PresetToken\<close> on it, an attribute a string
  does not have, so the read raises.
\<close>

definition str_PresetToken :: "string \<Rightarrow> exn + string" where
  "str_PresetToken response = Inl AttributeError"

definition set_preset_body :: "device \<Rightarrow> string \<Rightarrow> string option \<Rightarrow> string py" where
  "set_preset_body dev preset_name preset_token =
     py_bind (self_field ptz_service) (\<lambda>_.
     py_bind (call (create_type ''SetPreset'') (lib_create_type dev ''SetPreset'')) (\<lambda>_.
     py_bind (self_field media_profile) (\<lambda>prof.
     py_bind (call (SetPreset (token prof) preset_name (preset_token_arg preset_token))
                   (lib_SetPreset dev (token prof) preset_name (preset_token_arg preset_token)))
             (\<lambda>response.
     py_bind (py_lift (str_PresetToken response)) (\<lambda>tok.
     py_seq (print (Info ''preset set''))
            (py_return tok))))))"

definition set_preset :: "device \<Rightarrow> string \<Rightarrow> string option \<Rightarrow> string py" where
  "set_preset dev preset_name preset_token =
     py_try (set_preset_body dev preset_name preset_token)
            (\<lambda>e. py_seq (print (Failure ''set preset'' e)) (py_return []))"

definition remove_preset_body :: "device \<Rightarrow> string \<Rightarrow> unit py" where
  "remove_preset_body dev preset_token =
     py_bind (self_field ptz_service) (\<lambda>_.
     py_bind (self_field media_profile) (\<lambda>prof.
     py_bind (call (RemovePreset (token prof) preset_token)
                   (lib_RemovePreset dev (token prof) preset_token)) (\<lambda>_.
     print (Info ''preset removed''))))"

definition remove_preset :: "device \<Rightarrow> string \<Rightarrow> unit py" where
  "remove_preset dev preset_token =
     py_try (remove_preset_body dev preset_token)
            (\<lambda>e. print (Failure ''remove preset'' e))"

definition goto_home_body :: "device \<Rightarrow> real \<Rightarrow> unit py" where
  "goto_home_body dev speed =
     py_bind (self_field ptz_service) (\<lambda>_.
     py_bind (call (create_type ''GotoHomePosition'') (lib_create_type dev ''GotoHomePosition'')) (\<lambda>_.
     py_bind (self_field media_profile) (\<lambda>prof.
     py_bind (call (GotoHomePosition (token prof) (speed_dict speed))
                   (lib_GotoHomePosition dev (token prof) (speed_dict speed))) (\<lambda>_.
     print (Info ''moving home'')))))"

definition goto_home :: "device \<Rightarrow> real \<Rightarrow> unit py" where
  "goto_home dev speed =
     py_try (goto_home_body dev speed) (\<lambda>e. print (Failure ''goto home'' e))"

definition set_home_body :: "device \<Rightarrow> unit py" where
  "set_home_body dev =
     py_bind (self_field ptz_service) (\<lambda>_.
     py_bind (self_field media_profile) (\<lambda>prof.
     py_bind (call (SetHomePosition (token prof)) (lib_SetHomePosition dev (token prof))) (\<lambda>_.
     print (Info ''home set''))))"

definition set_home :: "device \<Rightarrow> unit py" where
  "set_home dev = py_try (set_home_body dev) (\<lambda>e. print (Failure ''set home'' e))"

subsection \<open>Device information\<close>

text \<open>
  The capabilities and the nodes are held as the library serializes them: the wrapper
  hands them on and reads nothing in them.
\<close>

definition get_device_info_body :: "device \<Rightarrow> pydict py" where
  "get_device_info_body dev =
     py_bind (self_field camera) (\<lambda>_.
     py_bind (call GetDeviceInformation (lib_GetDeviceInformation dev)) (\<lambda>info.
     py_return (serialize_device_information info)))"

definition get_device_info :: "device \<Rightarrow> pydict py" where
  "get_device_info dev =
     py_try (get_device_info_body dev)
            (\<lambda>e. py_seq (print (Failure ''device information'' e)) (py_return []))"

definition get_capabilities_body :: "device \<Rightarrow> pydict py" where
  "get_capabilities_body dev =
     py_bind (self_field camera) (\<lambda>_.
     call GetCapabilities (lib_GetCapabilities dev))"

definition get_capabilities :: "device \<Rightarrow> pydict py" where
  "get_capabilities dev =
     py_try (get_capabilities_body dev)
            (\<lambda>e. py_seq (print (Failure ''capabilities'' e)) (py_return []))"

definition get_ptz_nodes_body :: "device \<Rightarrow> pyval list py" where
  "get_ptz_nodes_body dev =
     py_bind (self_field ptz_service) (\<lambda>_.
     call GetNodes (lib_GetNodes dev))"

definition get_ptz_nodes :: "device \<Rightarrow> pyval list py" where
  "get_ptz_nodes dev =
     py_try (get_ptz_nodes_body dev)
            (\<lambda>e. py_seq (print (Failure ''ptz nodes'' e)) (py_return []))"

section \<open>One call of a method\<close>

text \<open>
  A call of a method on a controller: what it returns or raises, the events it causes,
  and the controller it leaves.
\<close>

definition exec :: "'a py \<Rightarrow> controller \<Rightarrow> (exn + 'a) \<times> state" where
  "exec m c = m \<lparr>self = c, trace = []\<rparr>"

definition result :: "'a py \<Rightarrow> controller \<Rightarrow> exn + 'a" where
  "result m c = fst (exec m c)"

definition events :: "'a py \<Rightarrow> controller \<Rightarrow> event list" where
  "events m c = trace (snd (exec m c))"

definition after :: "'a py \<Rightarrow> controller \<Rightarrow> controller" where
  "after m c = self (snd (exec m c))"

text \<open>
  A method that only reads the controller: on every state it returns what it returns on
  the controller alone, appends the events it causes there, and changes nothing else.
\<close>

definition reads_only :: "'a py \<Rightarrow> bool" where
  "reads_only m =
     (\<forall>s. m s = (result m (self s), s\<lparr>trace := trace s @ events m (self s)\<rparr>))"

text \<open>
  A method that may also assign fields of the controller: what it returns, the events
  it causes and the controller it leaves depend on the controller alone, and the events
  are appended to the trace.
\<close>

definition traced :: "'a py \<Rightarrow> bool" where
  "traced m =
     (\<forall>s. m s = (result m (self s),
                  \<lparr>self = after m (self s), trace = trace s @ events m (self s)\<rparr>))"

section \<open>Reading a request and a trace\<close>

text \<open>The coordinates a position carries, when it carries them.\<close>

definition sent_pan :: "ptz_vector option \<Rightarrow> real option" where
  "sent_pan pos =
     (case pos of
        None \<Rightarrow> None
      | Some p \<Rightarrow> (case PanTilt p of Has pt \<Rightarrow> Some (PanTilt_x pt) | _ \<Rightarrow> None))"

definition sent_tilt :: "ptz_vector option \<Rightarrow> real option" where
  "sent_tilt pos =
     (case pos of
        None \<Rightarrow> None
      | Some p \<Rightarrow> (case PanTilt p of Has pt \<Rightarrow> Some (PanTilt_y pt) | _ \<Rightarrow> None))"

definition sent_zoom :: "ptz_vector option \<Rightarrow> real option" where
  "sent_zoom pos =
     (case pos of
        None \<Rightarrow> None
      | Some p \<Rightarrow> (case Zoom p of Has z \<Rightarrow> Some (Zoom_x z) | _ \<Rightarrow> None))"

text \<open>The name of the library operation an event is a call of.\<close>

fun op_name :: "event \<Rightarrow> string" where
  "op_name (ONVIFCamera h p u pw w) = ''ONVIFCamera''"
| "op_name GetDeviceInformation = ''GetDeviceInformation''"
| "op_name create_media_service = ''create_media_service''"
| "op_name GetProfiles = ''GetProfiles''"
| "op_name create_ptz_service = ''create_ptz_service''"
| "op_name (create_type n) = ''create_type''"
| "op_name (GetConfigurationOptions t) = ''GetConfigurationOptions''"
| "op_name (GetStreamUri t) = ''GetStreamUri''"
| "op_name (GetStatus t) = ''GetStatus''"
| "op_name (AbsoluteMove t p s) = ''AbsoluteMove''"
| "op_name (RelativeMove t p s) = ''RelativeMove''"
| "op_name (ContinuousMove t v) = ''ContinuousMove''"
| "op_name (Stop t p z) = ''Stop''"
| "op_name (GetPresets t) = ''GetPresets''"
| "op_name (GotoPreset t p s) = ''GotoPreset''"
| "op_name (SetPreset t n p) = ''SetPreset''"
| "op_name (RemovePreset t p) = ''RemovePreset''"
| "op_name (GotoHomePosition t s) = ''GotoHomePosition''"
| "op_name (SetHomePosition t) = ''SetHomePosition''"
| "op_name GetCapabilities = ''GetCapabilities''"
| "op_name GetNodes = ''GetNodes''"
| "op_name (Sleep d) = ''sleep''"
| "op_name (Print m) = ''print''"

definition calls :: "string \<Rightarrow> event list \<Rightarrow> event list" where
  "calls n evs = filter (\<lambda>ev. op_name ev = n) evs"

section \<open>A sample camera\<close>

definition demo_profile :: profile where
  "demo_profile = \<lparr>Name = ''mainStream'', token = ''profile_1'',
                    PTZConfiguration = Has \<lparr>PTZConfiguration_token = ''PTZToken''\<rparr>\<rparr>"

text \<open>A controller after a successful \<^verbatim>\<open>connect\<close>, with the ranges still at their defaults.\<close>

definition demo_controller :: controller where
  "demo_controller =
     (init ''192.168.1.100'' 2020 ''admin'' ''secret'' None)
       \<lparr>camera := Some 1, media_service := Some 2, ptz_service := Some 3,
        media_profile := Some demo_profile\<rparr>"

definition demo_status :: ptz_status where
  "demo_status =
     \<lparr>Position = Has \<lparr>PanTilt = Has \<lparr>PanTilt_x = 1/4, PanTilt_y = -1/2\<rparr>,
                      Zoom = Has \<lparr>Zoom_x = 0\<rparr>\<rparr>,
      MoveStatus = Has \<lparr>MoveStatus_PanTilt = Has ''IDLE'', MoveStatus_Zoom = Has ''IDLE''\<rparr>\<rparr>"

definition demo_options :: ptz_configuration_options where
  "demo_options =
     \<lparr>Spaces = Has
        \<lparr>AbsolutePanTiltPositionSpace =
           Has [\<lparr>XRange = \<lparr>Min = -1, Max = 1\<rparr>, YRange = \<lparr>Min = -1/2, Max = 1/2\<rparr>\<rparr>],
         AbsoluteZoomPositionSpace = Has []\<rparr>\<rparr>"

text \<open>
  A platform's \<^verbatim>\<open>time.sleep\<close>: the length is converted to nanoseconds in 64 bits, which
  raises \<^verbatim>\<open>OverflowError\<close> when it does not fit; a negative length raises
  \<^verbatim>\<open>ValueError\<close>.
\<close>

definition demo_sleep :: "real \<Rightarrow> exn + unit" where
  "demo_sleep d =
     (if d * 10 ^ 9 < - (2 ^ 63) \<or> 2 ^ 63 \<le> d * 10 ^ 9 then Inl OverflowError
      else if d < 0 then Inl ValueError
      else Inr ())"

definition demo_device :: device where
  "demo_device =
     \<lparr>lib_ONVIFCamera = (\<lambda>h p u pw w. Inr 1),
      lib_GetDeviceInformation =
        Inr \<lparr>Manufacturer = ''tp-link'', Model = ''C225'', FirmwareVersion = ''1.0''\<rparr>,
      lib_create_media_service = Inr 2,
      lib_GetProfiles = Inr [demo_profile],
      lib_create_ptz_service = Inr 3,
      lib_create_type = (\<lambda>n. Inr ()),
      lib_GetConfigurationOptions = (\<lambda>t. Inr demo_options),
      lib_GetStreamUri = (\<lambda>t. Inr ''rtsp://192.168.1.100:554/stream1''),
      lib_GetStatus = (\<lambda>t. Inr demo_status),
      lib_AbsoluteMove = (\<lambda>t p s. Inr ()),
      lib_RelativeMove = (\<lambda>t p s. Inr ()),
      lib_ContinuousMove = (\<lambda>t v. Inr ()),
      lib_Stop = (\<lambda>t p z. Inr ()),
      lib_GetPresets = (\<lambda>t. Inr []),
      lib_GotoPreset = (\<lambda>t p s. Inr ()),
      lib_SetPreset = (\<lambda>t n p. Inr ''1''),
      lib_RemovePreset = (\<lambda>t p. Inr ()),
      lib_GotoHomePosition = (\<lambda>t s. Inr ()),
      lib_SetHomePosition = (\<lambda>t. Inr ()),
      lib_GetCapabilities = Inr [],
      lib_GetNodes = Inr [],
      time_sleep = demo_sleep\<rparr>"

text \<open>The same camera when it reports no zoom: the optional element is \<^verbatim>\<open>None\<close>.\<close>

definition no_zoom_status :: ptz_status where
  "no_zoom_status =
     \<lparr>Position = Has \<lparr>PanTilt = Has \<lparr>PanTilt_x = 1/4, PanTilt_y = -1/2\<rparr>, Zoom = IsNone\<rparr>,
      MoveStatus = Has \<lparr>MoveStatus_PanTilt = Has ''IDLE'', MoveStatus_Zoom = IsNone\<rparr>\<rparr>"

definition no_zoom_device :: device where
  "no_zoom_device = demo_device\<lparr>lib_GetStatus := (\<lambda>t. Inr no_zoom_status)\<rparr>"

text \<open>The same camera when every request to it fails.\<close>

definition failing_device :: device where
  "failing_device =
     \<lparr>lib_ONVIFCamera = (\<lambda>h p u pw w. Inl (LibraryError ''timeout'')),
      lib_GetDeviceInformation = Inl (LibraryError ''timeout''),
      lib_create_media_service = Inl (LibraryError ''timeout''),
      lib_GetProfiles = Inl (LibraryError ''timeout''),
      lib_create_ptz_service = Inl (LibraryError ''timeout''),
      lib_create_type = (\<lambda>n. Inr ()),
      lib_GetConfigurationOptions = (\<lambda>t. Inl (LibraryError ''timeout'')),
      lib_GetStreamUri = (\<lambda>t. Inl (LibraryError ''timeout'')),
      lib_GetStatus = (\<lambda>t. Inl (LibraryError ''timeout'')),
      lib_AbsoluteMove = (\<lambda>t p s. Inl (LibraryError ''timeout'')),
      lib_RelativeMove = (\<lambda>t p s. Inl (LibraryError ''timeout'')),
      lib_ContinuousMove = (\<lambda>t v. Inl (LibraryError ''timeout'')),
      lib_Stop = (\<lambda>t p z. Inl (LibraryError ''timeout'')),
      lib_GetPresets = (\<lambda>t. Inl (LibraryError ''timeout'')),
      lib_GotoPreset = (\<lambda>t p s. Inl (LibraryError ''timeout'')),
      lib_SetPreset = (\<lambda>t n p. Inl (LibraryError ''timeout'')),
      lib_RemovePreset = (\<lambda>t p. Inl (LibraryError ''timeout'')),
      lib_GotoHomePosition = (\<lambda>t s. Inl (LibraryError ''timeout'')),
      lib_SetHomePosition = (\<lambda>t. Inl (LibraryError ''timeout'')),
      lib_GetCapabilities = Inl (LibraryError ''timeout''),
      lib_GetNodes = Inl (LibraryError ''timeout''),
      time_sleep = demo_sleep\<rparr>"

text \<open>The same camera when it stands at the origin.\<close>

definition origin_status :: ptz_status where
  "origin_status =
     \<lparr>Position = Has \<lparr>PanTilt = Has \<lparr>PanTilt_x = 0, PanTilt_y = 0\<rparr>, Zoom = Has \<lparr>Zoom_x = 0\<rparr>\<rparr>,
      MoveStatus = Has \<lparr>MoveStatus_PanTilt = Has ''IDLE'', MoveStatus_Zoom = Has ''IDLE''\<rparr>\<rparr>"

definition origin_device :: device where
  "origin_device = demo_device\<lparr>lib_GetStatus := (\<lambda>t. Inr origin_status)\<rparr>"

section \<open>Unfolding a call\<close>

lemmas py_defs = py_return_def py_raise_def py_lift_def py_bind_def py_seq_def py_try_def
  call_def print_def sleep_def self_field_def get_self_def set_self_def not_none_def
  getattr_def hasattr_def

lemmas run_defs = exec_def result_def events_def after_def

lemmas demo_defs = demo_profile_def demo_controller_def demo_status_def demo_options_def
  demo_sleep_def demo_device_def no_zoom_status_def no_zoom_device_def failing_device_def
  origin_status_def origin_device_def init_def

section \<open>Absolute moves\<close>

text \<open>
  When \<^verbatim>\<open>absolute_move\<close> reaches the library's \<^verbatim>\<open>AbsoluteMove\<close>, the status was read
  first, the position sent is the status's position after lines 204 to 218, and the
  call has made exactly four events.
\<close>

lemma absolute_move_sent:
  assumes "AbsoluteMove tok pos spd \<in> set (events (absolute_move dev pan tilt zoom speed) c)"
  shows "\<exists>prof status position p1 rest.
           media_profile c = Some prof \<and> tok = token prof \<and>
           lib_GetStatus dev tok = Inr status \<and> getattr (Position status) = Inr position \<and>
           set_pan_tilt c pan tilt position = Inr p1 \<and> set_zoom c zoom p1 = Inr pos \<and>
           spd = speed_dict speed \<and>
           events (absolute_move dev pan tilt zoom speed) c =
             [create_type ''AbsoluteMove'', GetStatus tok, AbsoluteMove tok pos spd, rest]"
  using assms
  unfolding run_defs absolute_move_def absolute_move_body_def py_defs
  by (auto split: sum.splits option.splits prod.splits if_splits attr.splits)

lemma clamp_max_min: "clamp rng v = max (fst rng) (min (snd rng) v)"
  by (simp add: clamp_def py_max_def py_min_def max_def min_def)

lemma set_pan_tilt_pan:
  "set_pan_tilt c (Some v) tilt position = Inr p1 \<Longrightarrow> sent_pan p1 = Some (clamp (pan_range c) v)"
  by (auto simp: set_pan_tilt_def sent_pan_def Let_def split: option.splits attr.splits)

lemma set_pan_tilt_tilt:
  "set_pan_tilt c pan (Some v) position = Inr p1 \<Longrightarrow> sent_tilt p1 = Some (clamp (tilt_range c) v)"
  by (auto simp: set_pan_tilt_def sent_tilt_def Let_def split: option.splits attr.splits)

lemma set_pan_tilt_zoom:
  "set_pan_tilt c pan tilt position = Inr p1 \<Longrightarrow> map_option Zoom p1 = map_option Zoom position"
  by (auto simp: set_pan_tilt_def Let_def split: option.splits attr.splits if_splits)

lemma set_pan_tilt_none: "set_pan_tilt c None None position = Inr p1 \<Longrightarrow> p1 = position"
  by (auto simp: set_pan_tilt_def)

lemma set_pan_tilt_keep_pan:
  "set_pan_tilt c None tilt position = Inr p1 \<Longrightarrow> sent_pan p1 = sent_pan position"
  by (auto simp: set_pan_tilt_def sent_pan_def Let_def split: option.splits attr.splits if_splits)

lemma set_pan_tilt_keep_tilt:
  "set_pan_tilt c pan None position = Inr p1 \<Longrightarrow> sent_tilt p1 = sent_tilt position"
  by (auto simp: set_pan_tilt_def sent_tilt_def Let_def split: option.splits attr.splits if_splits)

lemma set_zoom_zoom:
  "set_zoom c (Some v) p1 = Inr pos \<Longrightarrow> sent_zoom pos = Some (clamp (zoom_range c) v)"
  by (auto simp: set_zoom_def sent_zoom_def split: option.splits attr.splits)

lemma set_zoom_pan_tilt:
  "set_zoom c zoom p1 = Inr pos \<Longrightarrow> map_option PanTilt pos = map_option PanTilt p1"
  by (auto simp: set_zoom_def split: option.splits attr.splits)

lemma set_zoom_none: "set_zoom c None p1 = Inr pos \<Longrightarrow> pos = p1"
  by (auto simp: set_zoom_def)

lemma sent_pan_cong: "map_option PanTilt a = map_option PanTilt b \<Longrightarrow> sent_pan a = sent_pan b"
  by (cases a; cases b) (auto simp: sent_pan_def)

lemma sent_tilt_cong: "map_option PanTilt a = map_option PanTilt b \<Longrightarrow> sent_tilt a = sent_tilt b"
  by (cases a; cases b) (auto simp: sent_tilt_def)

lemma sent_zoom_cong: "map_option Zoom a = map_option Zoom b \<Longrightarrow> sent_zoom a = sent_zoom b"
  by (cases a; cases b) (auto simp: sent_zoom_def)

text \<open>
  On a connected controller, when the request object is made, the status is read and
  lines 204 to 218 go through, \<^verbatim>\<open>AbsoluteMove\<close> is sent with the resulting position.
\<close>

lemma absolute_move_events:
  assumes "ptz_service c = Some h" "media_profile c = Some prof"
    "lib_create_type dev ''AbsoluteMove'' = Inr ()"
    "lib_GetStatus dev (token prof) = Inr status" "getattr (Position status) = Inr position"
    "set_pan_tilt c pan tilt position = Inr p1" "set_zoom c zoom p1 = Inr pos"
  shows "\<exists>rest. events (absolute_move dev pan tilt zoom speed) c =
           [create_type ''AbsoluteMove'', GetStatus (token prof),
            AbsoluteMove (token prof) pos (speed_dict speed), rest]"
  using assms
  unfolding run_defs absolute_move_def absolute_move_body_def py_defs
  by (auto split: sum.splits)

lemma set_pan_tilt_ok:
  assumes "pan \<noteq> None \<or> tilt \<noteq> None \<longrightarrow> (\<exists>pt. PanTilt p = Has pt)"
  shows "\<exists>p1. set_pan_tilt c pan tilt (Some p) = Inr (Some p1) \<and> Zoom p1 = Zoom p"
  using assms
  by (auto simp: set_pan_tilt_def Let_def split: option.splits)

lemma set_zoom_ok:
  assumes "zoom \<noteq> None \<longrightarrow> (\<exists>z. Zoom p1 = Has z)"
  shows "\<exists>p2. set_zoom c zoom (Some p1) = Inr (Some p2)"
  using assms
  by (auto simp: set_zoom_def split: option.splits)

lemma absolute_move_is_sent:
  assumes "ptz_service c = Some h" "media_profile c = Some prof"
    "lib_create_type dev ''AbsoluteMove'' = Inr ()"
    "lib_GetStatus dev (token prof) = Inr status" "Position status = Has p"
    "pan \<noteq> None \<or> tilt \<noteq> None \<longrightarrow> (\<exists>pt. PanTilt p = Has pt)"
    "zoom \<noteq> None \<longrightarrow> (\<exists>z. Zoom p = Has z)"
  shows "\<exists>pos rest. events (absolute_move dev pan tilt zoom speed) c =
           [create_type ''AbsoluteMove'', GetStatus (token prof),
            AbsoluteMove (token prof) pos (speed_dict speed), rest]"
proof -
  from set_pan_tilt_ok [OF assms(6), of c] obtain p1 where
    p1: "set_pan_tilt c pan tilt (Some p) = Inr (Some p1)" "Zoom p1 = Zoom p"
    by blast
  from assms(7) p1(2) have "zoom \<noteq> None \<longrightarrow> (\<exists>z. Zoom p1 = Has z)"
    by simp
  from set_zoom_ok [OF this, of c] obtain p2 where
    p2: "set_zoom c zoom (Some p1) = Inr (Some p2)"
    by blast
  have g: "getattr (Position status) = Inr (Some p)"
    using assms(5) by (simp add: getattr_def)
  from absolute_move_events [OF assms(1-4) g p1(1) p2, of speed] show ?thesis
    by blast
qed

lemma absolute_move_sent_clamped:
  assumes "AbsoluteMove tok pos spd \<in> set (events (absolute_move dev pan tilt zoom speed) c)"
  shows "(\<forall>v. pan = Some v \<longrightarrow>
            sent_pan pos = Some (max (fst (pan_range c)) (min (snd (pan_range c)) v)))
       \<and> (\<forall>v. tilt = Some v \<longrightarrow>
            sent_tilt pos = Some (max (fst (tilt_range c)) (min (snd (tilt_range c)) v)))
       \<and> (\<forall>v. zoom = Some v \<longrightarrow>
            sent_zoom pos = Some (max (fst (zoom_range c)) (min (snd (zoom_range c)) v)))"
proof -
  from absolute_move_sent [OF assms] obtain position p1 where
    pt: "set_pan_tilt c pan tilt position = Inr p1" and z: "set_zoom c zoom p1 = Inr pos"
    by blast
  have pan_eq: "sent_pan pos = sent_pan p1" and tilt_eq: "sent_tilt pos = sent_tilt p1"
    using sent_pan_cong [OF set_zoom_pan_tilt [OF z]] sent_tilt_cong [OF set_zoom_pan_tilt [OF z]]
    by blast+
  have "sent_pan pos = Some (max (fst (pan_range c)) (min (snd (pan_range c)) v))"
    if "pan = Some v" for v
    using set_pan_tilt_pan [of c v tilt position p1] pt that pan_eq by (simp add: clamp_max_min)
  moreover have "sent_tilt pos = Some (max (fst (tilt_range c)) (min (snd (tilt_range c)) v))"
    if "tilt = Some v" for v
    using set_pan_tilt_tilt [of c pan v position p1] pt that tilt_eq by (simp add: clamp_max_min)
  moreover have "sent_zoom pos = Some (max (fst (zoom_range c)) (min (snd (zoom_range c)) v))"
    if "zoom = Some v" for v
    using set_zoom_zoom [of c v p1 pos] z that by (simp add: clamp_max_min)
  ultimately show ?thesis by blast
qed

lemma demo_absolute_move_all:
  "events (absolute_move demo_device (Some 2) (Some (-3)) (Some (1/2)) 1) demo_controller =
     [create_type ''AbsoluteMove'', GetStatus ''profile_1'',
      AbsoluteMove ''profile_1''
        (Some \<lparr>PanTilt = Has \<lparr>PanTilt_x = 1, PanTilt_y = -1\<rparr>, Zoom = Has \<lparr>Zoom_x = 1/2\<rparr>\<rparr>)
        (speed_dict 1),
      Print (Info ''absolute move'')]"
  by (simp add: run_defs absolute_move_def absolute_move_body_def py_defs demo_defs
      set_pan_tilt_def set_zoom_def clamp_def py_max_def py_min_def)

text \<open>
  Claim C1. Whenever \<^verbatim>\<open>absolute_move\<close> calls the library's \<^verbatim>\<open>AbsoluteMove\<close>, each
  coordinate whose argument is given is sent as \<open>max lo (min hi v)\<close> for the range
  \<open>(lo, hi)\<close> the controller stores for that axis, and a value inside the range is sent
  as it is. And the call is made: on a connected controller, when the request object is
  made and the status read has a position with the components the given arguments go
  to, \<^verbatim>\<open>AbsoluteMove\<close> is sent, after \<^verbatim>\<open>GetStatus\<close>, with every given coordinate clamped
  in this way.
\<close>

theorem absolute_move_clamps:
  "(\<forall>tok pos spd.
      AbsoluteMove tok pos spd \<in> set (events (absolute_move dev pan tilt zoom speed) c) \<longrightarrow>
      (\<forall>v. pan = Some v \<longrightarrow>
          sent_pan pos = Some (max (fst (pan_range c)) (min (snd (pan_range c)) v)) \<and>
          (fst (pan_range c) \<le> v \<and> v \<le> snd (pan_range c) \<longrightarrow> sent_pan pos = Some v)) \<and>
      (\<forall>v. tilt = Some v \<longrightarrow>
          sent_tilt pos = Some (max (fst (tilt_range c)) (min (snd (tilt_range c)) v)) \<and>
          (fst (tilt_range c) \<le> v \<and> v \<le> snd (tilt_range c) \<longrightarrow> sent_tilt pos = Some v)) \<and>
      (\<forall>v. zoom = Some v \<longrightarrow>
          sent_zoom pos = Some (max (fst (zoom_range c)) (min (snd (zoom_range c)) v)) \<and>
          (fst (zoom_range c) \<le> v \<and> v \<le> snd (zoom_range c) \<longrightarrow> sent_zoom pos = Some v)))
   \<and> (\<forall>h prof status p.
        ptz_service c = Some h \<and> media_profile c = Some prof \<and>
        lib_create_type dev ''AbsoluteMove'' = Inr () \<and>
        lib_GetStatus dev (token prof) = Inr status \<and> Position status = Has p \<and>
        (pan \<noteq> None \<or> tilt \<noteq> None \<longrightarrow> (\<exists>pt. PanTilt p = Has pt)) \<and>
        (zoom \<noteq> None \<longrightarrow> (\<exists>z. Zoom p = Has z)) \<longrightarrow>
        (\<exists>pos rest.
           events (absolute_move dev pan tilt zoom speed) c =
             [create_type ''AbsoluteMove'', GetStatus (token prof),
              AbsoluteMove (token prof) pos
                \<lparr>PanTilt = Has \<lparr>PanTilt_x = speed, PanTilt_y = speed\<rparr>,
                 Zoom = Has \<lparr>Zoom_x = speed\<rparr>\<rparr>,
              rest] \<and>
           (\<forall>v. pan = Some v \<longrightarrow>
              sent_pan pos = Some (max (fst (pan_range c)) (min (snd (pan_range c)) v))) \<and>
           (\<forall>v. tilt = Some v \<longrightarrow>
              sent_tilt pos = Some (max (fst (tilt_range c)) (min (snd (tilt_range c)) v))) \<and>
           (\<forall>v. zoom = Some v \<longrightarrow>
              sent_zoom pos = Some (max (fst (zoom_range c)) (min (snd (zoom_range c)) v)))))"
proof (intro conjI allI impI)
  fix tok pos spd
  assume m: "AbsoluteMove tok pos spd \<in> set (events (absolute_move dev pan tilt zoom speed) c)"
  note s = absolute_move_sent_clamped [OF m]
  fix v
  {
    assume "pan = Some v"
    with s show "sent_pan pos = Some (max (fst (pan_range c)) (min (snd (pan_range c)) v))"
      by blast
    then show "sent_pan pos = Some v" if "fst (pan_range c) \<le> v \<and> v \<le> snd (pan_range c)"
      using that by (simp add: max_def min_def)
  }
  {
    assume "tilt = Some v"
    with s show "sent_tilt pos = Some (max (fst (tilt_range c)) (min (snd (tilt_range c)) v))"
      by blast
    then show "sent_tilt pos = Some v" if "fst (tilt_range c) \<le> v \<and> v \<le> snd (tilt_range c)"
      using that by (simp add: max_def min_def)
  }
  {
    assume "zoom = Some v"
    with s show "sent_zoom pos = Some (max (fst (zoom_range c)) (min (snd (zoom_range c)) v))"
      by blast
    then show "sent_zoom pos = Some v" if "fst (zoom_range c) \<le> v \<and> v \<le> snd (zoom_range c)"
      using that by (simp add: max_def min_def)
  }
next
  fix h prof status p
  assume a: "ptz_service c = Some h \<and> media_profile c = Some prof \<and>
        lib_create_type dev ''AbsoluteMove'' = Inr () \<and>
        lib_GetStatus dev (token prof) = Inr status \<and> Position status = Has p \<and>
        (pan \<noteq> None \<or> tilt \<noteq> None \<longrightarrow> (\<exists>pt. PanTilt p = Has pt)) \<and>
        (zoom \<noteq> None \<longrightarrow> (\<exists>z. Zoom p = Has z))"
  then obtain pos rest where
    e: "events (absolute_move dev pan tilt zoom speed) c =
           [create_type ''AbsoluteMove'', GetStatus (token prof),
            AbsoluteMove (token prof) pos (speed_dict speed), rest]"
    using absolute_move_is_sent [of c h prof dev status p pan tilt zoom speed] by blast
  then have "AbsoluteMove (token prof) pos (speed_dict speed)
               \<in> set (events (absolute_move dev pan tilt zoom speed) c)"
    by simp
  from absolute_move_sent_clamped [OF this] e
  show "\<exists>pos rest.
           events (absolute_move dev pan tilt zoom speed) c =
             [create_type ''AbsoluteMove'', GetStatus (token prof),
              AbsoluteMove (token prof) pos
                \<lparr>PanTilt = Has \<lparr>PanTilt_x = speed, PanTilt_y = speed\<rparr>,
                 Zoom = Has \<lparr>Zoom_x = speed\<rparr>\<rparr>,
              rest] \<and>
           (\<forall>v. pan = Some v \<longrightarrow>
              sent_pan pos = Some (max (fst (pan_range c)) (min (snd (pan_range c)) v))) \<and>
           (\<forall>v. tilt = Some v \<longrightarrow>
              sent_tilt pos = Some (max (fst (tilt_range c)) (min (snd (tilt_range c)) v))) \<and>
           (\<forall>v. zoom = Some v \<longrightarrow>
              sent_zoom pos = Some (max (fst (zoom_range c)) (min (snd (zoom_range c)) v)))"
    unfolding speed_dict_def vector_dict_def by blast
qed

theorem absolute_move_clamps_witness:
  "ptz_service demo_controller = Some 3 \<and> media_profile demo_controller = Some demo_profile
   \<and> lib_create_type demo_device ''AbsoluteMove'' = Inr ()
   \<and> lib_GetStatus demo_device (token demo_profile) = Inr demo_status
   \<and> pan_range demo_controller = (-1, 1) \<and> tilt_range demo_controller = (-1, 1)
   \<and> zoom_range demo_controller = (0, 1)
   \<and> AbsoluteMove ''profile_1''
        (Some \<lparr>PanTilt = Has \<lparr>PanTilt_x = 1, PanTilt_y = -1\<rparr>, Zoom = Has \<lparr>Zoom_x = 1/2\<rparr>\<rparr>)
        (speed_dict 1)
       \<in> set (events (absolute_move demo_device (Some 2) (Some (-3)) (Some (1/2)) 1)
                demo_controller)
   \<and> (\<exists>pos rest.
         events (absolute_move demo_device (Some 2) (Some (-3)) (Some (1/2)) 1) demo_controller =
           [create_type ''AbsoluteMove'', GetStatus (token demo_profile),
            AbsoluteMove (token demo_profile) pos
              \<lparr>PanTilt = Has \<lparr>PanTilt_x = 1, PanTilt_y = 1\<rparr>, Zoom = Has \<lparr>Zoom_x = 1\<rparr>\<rparr>,
            rest] \<and>
         sent_pan pos = Some 1 \<and> sent_tilt pos = Some (-1) \<and> sent_zoom pos = Some (1/2))"
proof -
  let ?p = "\<lparr>PanTilt = Has \<lparr>PanTilt_x = 1/4, PanTilt_y = -1/2\<rparr>, Zoom = Has \<lparr>Zoom_x = 0\<rparr>\<rparr>"
  have k: "ptz_service demo_controller = Some 3 \<and> media_profile demo_controller = Some demo_profile
     \<and> lib_create_type demo_device ''AbsoluteMove'' = Inr ()
     \<and> lib_GetStatus demo_device (token demo_profile) = Inr demo_status"
    by (simp add: demo_defs)
  have r: "pan_range demo_controller = (-1, 1)" "tilt_range demo_controller = (-1, 1)"
    "zoom_range demo_controller = (0, 1)"
    by (simp_all add: demo_defs)
  have q: "Position demo_status = Has ?p \<and>
      (Some (2::real) \<noteq> None \<or> Some (-3::real) \<noteq> None \<longrightarrow> (\<exists>pt. PanTilt ?p = Has pt)) \<and>
      (Some (1/2::real) \<noteq> None \<longrightarrow> (\<exists>z. Zoom ?p = Has z))"
    by (simp add: demo_defs)
  have m: "AbsoluteMove ''profile_1''
        (Some \<lparr>PanTilt = Has \<lparr>PanTilt_x = 1, PanTilt_y = -1\<rparr>, Zoom = Has \<lparr>Zoom_x = 1/2\<rparr>\<rparr>)
        (speed_dict 1)
       \<in> set (events (absolute_move demo_device (Some 2) (Some (-3)) (Some (1/2)) 1)
                demo_controller)"
    by (simp add: demo_absolute_move_all)
  note t = absolute_move_clamps [of demo_device "Some 2" "Some (-3)" "Some (1/2)" 1
      demo_controller]
  from t have "\<forall>h prof status p.
        ptz_service demo_controller = Some h \<and> media_profile demo_controller = Some prof \<and>
        lib_create_type demo_device ''AbsoluteMove'' = Inr () \<and>
        lib_GetStatus demo_device (token prof) = Inr status \<and> Position status = Has p \<and>
        (Some (2::real) \<noteq> None \<or> Some (-3::real) \<noteq> None \<longrightarrow> (\<exists>pt. PanTilt p = Has pt)) \<and>
        (Some (1/2::real) \<noteq> None \<longrightarrow> (\<exists>z. Zoom p = Has z)) \<longrightarrow>
        (\<exists>pos rest.
           events (absolute_move demo_device (Some 2) (Some (-3)) (Some (1/2)) 1) demo_controller =
             [create_type ''AbsoluteMove'', GetStatus (token prof),
              AbsoluteMove (token prof) pos
                \<lparr>PanTilt = Has \<lparr>PanTilt_x = 1, PanTilt_y = 1\<rparr>, Zoom = Has \<lparr>Zoom_x = 1\<rparr>\<rparr>,
              rest] \<and>
           (\<forall>v. Some 2 = Some v \<longrightarrow>
              sent_pan pos = Some (max (fst (pan_range demo_controller))
                                       (min (snd (pan_range demo_controller)) v))) \<and>
           (\<forall>v. Some (-3) = Some v \<longrightarrow>
              sent_tilt pos = Some (max (fst (tilt_range demo_controller))
                                        (min (snd (tilt_range demo_controller)) v))) \<and>
           (\<forall>v. Some (1/2) = Some v \<longrightarrow>
              sent_zoom pos = Some (max (fst (zoom_range demo_controller))
                                        (min (snd (zoom_range demo_controller)) v))))"
    by (elim conjE) assumption
  from this [rule_format, of 3 demo_profile demo_status ?p] k q
  obtain pos rest where
    e: "events (absolute_move demo_device (Some 2) (Some (-3)) (Some (1/2)) 1) demo_controller =
             [create_type ''AbsoluteMove'', GetStatus (token demo_profile),
              AbsoluteMove (token demo_profile) pos
                \<lparr>PanTilt = Has \<lparr>PanTilt_x = 1, PanTilt_y = 1\<rparr>, Zoom = Has \<lparr>Zoom_x = 1\<rparr>\<rparr>,
              rest]" and
    a: "sent_pan pos = Some (max (fst (pan_range demo_controller))
                                 (min (snd (pan_range demo_controller)) 2))" and
    b: "sent_tilt pos = Some (max (fst (tilt_range demo_controller))
                                  (min (snd (tilt_range demo_controller)) (-3)))" and
    d: "sent_zoom pos = Some (max (fst (zoom_range demo_controller))
                                  (min (snd (zoom_range demo_controller)) (1/2)))"
    by blast
  from a b d have v: "sent_pan pos = Some 1" "sent_tilt pos = Some (-1)" "sent_zoom pos = Some (1/2)"
    by (simp_all add: r)
  from k r m e v show ?thesis by blast
qed

text \<open>
  Claim C9. Whenever \<^verbatim>\<open>absolute_move\<close> calls \<^verbatim>\<open>AbsoluteMove\<close>, it has read the status
  before, the position sent starts as the position of that status, and an axis whose
  argument is \<^verbatim>\<open>None\<close> is sent as the status has it: \<^verbatim>\<open>PanTilt\<close> as a whole when
  neither pan nor tilt is given, \<^verbatim>\<open>Zoom\<close> when zoom is not given, and each single
  coordinate that is not given.
\<close>

theorem absolute_move_keeps_unspecified_axes:
  assumes "AbsoluteMove tok pos spd \<in> set (events (absolute_move dev pan tilt zoom speed) c)"
  shows "\<exists>status position rest.
           lib_GetStatus dev tok = Inr status \<and> getattr (Position status) = Inr position \<and>
           events (absolute_move dev pan tilt zoom speed) c =
             [create_type ''AbsoluteMove'', GetStatus tok, AbsoluteMove tok pos spd, rest] \<and>
           (pan = None \<and> tilt = None \<longrightarrow> map_option PanTilt pos = map_option PanTilt position) \<and>
           (zoom = None \<longrightarrow> map_option Zoom pos = map_option Zoom position) \<and>
           (pan = None \<longrightarrow> sent_pan pos = sent_pan position) \<and>
           (tilt = None \<longrightarrow> sent_tilt pos = sent_tilt position) \<and>
           (zoom = None \<longrightarrow> sent_zoom pos = sent_zoom position) \<and>
           (pan = None \<and> tilt = None \<and> zoom = None \<longrightarrow> pos = position)"
proof -
  from absolute_move_sent [OF assms] obtain status position p1 rest where
    st: "lib_GetStatus dev tok = Inr status" "getattr (Position status) = Inr position" and
    pt: "set_pan_tilt c pan tilt position = Inr p1" and z: "set_zoom c zoom p1 = Inr pos" and
    ev: "events (absolute_move dev pan tilt zoom speed) c =
             [create_type ''AbsoluteMove'', GetStatus tok, AbsoluteMove tok pos spd, rest]"
    by blast
  note zp = set_zoom_pan_tilt [OF z] and pz = set_pan_tilt_zoom [OF pt]
  have a: "map_option PanTilt pos = map_option PanTilt position" if "pan = None" "tilt = None"
    using set_pan_tilt_none [of c position p1] pt that zp by simp
  have b: "map_option Zoom pos = map_option Zoom position" if "zoom = None"
    using set_zoom_none [of c p1 pos] z that pz by simp
  have c: "sent_pan pos = sent_pan position" if "pan = None"
    using set_pan_tilt_keep_pan [of c tilt position p1] pt that sent_pan_cong [OF zp] by simp
  have d: "sent_tilt pos = sent_tilt position" if "tilt = None"
    using set_pan_tilt_keep_tilt [of c pan position p1] pt that sent_tilt_cong [OF zp] by simp
  have e: "sent_zoom pos = sent_zoom position" if "zoom = None"
    using sent_zoom_cong [OF b] that by simp
  have f: "pos = position" if "pan = None" "tilt = None" "zoom = None"
    using set_pan_tilt_none [of c position p1] set_zoom_none [of c p1 pos] pt z that by simp
  show ?thesis using st ev a b c d e f by blast
qed

lemma demo_absolute_move_tilt:
  "events (absolute_move demo_device None (Some 1) None 1) demo_controller =
     [create_type ''AbsoluteMove'', GetStatus ''profile_1'',
      AbsoluteMove ''profile_1''
        (Some \<lparr>PanTilt = Has \<lparr>PanTilt_x = 1/4, PanTilt_y = 1\<rparr>, Zoom = Has \<lparr>Zoom_x = 0\<rparr>\<rparr>)
        (speed_dict 1),
      Print (Info ''absolute move'')]"
  by (simp add: run_defs absolute_move_def absolute_move_body_def py_defs demo_defs
      set_pan_tilt_def set_zoom_def clamp_def py_max_def py_min_def)

theorem absolute_move_keeps_unspecified_axes_witness:
  "AbsoluteMove ''profile_1''
        (Some \<lparr>PanTilt = Has \<lparr>PanTilt_x = 1/4, PanTilt_y = 1\<rparr>, Zoom = Has \<lparr>Zoom_x = 0\<rparr>\<rparr>)
        (speed_dict 1)
     \<in> set (events (absolute_move demo_device None (Some 1) None 1) demo_controller)
   \<and> lib_GetStatus demo_device ''profile_1'' = Inr demo_status
   \<and> sent_pan (Some \<lparr>PanTilt = Has \<lparr>PanTilt_x = 1/4, PanTilt_y = 1\<rparr>, Zoom = Has \<lparr>Zoom_x = 0\<rparr>\<rparr>)
       = Some (1/4)
   \<and> sent_zoom (Some \<lparr>PanTilt = Has \<lparr>PanTilt_x = 1/4, PanTilt_y = 1\<rparr>, Zoom = Has \<lparr>Zoom_x = 0\<rparr>\<rparr>)
       = Some 0"
proof -
  have h: "AbsoluteMove ''profile_1''
        (Some \<lparr>PanTilt = Has \<lparr>PanTilt_x = 1/4, PanTilt_y = 1\<rparr>, Zoom = Has \<lparr>Zoom_x = 0\<rparr>\<rparr>)
        (speed_dict 1)
     \<in> set (events (absolute_move demo_device None (Some 1) None 1) demo_controller)"
    by (simp add: demo_absolute_move_tilt)
  have s: "lib_GetStatus demo_device ''profile_1'' = Inr demo_status"
    by (simp add: demo_defs)
  have g: "getattr (Position demo_status) =
             Inr (Some \<lparr>PanTilt = Has \<lparr>PanTilt_x = 1/4, PanTilt_y = -1/2\<rparr>, Zoom = Has \<lparr>Zoom_x = 0\<rparr>\<rparr>)"
    by (simp add: demo_defs getattr_def)
  show ?thesis
    using h s g absolute_move_keeps_unspecified_axes [OF h]
    by (simp add: sent_pan_def sent_zoom_def)
qed

section \<open>Relative moves\<close>

lemma relative_move_sent:
  assumes "RelativeMove tok tr spd \<in> set (events (relative_move dev pd td zd speed) c)"
  shows "\<exists>prof rest. media_profile c = Some prof \<and> tok = token prof \<and>
           tr = vector_dict pd td zd \<and> spd = speed_dict speed \<and>
           events (relative_move dev pd td zd speed) c =
             [create_type ''RelativeMove'', RelativeMove tok tr spd, rest]"
  using assms
  unfolding run_defs relative_move_def relative_move_body_def py_defs
  by (auto split: sum.splits option.splits prod.splits if_splits)

lemma relative_move_events:
  assumes "ptz_service c = Some h" "media_profile c = Some prof"
    "lib_create_type dev ''RelativeMove'' = Inr ()"
  shows "\<exists>rest. events (relative_move dev pd td zd speed) c =
           [create_type ''RelativeMove'',
            RelativeMove (token prof) (vector_dict pd td zd) (speed_dict speed), rest]"
  using assms
  unfolding run_defs relative_move_def relative_move_body_def py_defs
  by (auto split: sum.splits option.splits prod.splits if_splits)

text \<open>
  Claim C3. Every \<^verbatim>\<open>RelativeMove\<close> that \<^verbatim>\<open>relative_move\<close> sends carries the given
  deltas as its translation and the given speed on every axis of its speed, unchanged;
  and on a connected controller, once the request object is made, the call is sent.
\<close>

theorem relative_move_passthrough:
  "(\<forall>tok tr spd. RelativeMove tok tr spd \<in> set (events (relative_move dev pd td zd speed) c) \<longrightarrow>
      tr = \<lparr>PanTilt = Has \<lparr>PanTilt_x = pd, PanTilt_y = td\<rparr>, Zoom = Has \<lparr>Zoom_x = zd\<rparr>\<rparr> \<and>
      spd = \<lparr>PanTilt = Has \<lparr>PanTilt_x = speed, PanTilt_y = speed\<rparr>, Zoom = Has \<lparr>Zoom_x = speed\<rparr>\<rparr>)
   \<and> (\<forall>h prof. ptz_service c = Some h \<and> media_profile c = Some prof \<and>
         lib_create_type dev ''RelativeMove'' = Inr () \<longrightarrow>
         (\<exists>rest. events (relative_move dev pd td zd speed) c =
            [create_type ''RelativeMove'',
             RelativeMove (token prof)
               \<lparr>PanTilt = Has \<lparr>PanTilt_x = pd, PanTilt_y = td\<rparr>, Zoom = Has \<lparr>Zoom_x = zd\<rparr>\<rparr>
               \<lparr>PanTilt = Has \<lparr>PanTilt_x = speed, PanTilt_y = speed\<rparr>, Zoom = Has \<lparr>Zoom_x = speed\<rparr>\<rparr>,
             rest]))"
proof (intro conjI allI impI)
  fix tok tr spd
  assume "RelativeMove tok tr spd \<in> set (events (relative_move dev pd td zd speed) c)"
  from relative_move_sent [OF this]
  have *: "tr = vector_dict pd td zd \<and> spd = speed_dict speed" by blast
  from * show "tr = \<lparr>PanTilt = Has \<lparr>PanTilt_x = pd, PanTilt_y = td\<rparr>, Zoom = Has \<lparr>Zoom_x = zd\<rparr>\<rparr>"
    by (simp add: vector_dict_def)
  from * show "spd = \<lparr>PanTilt = Has \<lparr>PanTilt_x = speed, PanTilt_y = speed\<rparr>,
                      Zoom = Has \<lparr>Zoom_x = speed\<rparr>\<rparr>"
    by (simp add: vector_dict_def speed_dict_def)
next
  fix h prof
  assume "ptz_service c = Some h \<and> media_profile c = Some prof \<and>
         lib_create_type dev ''RelativeMove'' = Inr ()"
  then show "\<exists>rest. events (relative_move dev pd td zd speed) c =
            [create_type ''RelativeMove'',
             RelativeMove (token prof)
               \<lparr>PanTilt = Has \<lparr>PanTilt_x = pd, PanTilt_y = td\<rparr>, Zoom = Has \<lparr>Zoom_x = zd\<rparr>\<rparr>
               \<lparr>PanTilt = Has \<lparr>PanTilt_x = speed, PanTilt_y = speed\<rparr>, Zoom = Has \<lparr>Zoom_x = speed\<rparr>\<rparr>,
             rest]"
    using relative_move_events [of c h prof dev pd td zd speed]
    by (simp add: vector_dict_def speed_dict_def)
qed

lemma demo_relative_move:
  "events (relative_move demo_device 3 (-2) (1/2) 5) demo_controller =
     [create_type ''RelativeMove'',
      RelativeMove ''profile_1''
        \<lparr>PanTilt = Has \<lparr>PanTilt_x = 3, PanTilt_y = -2\<rparr>, Zoom = Has \<lparr>Zoom_x = 1/2\<rparr>\<rparr>
        \<lparr>PanTilt = Has \<lparr>PanTilt_x = 5, PanTilt_y = 5\<rparr>, Zoom = Has \<lparr>Zoom_x = 5\<rparr>\<rparr>,
      Print (Info ''relative move'')]"
  by (simp add: run_defs relative_move_def relative_move_body_def py_defs demo_defs
      vector_dict_def speed_dict_def)

theorem relative_move_passthrough_witness:
  "RelativeMove ''profile_1''
        \<lparr>PanTilt = Has \<lparr>PanTilt_x = 3, PanTilt_y = -2\<rparr>, Zoom = Has \<lparr>Zoom_x = 1/2\<rparr>\<rparr>
        \<lparr>PanTilt = Has \<lparr>PanTilt_x = 5, PanTilt_y = 5\<rparr>, Zoom = Has \<lparr>Zoom_x = 5\<rparr>\<rparr>
     \<in> set (events (relative_move demo_device 3 (-2) (1/2) 5) demo_controller)
   \<and> ptz_service demo_controller = Some 3 \<and> media_profile demo_controller = Some demo_profile
   \<and> lib_create_type demo_device ''RelativeMove'' = Inr ()
   \<and> (\<exists>rest. events (relative_move demo_device 3 (-2) (1/2) 5) demo_controller =
         [create_type ''RelativeMove'',
          RelativeMove (token demo_profile)
            \<lparr>PanTilt = Has \<lparr>PanTilt_x = 3, PanTilt_y = -2\<rparr>, Zoom = Has \<lparr>Zoom_x = 1/2\<rparr>\<rparr>
            \<lparr>PanTilt = Has \<lparr>PanTilt_x = 5, PanTilt_y = 5\<rparr>, Zoom = Has \<lparr>Zoom_x = 5\<rparr>\<rparr>,
          rest])"
proof -
  have h: "RelativeMove ''profile_1''
        \<lparr>PanTilt = Has \<lparr>PanTilt_x = 3, PanTilt_y = -2\<rparr>, Zoom = Has \<lparr>Zoom_x = 1/2\<rparr>\<rparr>
        \<lparr>PanTilt = Has \<lparr>PanTilt_x = 5, PanTilt_y = 5\<rparr>, Zoom = Has \<lparr>Zoom_x = 5\<rparr>\<rparr>
     \<in> set (events (relative_move demo_device 3 (-2) (1/2) 5) demo_controller)"
    by (simp add: demo_relative_move)
  have k: "ptz_service demo_controller = Some 3 \<and> media_profile demo_controller = Some demo_profile
     \<and> lib_create_type demo_device ''RelativeMove'' = Inr ()"
    by (simp add: demo_defs)
  from k relative_move_passthrough [of demo_device 3 "-2" "1/2" 5 demo_controller]
  have e: "\<exists>rest. events (relative_move demo_device 3 (-2) (1/2) 5) demo_controller =
         [create_type ''RelativeMove'',
          RelativeMove (token demo_profile)
            \<lparr>PanTilt = Has \<lparr>PanTilt_x = 3, PanTilt_y = -2\<rparr>, Zoom = Has \<lparr>Zoom_x = 1/2\<rparr>\<rparr>
            \<lparr>PanTilt = Has \<lparr>PanTilt_x = 5, PanTilt_y = 5\<rparr>, Zoom = Has \<lparr>Zoom_x = 5\<rparr>\<rparr>,
          rest]"
    by blast
  from h k e show ?thesis by blast
qed

section \<open>Continuous moves\<close>

lemma continuous_move_events:
  assumes "ptz_service c = Some h" "media_profile c = Some prof"
    "lib_create_type dev ''ContinuousMove'' = Inr ()"
    "lib_ContinuousMove dev (token prof) (vector_dict ps ts zs) = Inr ()"
    "time_sleep dev d = Inr ()"
  shows "\<exists>last. events (continuous_move dev ps ts zs d) c =
           [create_type ''ContinuousMove'', ContinuousMove (token prof) (vector_dict ps ts zs),
            Print (Info ''continuous move started''), Sleep d, Stop (token prof) True True, last]"
  using assms
  unfolding run_defs continuous_move_def continuous_move_body_def stop_def stop_body_def py_defs
  by (auto split: sum.splits option.splits prod.splits if_splits)

lemma continuous_move_stop:
  assumes "Stop tok a b \<in> set (events (continuous_move dev ps ts zs d) c)"
  shows "\<exists>last. events (continuous_move dev ps ts zs d) c =
           [create_type ''ContinuousMove'', ContinuousMove tok (vector_dict ps ts zs),
            Print (Info ''continuous move started''), Sleep d, Stop tok True True, last] \<and>
         a \<and> b \<and> lib_ContinuousMove dev tok (vector_dict ps ts zs) = Inr () \<and>
         time_sleep dev d = Inr ()"
  using assms
  unfolding run_defs continuous_move_def continuous_move_body_def stop_def stop_body_def py_defs
  by (auto split: sum.splits option.splits prod.splits if_splits)

lemma demo_continuous_move:
  "events (continuous_move demo_device (1/2) 0 0 2) demo_controller =
     [create_type ''ContinuousMove'',
      ContinuousMove ''profile_1''
        \<lparr>PanTilt = Has \<lparr>PanTilt_x = 1/2, PanTilt_y = 0\<rparr>, Zoom = Has \<lparr>Zoom_x = 0\<rparr>\<rparr>,
      Print (Info ''continuous move started''), Sleep 2, Stop ''profile_1'' True True,
      Print (Info ''stopped'')]"
  by (simp add: run_defs continuous_move_def continuous_move_body_def stop_def stop_body_def
      py_defs demo_defs vector_dict_def)

text \<open>
  Claim C5, as the code has it. When the library's \<^verbatim>\<open>ContinuousMove\<close> succeeds and
  \<^verbatim>\<open>time.sleep\<close> accepts the duration, the call sends \<^verbatim>\<open>ContinuousMove\<close> with the given
  speeds as velocity, waits for the duration, and sends \<^verbatim>\<open>Stop\<close> with both flags true,
  in this order. A \<^verbatim>\<open>Stop\<close> is sent only in a trace of this shape: after a
  \<^verbatim>\<open>ContinuousMove\<close> that succeeded and after the wait, never before, and never when
  \<^verbatim>\<open>ContinuousMove\<close> or \<^verbatim>\<open>time.sleep\<close> raised.
\<close>

theorem continuous_move_order:
  "(\<forall>h prof. ptz_service c = Some h \<and> media_profile c = Some prof \<and>
       lib_create_type dev ''ContinuousMove'' = Inr () \<and>
       lib_ContinuousMove dev (token prof)
         \<lparr>PanTilt = Has \<lparr>PanTilt_x = ps, PanTilt_y = ts\<rparr>, Zoom = Has \<lparr>Zoom_x = zs\<rparr>\<rparr> = Inr () \<and>
       time_sleep dev d = Inr () \<longrightarrow>
       (\<exists>last. events (continuous_move dev ps ts zs d) c =
          [create_type ''ContinuousMove'',
           ContinuousMove (token prof)
             \<lparr>PanTilt = Has \<lparr>PanTilt_x = ps, PanTilt_y = ts\<rparr>, Zoom = Has \<lparr>Zoom_x = zs\<rparr>\<rparr>,
           Print (Info ''continuous move started''), Sleep d, Stop (token prof) True True, last]))
   \<and> (\<forall>tok a b. Stop tok a b \<in> set (events (continuous_move dev ps ts zs d) c) \<longrightarrow>
       a \<and> b \<and>
       lib_ContinuousMove dev tok
         \<lparr>PanTilt = Has \<lparr>PanTilt_x = ps, PanTilt_y = ts\<rparr>, Zoom = Has \<lparr>Zoom_x = zs\<rparr>\<rparr> = Inr () \<and>
       time_sleep dev d = Inr () \<and>
       (\<exists>last. events (continuous_move dev ps ts zs d) c =
          [create_type ''ContinuousMove'',
           ContinuousMove tok
             \<lparr>PanTilt = Has \<lparr>PanTilt_x = ps, PanTilt_y = ts\<rparr>, Zoom = Has \<lparr>Zoom_x = zs\<rparr>\<rparr>,
           Print (Info ''continuous move started''), Sleep d, Stop tok True True, last]))"
proof (intro conjI allI impI)
  fix h prof
  assume "ptz_service c = Some h \<and> media_profile c = Some prof \<and>
       lib_create_type dev ''ContinuousMove'' = Inr () \<and>
       lib_ContinuousMove dev (token prof)
         \<lparr>PanTilt = Has \<lparr>PanTilt_x = ps, PanTilt_y = ts\<rparr>, Zoom = Has \<lparr>Zoom_x = zs\<rparr>\<rparr> = Inr () \<and>
       time_sleep dev d = Inr ()"
  then show "\<exists>last. events (continuous_move dev ps ts zs d) c =
          [create_type ''ContinuousMove'',
           ContinuousMove (token prof)
             \<lparr>PanTilt = Has \<lparr>PanTilt_x = ps, PanTilt_y = ts\<rparr>, Zoom = Has \<lparr>Zoom_x = zs\<rparr>\<rparr>,
           Print (Info ''continuous move started''), Sleep d, Stop (token prof) True True, last]"
    using continuous_move_events [of c h prof dev ps ts zs d] by (simp add: vector_dict_def)
next
  fix tok a b
  assume s: "Stop tok a b \<in> set (events (continuous_move dev ps ts zs d) c)"
  from continuous_move_stop [OF s] show a by blast
  from continuous_move_stop [OF s] show b by blast
  from continuous_move_stop [OF s] show "time_sleep dev d = Inr ()" by blast
  from continuous_move_stop [OF s]
  show "lib_ContinuousMove dev tok
         \<lparr>PanTilt = Has \<lparr>PanTilt_x = ps, PanTilt_y = ts\<rparr>, Zoom = Has \<lparr>Zoom_x = zs\<rparr>\<rparr> = Inr ()"
    by (simp add: vector_dict_def)
  from continuous_move_stop [OF s]
  show "\<exists>last. events (continuous_move dev ps ts zs d) c =
          [create_type ''ContinuousMove'',
           ContinuousMove tok
             \<lparr>PanTilt = Has \<lparr>PanTilt_x = ps, PanTilt_y = ts\<rparr>, Zoom = Has \<lparr>Zoom_x = zs\<rparr>\<rparr>,
           Print (Info ''continuous move started''), Sleep d, Stop tok True True, last]"
    by (simp add: vector_dict_def)
qed

theorem continuous_move_order_witness:
  "ptz_service demo_controller = Some 3 \<and> media_profile demo_controller = Some demo_profile
   \<and> lib_create_type demo_device ''ContinuousMove'' = Inr ()
   \<and> lib_ContinuousMove demo_device (token demo_profile)
        \<lparr>PanTilt = Has \<lparr>PanTilt_x = 1/2, PanTilt_y = 0\<rparr>, Zoom = Has \<lparr>Zoom_x = 0\<rparr>\<rparr> = Inr ()
   \<and> time_sleep demo_device 2 = Inr ()
   \<and> Stop ''profile_1'' True True
        \<in> set (events (continuous_move demo_device (1/2) 0 0 2) demo_controller)
   \<and> (\<exists>last. events (continuous_move demo_device (1/2) 0 0 2) demo_controller =
          [create_type ''ContinuousMove'',
           ContinuousMove (token demo_profile)
             \<lparr>PanTilt = Has \<lparr>PanTilt_x = 1/2, PanTilt_y = 0\<rparr>, Zoom = Has \<lparr>Zoom_x = 0\<rparr>\<rparr>,
           Print (Info ''continuous move started''), Sleep 2, Stop (token demo_profile) True True,
           last])"
proof -
  have k: "ptz_service demo_controller = Some 3 \<and> media_profile demo_controller = Some demo_profile
   \<and> lib_create_type demo_device ''ContinuousMove'' = Inr ()
   \<and> lib_ContinuousMove demo_device (token demo_profile)
        \<lparr>PanTilt = Has \<lparr>PanTilt_x = 1/2, PanTilt_y = 0\<rparr>, Zoom = Has \<lparr>Zoom_x = 0\<rparr>\<rparr> = Inr ()
   \<and> time_sleep demo_device 2 = Inr ()"
    by (simp add: demo_defs)
  have s: "Stop ''profile_1'' True True
        \<in> set (events (continuous_move demo_device (1/2) 0 0 2) demo_controller)"
    by (simp add: demo_continuous_move)
  from k continuous_move_order [of demo_controller demo_device "1/2" 0 0 2]
  have e: "\<exists>last. events (continuous_move demo_device (1/2) 0 0 2) demo_controller =
          [create_type ''ContinuousMove'',
           ContinuousMove (token demo_profile)
             \<lparr>PanTilt = Has \<lparr>PanTilt_x = 1/2, PanTilt_y = 0\<rparr>, Zoom = Has \<lparr>Zoom_x = 0\<rparr>\<rparr>,
           Print (Info ''continuous move started''), Sleep 2, Stop (token demo_profile) True True,
           last]"
    by blast
  from k s e show ?thesis by blast
qed

text \<open>
  A duration too large for the platform: \<^verbatim>\<open>ContinuousMove\<close> is sent, \<^verbatim>\<open>time.sleep\<close>
  raises, and no \<^verbatim>\<open>Stop\<close> follows.
\<close>

lemma continuous_move_long_duration:
  "events (continuous_move demo_device (1/2) 0 0 (10 ^ 10)) demo_controller =
     [create_type ''ContinuousMove'',
      ContinuousMove ''profile_1''
        \<lparr>PanTilt = Has \<lparr>PanTilt_x = 1/2, PanTilt_y = 0\<rparr>, Zoom = Has \<lparr>Zoom_x = 0\<rparr>\<rparr>,
      Print (Info ''continuous move started''),
      Print (Failure ''continuous move'' OverflowError)]"
  by (simp add: run_defs continuous_move_def continuous_move_body_def stop_def stop_body_def
      py_defs demo_defs vector_dict_def)

text \<open>
  With a negative duration the claim as stated fails: \<^verbatim>\<open>ContinuousMove\<close> succeeds,
  \<^verbatim>\<open>time.sleep\<close> raises, and the handler ends the call with no wait and no \<^verbatim>\<open>Stop\<close>.
\<close>

theorem continuous_move_negative_duration:
  "ptz_service demo_controller = Some 3 \<and> media_profile demo_controller = Some demo_profile
   \<and> lib_ContinuousMove demo_device ''profile_1''
        \<lparr>PanTilt = Has \<lparr>PanTilt_x = 1/2, PanTilt_y = 0\<rparr>, Zoom = Has \<lparr>Zoom_x = 0\<rparr>\<rparr> = Inr ()
   \<and> events (continuous_move demo_device (1/2) 0 0 (-1)) demo_controller =
       [create_type ''ContinuousMove'',
        ContinuousMove ''profile_1''
          \<lparr>PanTilt = Has \<lparr>PanTilt_x = 1/2, PanTilt_y = 0\<rparr>, Zoom = Has \<lparr>Zoom_x = 0\<rparr>\<rparr>,
        Print (Info ''continuous move started''),
        Print (Failure ''continuous move'' ValueError)]
   \<and> Stop ''profile_1'' True True
        \<notin> set (events (continuous_move demo_device (1/2) 0 0 (-1)) demo_controller)"
  by (simp add: run_defs continuous_move_def continuous_move_body_def stop_def stop_body_def
      py_defs demo_defs vector_dict_def)

section \<open>Methods that only read the controller\<close>

lemma reads_onlyI:
  assumes "\<And>s. \<exists>r evs. m s = (r, s\<lparr>trace := trace s @ evs\<rparr>) \<and>
              m \<lparr>self = self s, trace = []\<rparr> = (r, \<lparr>self = self s, trace = evs\<rparr>)"
  shows "reads_only m"
  unfolding reads_only_def
proof
  fix s
  from assms [of s] obtain r evs where
    a: "m s = (r, s\<lparr>trace := trace s @ evs\<rparr>)" and
    b: "m \<lparr>self = self s, trace = []\<rparr> = (r, \<lparr>self = self s, trace = evs\<rparr>)"
    by blast
  from b have "result m (self s) = r" "events m (self s) = evs"
    by (simp_all add: run_defs)
  with a show "m s = (result m (self s), s\<lparr>trace := trace s @ events m (self s)\<rparr>)"
    by simp
qed

lemma reads_onlyD:
  "reads_only m \<Longrightarrow> m s = (result m (self s), s\<lparr>trace := trace s @ events m (self s)\<rparr>)"
  by (simp add: reads_only_def)

lemma reads_only_after:
  assumes "reads_only m"
  shows "after m c = c"
proof -
  obtain r evs where "m \<lparr>self = c, trace = []\<rparr> = (r, \<lparr>self = c, trace = evs\<rparr>)"
    using reads_onlyD [OF assms, where s = "\<lparr>self = c, trace = []\<rparr>"] by simp
  then show ?thesis by (simp add: run_defs)
qed

lemma ro_return: "reads_only (py_return v)"
  by (rule reads_onlyI) (simp add: py_return_def)

lemma ro_raise: "reads_only (py_raise e)"
  by (rule reads_onlyI) (simp add: py_raise_def)

lemma ro_lift: "reads_only (py_lift r)"
  by (rule reads_onlyI) (simp add: py_lift_def)

lemma ro_call: "reads_only (call ev r)"
  by (rule reads_onlyI) (simp add: call_def)

lemma ro_print: "reads_only (print m)"
  by (rule reads_onlyI) (simp add: print_def)

lemma ro_sleep: "reads_only (sleep dev d)"
  by (rule reads_onlyI) (simp add: sleep_def py_raise_def split: sum.split)

lemma ro_self_field: "reads_only (self_field f)"
  by (rule reads_onlyI) (simp add: self_field_def)

lemma ro_get_self: "reads_only get_self"
  by (rule reads_onlyI) (simp add: get_self_def)

text \<open>The result and the events of a primitive step.\<close>

lemma step_result:
  "result (py_return v) c = Inr v"
  "result (py_raise e) c = Inl e"
  "result (py_lift r) c = r"
  "result (call ev r) c = r"
  "result (print m) c = Inr ()"
  "result (sleep dev d) c = (case time_sleep dev d of Inl e \<Rightarrow> Inl e | Inr u \<Rightarrow> Inr ())"
  "result (self_field f) c = not_none (f c)"
  "result get_self c = Inr c"
  by (simp_all add: run_defs py_return_def py_raise_def py_lift_def call_def print_def sleep_def
      self_field_def get_self_def split: sum.split)

lemma step_events:
  "events (py_return v) c = []"
  "events (py_raise e) c = []"
  "events (py_lift r) c = []"
  "events (call ev r) c = [ev]"
  "events (print m) c = [Print m]"
  "events (sleep dev d) c = (case time_sleep dev d of Inl e \<Rightarrow> [] | Inr u \<Rightarrow> [Sleep d])"
  "events (self_field f) c = []"
  "events get_self c = []"
  by (simp_all add: run_defs py_return_def py_raise_def py_lift_def call_def print_def sleep_def
      self_field_def get_self_def split: sum.split)

text \<open>Sequencing and exception handling of such methods, step by step.\<close>

lemma bind_on_state:
  assumes m: "reads_only m" and f: "\<And>v. reads_only (f v)"
  shows "py_bind m f s =
           (case result m (self s) of
              Inl e \<Rightarrow> (Inl e, s\<lparr>trace := trace s @ events m (self s)\<rparr>)
            | Inr v \<Rightarrow> (result (f v) (self s),
                        s\<lparr>trace := trace s @ events m (self s) @ events (f v) (self s)\<rparr>))"
proof (cases "result m (self s)")
  case (Inl e)
  then show ?thesis using reads_onlyD [OF m, of s] by (simp add: py_bind_def)
next
  case (Inr v)
  then show ?thesis
    using reads_onlyD [OF m, of s]
      reads_onlyD [OF f, of v "s\<lparr>trace := trace s @ events m (self s)\<rparr>"]
    by (simp add: py_bind_def)
qed

lemma try_on_state:
  assumes m: "reads_only m" and h: "\<And>e. reads_only (h e)"
  shows "py_try m h s =
           (case result m (self s) of
              Inl e \<Rightarrow> (result (h e) (self s),
                        s\<lparr>trace := trace s @ events m (self s) @ events (h e) (self s)\<rparr>)
            | Inr v \<Rightarrow> (Inr v, s\<lparr>trace := trace s @ events m (self s)\<rparr>))"
proof (cases "result m (self s)")
  case (Inl e)
  then show ?thesis
    using reads_onlyD [OF m, of s]
      reads_onlyD [OF h, of e "s\<lparr>trace := trace s @ events m (self s)\<rparr>"]
    by (simp add: py_try_def)
next
  case (Inr v)
  then show ?thesis using reads_onlyD [OF m, of s] by (simp add: py_try_def)
qed

lemma bind_result:
  assumes "reads_only m" "\<And>v. reads_only (f v)"
  shows "result (py_bind m f) c = (case result m c of Inl e \<Rightarrow> Inl e | Inr v \<Rightarrow> result (f v) c)"
  using bind_on_state [OF assms, where s = "\<lparr>self = c, trace = []\<rparr>"]
  by (simp add: result_def [of "py_bind m f"] exec_def split: sum.splits)

lemma bind_events:
  assumes "reads_only m" "\<And>v. reads_only (f v)"
  shows "events (py_bind m f) c =
           events m c @ (case result m c of Inl e \<Rightarrow> [] | Inr v \<Rightarrow> events (f v) c)"
  using bind_on_state [OF assms, where s = "\<lparr>self = c, trace = []\<rparr>"]
  by (simp add: events_def [of "py_bind m f"] exec_def split: sum.splits)

lemma try_result:
  assumes "reads_only m" "\<And>e. reads_only (h e)"
  shows "result (py_try m h) c = (case result m c of Inl e \<Rightarrow> result (h e) c | Inr v \<Rightarrow> Inr v)"
  using try_on_state [OF assms, where s = "\<lparr>self = c, trace = []\<rparr>"]
  by (simp add: result_def [of "py_try m h"] exec_def split: sum.splits)

lemma try_events:
  assumes "reads_only m" "\<And>e. reads_only (h e)"
  shows "events (py_try m h) c =
           events m c @ (case result m c of Inl e \<Rightarrow> events (h e) c | Inr v \<Rightarrow> [])"
  using try_on_state [OF assms, where s = "\<lparr>self = c, trace = []\<rparr>"]
  by (simp add: events_def [of "py_try m h"] exec_def split: sum.splits)

lemma ro_bind:
  assumes "reads_only m" "\<And>v. reads_only (f v)"
  shows "reads_only (py_bind m f)"
  unfolding reads_only_def
  by (simp add: bind_on_state [OF assms] bind_result [OF assms] bind_events [OF assms]
      split: sum.splits)

lemma ro_seq:
  assumes "reads_only m" "reads_only n"
  shows "reads_only (py_seq m n)"
  unfolding py_seq_def using assms by (intro ro_bind)

lemma ro_try:
  assumes "reads_only m" "\<And>e. reads_only (h e)"
  shows "reads_only (py_try m h)"
  unfolding reads_only_def
  by (simp add: try_on_state [OF assms] try_result [OF assms] try_events [OF assms]
      split: sum.splits)

lemma seq_result:
  assumes "reads_only m" "reads_only n"
  shows "result (py_seq m n) c = (case result m c of Inl e \<Rightarrow> Inl e | Inr v \<Rightarrow> result n c)"
  unfolding py_seq_def using assms by (simp add: bind_result)

lemma seq_events:
  assumes "reads_only m" "reads_only n"
  shows "events (py_seq m n) c =
           events m c @ (case result m c of Inl e \<Rightarrow> [] | Inr v \<Rightarrow> events n c)"
  unfolding py_seq_def using assms by (simp add: bind_events)

lemmas ro_intros = ro_return ro_raise ro_lift ro_call ro_print ro_sleep ro_self_field ro_get_self
  ro_bind ro_seq ro_try

lemmas run_simps = step_result step_events bind_result bind_events seq_result seq_events
  try_result try_events ro_intros

section \<open>Status and position\<close>

lemma ro_if: "reads_only a \<Longrightarrow> reads_only b \<Longrightarrow> reads_only (if t then a else b)"
  by simp

lemma ro_case_option:
  "reads_only a \<Longrightarrow> (\<And>x. reads_only (b x)) \<Longrightarrow>
   reads_only (case v of None \<Rightarrow> a | Some x \<Rightarrow> b x)"
  by (simp split: option.split)

lemmas ro_rules = ro_intros ro_if ro_case_option

lemma calls_simps:
  "calls n [] = []"
  "calls n (ev # evs) = (if op_name ev = n then ev # calls n evs else calls n evs)"
  "calls n (xs @ ys) = calls n xs @ calls n ys"
  by (simp_all add: calls_def)

lemma ro_print_position: "reads_only (print_position st)"
  unfolding print_position_def print_pan_tilt_def print_zoom_def
  by (intro ro_rules)

lemma ro_print_move_status: "reads_only (print_move_status st)"
  unfolding print_move_status_def by (intro ro_rules)

lemma ro_get_status_body: "reads_only (get_status_body dev)"
  unfolding get_status_body_def by (intro ro_rules ro_print_position ro_print_move_status)

lemma ro_get_status: "reads_only (get_status dev)"
  unfolding get_status_def by (intro ro_rules ro_get_status_body)

lemma ro_get_current_position_body: "reads_only (get_current_position_body dev)"
  unfolding get_current_position_body_def by (intro ro_rules)

lemma ro_get_current_position: "reads_only (get_current_position dev)"
  unfolding get_current_position_def by (intro ro_rules ro_get_current_position_body)

lemmas status_simps = run_simps ro_if ro_case_option ro_print_position ro_print_move_status
  ro_get_status_body ro_get_current_position_body not_none_def hasattr_def getattr_def

text \<open>The console lines of \<^verbatim>\<open>get_status\<close> are console lines only.\<close>

lemma print_position_calls: "calls ''GetStatus'' (events (print_position st) c) = []"
  by (simp add: print_position_def print_pan_tilt_def print_zoom_def status_simps calls_simps
      split: attr.splits option.splits sum.splits)

lemma print_move_status_calls: "calls ''GetStatus'' (events (print_move_status st) c) = []"
  by (simp add: print_move_status_def status_simps calls_simps)

lemma print_move_status_result: "result (print_move_status st) c = Inr ()"
  by (simp add: print_move_status_def status_simps)

text \<open>What \<^verbatim>\<open>get_current_position\<close> returns, by the answer of the library.\<close>

lemma get_current_position_result:
  assumes "ptz_service c = Some h" "media_profile c = Some prof"
  shows "result (get_current_position dev) c =
           Inr (case lib_GetStatus dev (token prof) of
                  Inl e \<Rightarrow> (0, 0, 0)
                | Inr st \<Rightarrow> (case read_position st of Inl e \<Rightarrow> (0, 0, 0) | Inr p \<Rightarrow> p))"
  using assms
  by (simp add: get_current_position_def get_current_position_body_def status_simps
      split: sum.splits)

lemma read_position_cases:
  "Position st = Absent \<or> Position st = IsNone \<Longrightarrow> read_position st = Inr (0, 0, 0)"
  "Position st = Has pos \<Longrightarrow> PanTilt pos = IsNone \<or> Zoom pos = IsNone \<Longrightarrow>
     read_position st = Inl AttributeError"
  "Position st = Has pos \<Longrightarrow> PanTilt pos = Absent \<Longrightarrow> Zoom pos \<noteq> IsNone \<Longrightarrow>
     \<exists>z. read_position st = Inr (0, 0, z)"
  "Position st = Has pos \<Longrightarrow> Zoom pos = Absent \<Longrightarrow> PanTilt pos \<noteq> IsNone \<Longrightarrow>
     \<exists>p t. read_position st = Inr (p, t, 0)"
  "Position st = Has \<lparr>PanTilt = Has \<lparr>PanTilt_x = a, PanTilt_y = b\<rparr>, Zoom = Has \<lparr>Zoom_x = z\<rparr>\<rparr> \<Longrightarrow>
     read_position st = Inr (a, b, z)"
  by (auto simp: read_position_def read_pan_tilt_def read_zoom_def hasattr_def getattr_def
      split: attr.splits)

text \<open>
  Claim C10. On a connected controller \<^verbatim>\<open>get_current_position\<close> returns
  \<open>(0, 0, 0)\<close> when \<^verbatim>\<open>GetStatus\<close> raises, when the status has no position, and when
  the camera stands at the origin; when the position lacks \<^verbatim>\<open>PanTilt\<close> or \<^verbatim>\<open>Zoom\<close>, the
  missing component is returned as 0.
\<close>

theorem get_current_position_origin_ambiguous:
  assumes "ptz_service c = Some h" "media_profile c = Some prof"
  shows "(\<forall>e. lib_GetStatus dev (token prof) = Inl e \<longrightarrow>
            result (get_current_position dev) c = Inr (0, 0, 0))
       \<and> (\<forall>st. lib_GetStatus dev (token prof) = Inr st \<and>
               (Position st = Absent \<or> Position st = IsNone) \<longrightarrow>
            result (get_current_position dev) c = Inr (0, 0, 0))
       \<and> (\<forall>st pos. lib_GetStatus dev (token prof) = Inr st \<and> Position st = Has pos \<and>
               (PanTilt pos = Absent \<or> PanTilt pos = IsNone) \<longrightarrow>
            (\<exists>z. result (get_current_position dev) c = Inr (0, 0, z)))
       \<and> (\<forall>st pos. lib_GetStatus dev (token prof) = Inr st \<and> Position st = Has pos \<and>
               (Zoom pos = Absent \<or> Zoom pos = IsNone) \<longrightarrow>
            (\<exists>p t. result (get_current_position dev) c = Inr (p, t, 0)))
       \<and> (\<forall>st. lib_GetStatus dev (token prof) = Inr st \<and>
               Position st = Has \<lparr>PanTilt = Has \<lparr>PanTilt_x = 0, PanTilt_y = 0\<rparr>,
                                   Zoom = Has \<lparr>Zoom_x = 0\<rparr>\<rparr> \<longrightarrow>
            result (get_current_position dev) c = Inr (0, 0, 0))"
proof -
  note r = get_current_position_result [OF assms, of dev]
  have a: "result (get_current_position dev) c = Inr (0, 0, 0)"
    if "lib_GetStatus dev (token prof) = Inl e" for e
    using r that by simp
  have b: "result (get_current_position dev) c = Inr (0, 0, 0)"
    if "lib_GetStatus dev (token prof) = Inr st" "Position st = Absent \<or> Position st = IsNone"
    for st
    using r that read_position_cases(1) [of st] by simp
  have c: "\<exists>z. result (get_current_position dev) c = Inr (0, 0, z)"
    if st: "lib_GetStatus dev (token prof) = Inr st" and pos: "Position st = Has pos"
      and lack: "PanTilt pos = Absent \<or> PanTilt pos = IsNone" for st pos
  proof (cases "PanTilt pos = IsNone \<or> Zoom pos = IsNone")
    case True
    then show ?thesis using r st pos read_position_cases(2) [of st pos] by simp
  next
    case False
    then have "PanTilt pos = Absent" "Zoom pos \<noteq> IsNone"
      using lack by auto
    then obtain z where "read_position st = Inr (0, 0, z)"
      using pos read_position_cases(3) [of st pos] by auto
    then show ?thesis using r st by simp
  qed
  have d: "\<exists>p t. result (get_current_position dev) c = Inr (p, t, 0)"
    if st: "lib_GetStatus dev (token prof) = Inr st" and pos: "Position st = Has pos"
      and lack: "Zoom pos = Absent \<or> Zoom pos = IsNone" for st pos
  proof (cases "PanTilt pos = IsNone \<or> Zoom pos = IsNone")
    case True
    then show ?thesis using r st pos read_position_cases(2) [of st pos] by simp
  next
    case False
    then have "Zoom pos = Absent" "PanTilt pos \<noteq> IsNone"
      using lack by auto
    then obtain p t where "read_position st = Inr (p, t, 0)"
      using pos read_position_cases(4) [of st pos] by auto
    then show ?thesis using r st by simp
  qed
  have e: "result (get_current_position dev) c = Inr (0, 0, 0)"
    if "lib_GetStatus dev (token prof) = Inr st"
      "Position st = Has \<lparr>PanTilt = Has \<lparr>PanTilt_x = 0, PanTilt_y = 0\<rparr>, Zoom = Has \<lparr>Zoom_x = 0\<rparr>\<rparr>"
    for st
    using r that read_position_cases(5) [of st 0 0 0] by simp
  show ?thesis using a b c d e by blast
qed

theorem get_current_position_origin_ambiguous_witness:
  "ptz_service demo_controller = Some 3 \<and> media_profile demo_controller = Some demo_profile
   \<and> lib_GetStatus failing_device (token demo_profile) = Inl (LibraryError ''timeout'')
   \<and> result (get_current_position failing_device) demo_controller = Inr (0, 0, 0)
   \<and> lib_GetStatus origin_device (token demo_profile) = Inr origin_status
   \<and> Position origin_status = Has \<lparr>PanTilt = Has \<lparr>PanTilt_x = 0, PanTilt_y = 0\<rparr>,
                                     Zoom = Has \<lparr>Zoom_x = 0\<rparr>\<rparr>
   \<and> result (get_current_position origin_device) demo_controller = Inr (0, 0, 0)"
proof -
  have k: "ptz_service demo_controller = Some 3" "media_profile demo_controller = Some demo_profile"
    by (simp_all add: demo_defs)
  have f: "lib_GetStatus failing_device (token demo_profile) = Inl (LibraryError ''timeout'')"
    by (simp add: demo_defs)
  have g: "lib_GetStatus origin_device (token demo_profile) = Inr origin_status \<and>
           Position origin_status = Has \<lparr>PanTilt = Has \<lparr>PanTilt_x = 0, PanTilt_y = 0\<rparr>,
                                          Zoom = Has \<lparr>Zoom_x = 0\<rparr>\<rparr>"
    by (simp add: demo_defs)
  from f get_current_position_origin_ambiguous [OF k, of failing_device]
  have a: "result (get_current_position failing_device) demo_controller = Inr (0, 0, 0)"
    by blast
  from g get_current_position_origin_ambiguous [OF k, of origin_device]
  have b: "result (get_current_position origin_device) demo_controller = Inr (0, 0, 0)"
    by blast
  from k f g a b show ?thesis by blast
qed

text \<open>
  When the console lines of \<^verbatim>\<open>get_status\<close> can be formatted (no component of the
  position is \<^verbatim>\<open>None\<close>), the serialized status is returned.
\<close>

lemma print_position_result:
  assumes "\<forall>pos. Position st = Has pos \<longrightarrow> PanTilt pos \<noteq> IsNone \<and> Zoom pos \<noteq> IsNone"
  shows "result (print_position st) c = Inr ()"
  using assms
  by (auto simp: print_position_def print_pan_tilt_def print_zoom_def status_simps
      split: attr.splits option.splits sum.splits)

lemma get_status_serialized:
  assumes "ptz_service c = Some h" "media_profile c = Some prof"
    "lib_GetStatus dev (token prof) = Inr st"
    "\<forall>pos. Position st = Has pos \<longrightarrow> PanTilt pos \<noteq> IsNone \<and> Zoom pos \<noteq> IsNone"
  shows "result (get_status dev) c = Inr (serialize_status st)"
  using assms(1-3) print_position_result [OF assms(4), of c]
  by (simp add: get_status_def get_status_body_def status_simps print_move_status_result)

text \<open>
  Claim C4 fails on the code. \<^verbatim>\<open>GetStatus\<close> succeeds with a position whose \<^verbatim>\<open>Zoom\<close> is
  \<^verbatim>\<open>None\<close>; \<^verbatim>\<open>hasattr(pos, 'Zoom')\<close> holds, formatting \<^verbatim>\<open>pos.Zoom.x\<close> raises, and the
  handler returns the empty dictionary in place of the serialized status.
\<close>

theorem get_status_zoom_none:
  "ptz_service demo_controller = Some 3 \<and> media_profile demo_controller = Some demo_profile
   \<and> lib_GetStatus no_zoom_device ''profile_1'' = Inr no_zoom_status
   \<and> serialize_status no_zoom_status =
       [(''Position'',
         VDict [(''PanTilt'', VDict [(''x'', VFloat (1/4)), (''y'', VFloat (-1/2))]),
                (''Zoom'', VNone)]),
        (''MoveStatus'', VDict [(''PanTilt'', VStr ''IDLE''), (''Zoom'', VNone)])]
   \<and> result (get_status no_zoom_device) demo_controller = Inr []
   \<and> events (get_status no_zoom_device) demo_controller =
       [GetStatus ''profile_1'', Print (Info ''current status''), Print (Info ''pan''),
        Print (Info ''tilt''), Print (Failure ''status'' AttributeError)]"
  by (simp add: get_status_def get_status_body_def print_position_def print_pan_tilt_def
      print_zoom_def print_move_status_def status_simps demo_defs serialize_status_def
      serialize_attr_def serialize_ptz_vector_def serialize_vector2d_def
      serialize_move_status_def)

section \<open>The controller is left as it was\<close>

lemma ro_absolute_move: "reads_only (absolute_move dev pan tilt zoom speed)"
  unfolding absolute_move_def absolute_move_body_def by (intro ro_rules)

lemma ro_relative_move: "reads_only (relative_move dev pd td zd speed)"
  unfolding relative_move_def relative_move_body_def by (intro ro_rules)

lemma ro_stop: "reads_only (stop dev)"
  unfolding stop_def stop_body_def by (intro ro_rules)

lemma ro_continuous_move: "reads_only (continuous_move dev ps ts zs d)"
  unfolding continuous_move_def continuous_move_body_def by (intro ro_rules ro_stop)

text \<open>Both queries always return a value.\<close>

lemma get_status_total: "\<exists>v. result (get_status dev) c = Inr v"
  by (simp add: get_status_def status_simps split: sum.splits)

lemma get_current_position_total: "\<exists>v. result (get_current_position dev) c = Inr v"
  by (simp add: get_current_position_def status_simps split: sum.splits)

lemma get_status_twice:
  "result (py_seq (get_status dev0) (get_status dev)) c = result (get_status dev) c"
  using get_status_total [of dev0 c]
  by (auto simp: seq_result ro_get_status)

lemma get_current_position_twice:
  "result (py_seq (get_current_position dev0) (get_current_position dev)) c =
   result (get_current_position dev) c"
  using get_current_position_total [of dev0 c]
  by (auto simp: seq_result ro_get_current_position)

lemma status_queries_call_once:
  assumes "ptz_service c = Some h" "media_profile c = Some prof"
  shows "calls ''GetStatus'' (events (get_status dev) c) = [GetStatus (token prof)]"
    and "calls ''GetStatus'' (events (get_current_position dev) c) = [GetStatus (token prof)]"
  using assms
  by (simp_all add: get_status_def get_status_body_def get_current_position_def
      get_current_position_body_def status_simps calls_simps print_position_calls
      print_move_status_calls split: sum.splits)

lemma status_queries_from_answer:
  assumes "lib_GetStatus dev' = lib_GetStatus dev"
  shows "result (get_status dev') c = result (get_status dev) c"
    and "result (get_current_position dev') c = result (get_current_position dev) c"
proof -
  have "get_status dev' = get_status dev"
    by (simp add: get_status_def get_status_body_def assms)
  then show "result (get_status dev') c = result (get_status dev) c"
    by simp
  have "get_current_position dev' = get_current_position dev"
    by (simp add: get_current_position_def get_current_position_body_def assms)
  then show "result (get_current_position dev') c = result (get_current_position dev) c"
    by simp
qed

text \<open>
  Claim C6. \<^verbatim>\<open>absolute_move\<close>, \<^verbatim>\<open>relative_move\<close>, \<^verbatim>\<open>continuous_move\<close>, \<^verbatim>\<open>stop\<close>,
  \<^verbatim>\<open>get_status\<close> and \<^verbatim>\<open>get_current_position\<close> leave the controller, with every field of
  it, as it was. On a connected controller each call of \<^verbatim>\<open>get_status\<close> and of
  \<^verbatim>\<open>get_current_position\<close> makes exactly one \<^verbatim>\<open>GetStatus\<close> call; what they return is
  determined by the library's answer to it, and an earlier query, whatever the camera
  answered then, has no effect on the result of the next one.
\<close>

theorem ptz_operations_keep_no_state:
  "after (absolute_move dev pan tilt zoom speed) c = c
   \<and> after (relative_move dev pd td zd speed) c = c
   \<and> after (continuous_move dev ps ts zs d) c = c
   \<and> after (stop dev) c = c
   \<and> after (get_status dev) c = c
   \<and> after (get_current_position dev) c = c
   \<and> (\<forall>h prof. ptz_service c = Some h \<and> media_profile c = Some prof \<longrightarrow>
         calls ''GetStatus'' (events (get_status dev) c) = [GetStatus (token prof)] \<and>
         calls ''GetStatus'' (events (get_current_position dev) c) = [GetStatus (token prof)])
   \<and> (\<forall>dev'. lib_GetStatus dev' = lib_GetStatus dev \<longrightarrow>
         result (get_status dev') c = result (get_status dev) c \<and>
         result (get_current_position dev') c = result (get_current_position dev) c)
   \<and> (\<forall>dev0. result (py_seq (get_status dev0) (get_status dev)) c = result (get_status dev) c \<and>
         result (py_seq (get_current_position dev0) (get_current_position dev)) c =
         result (get_current_position dev) c)"
  using reads_only_after [OF ro_absolute_move, of dev pan tilt zoom speed c]
    reads_only_after [OF ro_relative_move, of dev pd td zd speed c]
    reads_only_after [OF ro_continuous_move, of dev ps ts zs d c]
    reads_only_after [OF ro_stop, of dev c]
    reads_only_after [OF ro_get_status, of dev c]
    reads_only_after [OF ro_get_current_position, of dev c]
    status_queries_call_once [of c _ _ dev]
    status_queries_from_answer [of _ dev c]
    get_status_twice [of _ dev c] get_current_position_twice [of _ dev c]
  by blast

lemma demo_position_queries:
  "result (get_current_position demo_device) demo_controller = Inr (1/4, -1/2, 0)"
  "result (py_seq (get_current_position origin_device) (get_current_position demo_device))
     demo_controller = Inr (1/4, -1/2, 0)"
  "calls ''GetStatus'' (events (get_current_position demo_device) demo_controller) =
     [GetStatus ''profile_1'']"
  by (simp_all add: get_current_position_def get_current_position_body_def read_position_def
      read_pan_tilt_def read_zoom_def status_simps ro_get_current_position demo_defs
      calls_simps)

theorem ptz_operations_keep_no_state_witness:
  "ptz_service demo_controller = Some 3 \<and> media_profile demo_controller = Some demo_profile
   \<and> lib_GetStatus demo_device = lib_GetStatus demo_device
   \<and> calls ''GetStatus'' (events (get_current_position demo_device) demo_controller) =
       [GetStatus (token demo_profile)]
   \<and> after (get_current_position demo_device) demo_controller = demo_controller
   \<and> result (py_seq (get_current_position origin_device) (get_current_position demo_device))
       demo_controller = Inr (1/4, -1/2, 0)"
proof -
  have k: "ptz_service demo_controller = Some 3 \<and> media_profile demo_controller = Some demo_profile"
    by (simp add: demo_defs)
  note t = ptz_operations_keep_no_state [of demo_device None None None 1 demo_controller
      0 0 0 0 0 0 1]
  from t k have a: "calls ''GetStatus'' (events (get_current_position demo_device) demo_controller) =
       [GetStatus (token demo_profile)]"
    by blast
  from t have b: "after (get_current_position demo_device) demo_controller = demo_controller"
    by blast
  from t have "result (py_seq (get_current_position origin_device) (get_current_position demo_device))
       demo_controller = result (get_current_position demo_device) demo_controller"
    by blast
  then have c: "result (py_seq (get_current_position origin_device)
       (get_current_position demo_device)) demo_controller = Inr (1/4, -1/2, 0)"
    by (simp add: demo_position_queries(1))
  from k a b c show ?thesis by blast
qed

section \<open>One library call per wrapper call\<close>

lemma ro_goto_preset: "reads_only (goto_preset dev preset gspeed)"
  unfolding goto_preset_def goto_preset_body_def by (intro ro_rules)

lemma ro_set_preset: "reads_only (set_preset dev preset_name new_token)"
  unfolding set_preset_def set_preset_body_def by (intro ro_rules)

lemma ro_remove_preset: "reads_only (remove_preset dev old_token)"
  unfolding remove_preset_def remove_preset_body_def by (intro ro_rules)

lemma ro_goto_home: "reads_only (goto_home dev hspeed)"
  unfolding goto_home_def goto_home_body_def by (intro ro_rules)

lemma ro_set_home: "reads_only (set_home dev)"
  unfolding set_home_def set_home_body_def by (intro ro_rules)

lemmas move_simps = run_simps ro_if ro_case_option ro_stop not_none_def calls_simps

lemma absolute_move_once:
  "length (calls ''AbsoluteMove'' (events (absolute_move dev pan tilt zoom speed) c)) \<le> 1"
  by (simp add: absolute_move_def absolute_move_body_def move_simps split: sum.splits option.splits)

lemma absolute_move_fails:
  "\<forall>tok pos spd e. AbsoluteMove tok pos spd \<in> set (events (absolute_move dev pan tilt zoom speed) c) \<and>
       lib_AbsoluteMove dev tok pos spd = Inl e \<longrightarrow>
       result (absolute_move dev pan tilt zoom speed) c = Inr False \<and>
       last (events (absolute_move dev pan tilt zoom speed) c) = Print (Failure ''absolute move'' e)"
  by (auto simp: absolute_move_def absolute_move_body_def move_simps split: sum.splits option.splits)

lemma relative_move_once:
  "length (calls ''RelativeMove'' (events (relative_move dev pd td zd rspeed) c)) \<le> 1"
  by (simp add: relative_move_def relative_move_body_def move_simps split: sum.splits option.splits)

lemma relative_move_fails:
  "\<forall>tok tr spd e. RelativeMove tok tr spd \<in> set (events (relative_move dev pd td zd rspeed) c) \<and>
       lib_RelativeMove dev tok tr spd = Inl e \<longrightarrow>
       result (relative_move dev pd td zd rspeed) c = Inr False \<and>
       last (events (relative_move dev pd td zd rspeed) c) = Print (Failure ''relative move'' e)"
  by (auto simp: relative_move_def relative_move_body_def move_simps split: sum.splits option.splits)

lemma continuous_move_once:
  "length (calls ''ContinuousMove'' (events (continuous_move dev ps ts zs d) c)) \<le> 1"
  by (simp add: continuous_move_def continuous_move_body_def stop_def stop_body_def move_simps split: sum.splits option.splits)

lemma continuous_move_fails:
  "\<forall>tok vel e. ContinuousMove tok vel \<in> set (events (continuous_move dev ps ts zs d) c) \<and>
       lib_ContinuousMove dev tok vel = Inl e \<longrightarrow>
       last (events (continuous_move dev ps ts zs d) c) = Print (Failure ''continuous move'' e)"
  by (auto simp: continuous_move_def continuous_move_body_def stop_def stop_body_def move_simps split: sum.splits option.splits)

lemma stop_once:
  "length (calls ''Stop'' (events (stop dev) c)) \<le> 1"
  by (simp add: stop_def stop_body_def move_simps split: sum.splits option.splits)

lemma stop_fails:
  "\<forall>tok a b e. Stop tok a b \<in> set (events (stop dev) c) \<and>
       lib_Stop dev tok a b = Inl e \<longrightarrow>
       last (events (stop dev) c) = Print (Failure ''stop'' e)"
  by (auto simp: stop_def stop_body_def move_simps split: sum.splits option.splits)

lemma goto_preset_once:
  "length (calls ''GotoPreset'' (events (goto_preset dev preset gspeed) c)) \<le> 1"
  by (simp add: goto_preset_def goto_preset_body_def move_simps split: sum.splits option.splits)

lemma goto_preset_fails:
  "\<forall>tok pr spd e. GotoPreset tok pr spd \<in> set (events (goto_preset dev preset gspeed) c) \<and>
       lib_GotoPreset dev tok pr spd = Inl e \<longrightarrow>
       last (events (goto_preset dev preset gspeed) c) = Print (Failure ''goto preset'' e)"
  by (auto simp: goto_preset_def goto_preset_body_def move_simps split: sum.splits option.splits)

lemma set_preset_once:
  "length (calls ''SetPreset'' (events (set_preset dev preset_name new_token) c)) \<le> 1"
  by (simp add: set_preset_def set_preset_body_def move_simps split: sum.splits option.splits)

lemma set_preset_fails:
  "\<forall>tok nm pt e. SetPreset tok nm pt \<in> set (events (set_preset dev preset_name new_token) c) \<and>
       lib_SetPreset dev tok nm pt = Inl e \<longrightarrow>
       result (set_preset dev preset_name new_token) c = Inr [] \<and>
       last (events (set_preset dev preset_name new_token) c) = Print (Failure ''set preset'' e)"
  by (auto simp: set_preset_def set_preset_body_def move_simps split: sum.splits option.splits)

lemma remove_preset_once:
  "length (calls ''RemovePreset'' (events (remove_preset dev old_token) c)) \<le> 1"
  by (simp add: remove_preset_def remove_preset_body_def move_simps split: sum.splits option.splits)

lemma remove_preset_fails:
  "\<forall>tok pr e. RemovePreset tok pr \<in> set (events (remove_preset dev old_token) c) \<and>
       lib_RemovePreset dev tok pr = Inl e \<longrightarrow>
       last (events (remove_preset dev old_token) c) = Print (Failure ''remove preset'' e)"
  by (auto simp: remove_preset_def remove_preset_body_def move_simps split: sum.splits option.splits)

lemma goto_home_once:
  "length (calls ''GotoHomePosition'' (events (goto_home dev hspeed) c)) \<le> 1"
  by (simp add: goto_home_def goto_home_body_def move_simps split: sum.splits option.splits)

lemma goto_home_fails:
  "\<forall>tok spd e. GotoHomePosition tok spd \<in> set (events (goto_home dev hspeed) c) \<and>
       lib_GotoHomePosition dev tok spd = Inl e \<longrightarrow>
       last (events (goto_home dev hspeed) c) = Print (Failure ''goto home'' e)"
  by (auto simp: goto_home_def goto_home_body_def move_simps split: sum.splits option.splits)

lemma set_home_once:
  "length (calls ''SetHomePosition'' (events (set_home dev) c)) \<le> 1"
  by (simp add: set_home_def set_home_body_def move_simps split: sum.splits option.splits)

lemma set_home_fails:
  "\<forall>tok e. SetHomePosition tok \<in> set (events (set_home dev) c) \<and>
       lib_SetHomePosition dev tok = Inl e \<longrightarrow>
       last (events (set_home dev) c) = Print (Failure ''set home'' e)"
  by (auto simp: set_home_def set_home_body_def move_simps split: sum.splits option.splits)

text \<open>
  Since the read of \<^verbatim>\<open>response.PresetToken\<close> raises, \<^verbatim>\<open>set_preset\<close> returns the empty
  string also when the library's \<^verbatim>\<open>SetPreset\<close> has succeeded.
\<close>

lemma set_preset_returns_empty:
  "result (set_preset dev preset_name new_token) c = Inr []"
  by (simp add: set_preset_def set_preset_body_def str_PresetToken_def move_simps
      split: sum.splits option.splits)

text \<open>
  Claim C7. In one call of \<^verbatim>\<open>absolute_move\<close>, \<^verbatim>\<open>relative_move\<close>, \<^verbatim>\<open>continuous_move\<close>,
  \<^verbatim>\<open>stop\<close>, \<^verbatim>\<open>goto_preset\<close>, \<^verbatim>\<open>set_preset\<close>, \<^verbatim>\<open>remove_preset\<close>, \<^verbatim>\<open>goto_home\<close> and
  \<^verbatim>\<open>set_home\<close> the library operation of the wrapper is called at most once; when that
  call raises, the wrapper's last action is the console line of its handler with that
  exception, and the wrappers that return a value return their failure value.
\<close>

theorem wrappers_call_at_most_once:
  "length (calls ''AbsoluteMove'' (events (absolute_move dev pan tilt zoom speed) c)) \<le> 1
   \<and> length (calls ''RelativeMove'' (events (relative_move dev pd td zd rspeed) c)) \<le> 1
   \<and> length (calls ''ContinuousMove'' (events (continuous_move dev ps ts zs d) c)) \<le> 1
   \<and> length (calls ''Stop'' (events (stop dev) c)) \<le> 1
   \<and> length (calls ''GotoPreset'' (events (goto_preset dev preset gspeed) c)) \<le> 1
   \<and> length (calls ''SetPreset'' (events (set_preset dev preset_name new_token) c)) \<le> 1
   \<and> length (calls ''RemovePreset'' (events (remove_preset dev old_token) c)) \<le> 1
   \<and> length (calls ''GotoHomePosition'' (events (goto_home dev hspeed) c)) \<le> 1
   \<and> length (calls ''SetHomePosition'' (events (set_home dev) c)) \<le> 1
   \<and> (\<forall>tok pos spd e. AbsoluteMove tok pos spd \<in> set (events (absolute_move dev pan tilt zoom speed) c) \<and>
       lib_AbsoluteMove dev tok pos spd = Inl e \<longrightarrow>
       result (absolute_move dev pan tilt zoom speed) c = Inr False \<and>
       last (events (absolute_move dev pan tilt zoom speed) c) = Print (Failure ''absolute move'' e))
   \<and> (\<forall>tok tr spd e. RelativeMove tok tr spd \<in> set (events (relative_move dev pd td zd rspeed) c) \<and>
       lib_RelativeMove dev tok tr spd = Inl e \<longrightarrow>
       result (relative_move dev pd td zd rspeed) c = Inr False \<and>
       last (events (relative_move dev pd td zd rspeed) c) = Print (Failure ''relative move'' e))
   \<and> (\<forall>tok vel e. ContinuousMove tok vel \<in> set (events (continuous_move dev ps ts zs d) c) \<and>
       lib_ContinuousMove dev tok vel = Inl e \<longrightarrow>
       last (events (continuous_move dev ps ts zs d) c) = Print (Failure ''continuous move'' e))
   \<and> (\<forall>tok a b e. Stop tok a b \<in> set (events (stop dev) c) \<and>
       lib_Stop dev tok a b = Inl e \<longrightarrow>
       last (events (stop dev) c) = Print (Failure ''stop'' e))
   \<and> (\<forall>tok pr spd e. GotoPreset tok pr spd \<in> set (events (goto_preset dev preset gspeed) c) \<and>
       lib_GotoPreset dev tok pr spd = Inl e \<longrightarrow>
       last (events (goto_preset dev preset gspeed) c) = Print (Failure ''goto preset'' e))
   \<and> (\<forall>tok nm pt e. SetPreset tok nm pt \<in> set (events (set_preset dev preset_name new_token) c) \<and>
       lib_SetPreset dev tok nm pt = Inl e \<longrightarrow>
       result (set_preset dev preset_name new_token) c = Inr [] \<and>
       last (events (set_preset dev preset_name new_token) c) = Print (Failure ''set preset'' e))
   \<and> (\<forall>tok pr e. RemovePreset tok pr \<in> set (events (remove_preset dev old_token) c) \<and>
       lib_RemovePreset dev tok pr = Inl e \<longrightarrow>
       last (events (remove_preset dev old_token) c) = Print (Failure ''remove preset'' e))
   \<and> (\<forall>tok spd e. GotoHomePosition tok spd \<in> set (events (goto_home dev hspeed) c) \<and>
       lib_GotoHomePosition dev tok spd = Inl e \<longrightarrow>
       last (events (goto_home dev hspeed) c) = Print (Failure ''goto home'' e))
   \<and> (\<forall>tok e. SetHomePosition tok \<in> set (events (set_home dev) c) \<and>
       lib_SetHomePosition dev tok = Inl e \<longrightarrow>
       last (events (set_home dev) c) = Print (Failure ''set home'' e))"
  by (intro conjI)
    (rule absolute_move_once,
     rule relative_move_once,
     rule continuous_move_once,
     rule stop_once,
     rule goto_preset_once,
     rule set_preset_once,
     rule remove_preset_once,
     rule goto_home_once,
     rule set_home_once,
     rule absolute_move_fails,
     rule relative_move_fails,
     rule continuous_move_fails,
     rule stop_fails,
     rule goto_preset_fails,
     rule set_preset_fails,
     rule remove_preset_fails,
     rule goto_home_fails,
     rule set_home_fails)
lemma failing_relative_move:
  "events (relative_move failing_device 1 0 0 1) demo_controller =
     [create_type ''RelativeMove'',
      RelativeMove ''profile_1'' (vector_dict 1 0 0) (speed_dict 1),
      Print (Failure ''relative move'' (LibraryError ''timeout''))]"
  by (simp add: relative_move_def relative_move_body_def move_simps demo_defs)

theorem wrappers_call_at_most_once_witness:
  "RelativeMove ''profile_1'' (vector_dict 1 0 0) (speed_dict 1)
     \<in> set (events (relative_move failing_device 1 0 0 1) demo_controller)
   \<and> lib_RelativeMove failing_device ''profile_1'' (vector_dict 1 0 0) (speed_dict 1) =
       Inl (LibraryError ''timeout'')
   \<and> result (relative_move failing_device 1 0 0 1) demo_controller = Inr False
   \<and> last (events (relative_move failing_device 1 0 0 1) demo_controller) =
       Print (Failure ''relative move'' (LibraryError ''timeout''))
   \<and> length (calls ''RelativeMove'' (events (relative_move failing_device 1 0 0 1)
        demo_controller)) \<le> 1"
proof -
  have h: "RelativeMove ''profile_1'' (vector_dict 1 0 0) (speed_dict 1)
     \<in> set (events (relative_move failing_device 1 0 0 1) demo_controller)"
    by (simp add: failing_relative_move)
  have l: "lib_RelativeMove failing_device ''profile_1'' (vector_dict 1 0 0) (speed_dict 1) =
       Inl (LibraryError ''timeout'')"
    by (simp add: demo_defs)
  note t = wrappers_call_at_most_once [of failing_device None None None 1 demo_controller
      1 0 0 1 0 0 0 1 "''1''" 1 "''home''" None "''1''" 1]
  from t have r: "\<forall>tok tr spd e.
      RelativeMove tok tr spd \<in> set (events (relative_move failing_device 1 0 0 1) demo_controller) \<and>
      lib_RelativeMove failing_device tok tr spd = Inl e \<longrightarrow>
      result (relative_move failing_device 1 0 0 1) demo_controller = Inr False \<and>
      last (events (relative_move failing_device 1 0 0 1) demo_controller) =
        Print (Failure ''relative move'' e)"
    by (elim conjE) assumption
  from r h l have a: "result (relative_move failing_device 1 0 0 1) demo_controller = Inr False \<and>
      last (events (relative_move failing_device 1 0 0 1) demo_controller) =
       Print (Failure ''relative move'' (LibraryError ''timeout''))"
    by blast
  from t have b: "length (calls ''RelativeMove'' (events (relative_move failing_device 1 0 0 1)
        demo_controller)) \<le> 1"
    by (elim conjE) assumption
  from h l a b show ?thesis by blast
qed

section \<open>Methods that assign fields of the controller\<close>

lemma tracedI:
  assumes "\<And>s. \<exists>r c' evs. m s = (r, \<lparr>self = c', trace = trace s @ evs\<rparr>) \<and>
              m \<lparr>self = self s, trace = []\<rparr> = (r, \<lparr>self = c', trace = evs\<rparr>)"
  shows "traced m"
  unfolding traced_def
proof
  fix s
  from assms [of s] obtain r c' evs where
    a: "m s = (r, \<lparr>self = c', trace = trace s @ evs\<rparr>)" and
    b: "m \<lparr>self = self s, trace = []\<rparr> = (r, \<lparr>self = c', trace = evs\<rparr>)"
    by blast
  from b have "result m (self s) = r" "events m (self s) = evs" "after m (self s) = c'"
    by (simp_all add: run_defs)
  with a show "m s = (result m (self s),
                  \<lparr>self = after m (self s), trace = trace s @ events m (self s)\<rparr>)"
    by simp
qed

lemma tracedD:
  "traced m \<Longrightarrow>
   m s = (result m (self s), \<lparr>self = after m (self s), trace = trace s @ events m (self s)\<rparr>)"
  by (simp add: traced_def)

lemma reads_only_traced:
  assumes "reads_only m"
  shows "traced m"
proof (rule tracedI)
  fix s
  have "m s = (result m (self s), \<lparr>self = self s, trace = trace s @ events m (self s)\<rparr>)"
    using reads_onlyD [OF assms, of s] by simp
  moreover
  have "m \<lparr>self = self s, trace = []\<rparr> =
          (result m (self s), \<lparr>self = self s, trace = events m (self s)\<rparr>)"
    using reads_onlyD [OF assms, of "\<lparr>self = self s, trace = []\<rparr>"] by simp
  ultimately
  show "\<exists>r c' evs. m s = (r, \<lparr>self = c', trace = trace s @ evs\<rparr>) \<and>
              m \<lparr>self = self s, trace = []\<rparr> = (r, \<lparr>self = c', trace = evs\<rparr>)"
    by blast
qed

lemma traced_set_self: "traced (set_self upd)"
  by (rule tracedI) (simp add: set_self_def)

lemma set_self_run:
  "result (set_self upd) c = Inr ()"
  "events (set_self upd) c = []"
  "after (set_self upd) c = upd c"
  by (simp_all add: run_defs set_self_def)

lemma t_bind_on_state:
  assumes m: "traced m" and f: "\<And>v. traced (f v)"
  shows "py_bind m f s =
           (case result m (self s) of
              Inl e \<Rightarrow> (Inl e, \<lparr>self = after m (self s),
                                 trace = trace s @ events m (self s)\<rparr>)
            | Inr v \<Rightarrow> (result (f v) (after m (self s)),
                        \<lparr>self = after (f v) (after m (self s)),
                         trace = trace s @ events m (self s) @
                                 events (f v) (after m (self s))\<rparr>))"
proof (cases "result m (self s)")
  case (Inl e)
  then show ?thesis using tracedD [OF m, of s] by (simp add: py_bind_def)
next
  case (Inr v)
  then show ?thesis
    using tracedD [OF m, of s]
      tracedD [OF f, of v "\<lparr>self = after m (self s), trace = trace s @ events m (self s)\<rparr>"]
    by (simp add: py_bind_def)
qed

lemma t_try_on_state:
  assumes m: "traced m" and h: "\<And>e. traced (h e)"
  shows "py_try m h s =
           (case result m (self s) of
              Inl e \<Rightarrow> (result (h e) (after m (self s)),
                        \<lparr>self = after (h e) (after m (self s)),
                         trace = trace s @ events m (self s) @
                                 events (h e) (after m (self s))\<rparr>)
            | Inr v \<Rightarrow> (Inr v, \<lparr>self = after m (self s),
                                 trace = trace s @ events m (self s)\<rparr>))"
proof (cases "result m (self s)")
  case (Inl e)
  then show ?thesis
    using tracedD [OF m, of s]
      tracedD [OF h, of e "\<lparr>self = after m (self s), trace = trace s @ events m (self s)\<rparr>"]
    by (simp add: py_try_def)
next
  case (Inr v)
  then show ?thesis using tracedD [OF m, of s] by (simp add: py_try_def)
qed

lemma t_bind_run:
  assumes "traced m" "\<And>v. traced (f v)"
  shows "result (py_bind m f) c =
           (case result m c of Inl e \<Rightarrow> Inl e | Inr v \<Rightarrow> result (f v) (after m c))"
    and "events (py_bind m f) c =
           events m c @ (case result m c of Inl e \<Rightarrow> [] | Inr v \<Rightarrow> events (f v) (after m c))"
    and "after (py_bind m f) c =
           (case result m c of Inl e \<Rightarrow> after m c | Inr v \<Rightarrow> after (f v) (after m c))"
  using t_bind_on_state [OF assms, where s = "\<lparr>self = c, trace = []\<rparr>"]
  by (simp_all add: result_def [of "py_bind m f"] events_def [of "py_bind m f"]
      after_def [of "py_bind m f"] exec_def split: sum.splits)

lemma t_try_run:
  assumes "traced m" "\<And>e. traced (h e)"
  shows "result (py_try m h) c =
           (case result m c of Inl e \<Rightarrow> result (h e) (after m c) | Inr v \<Rightarrow> Inr v)"
    and "events (py_try m h) c =
           events m c @ (case result m c of Inl e \<Rightarrow> events (h e) (after m c) | Inr v \<Rightarrow> [])"
    and "after (py_try m h) c =
           (case result m c of Inl e \<Rightarrow> after (h e) (after m c) | Inr v \<Rightarrow> after m c)"
  using t_try_on_state [OF assms, where s = "\<lparr>self = c, trace = []\<rparr>"]
  by (simp_all add: result_def [of "py_try m h"] events_def [of "py_try m h"]
      after_def [of "py_try m h"] exec_def split: sum.splits)

lemma traced_bind:
  assumes "traced m" "\<And>v. traced (f v)"
  shows "traced (py_bind m f)"
  unfolding traced_def
  by (simp add: t_bind_on_state [OF assms] t_bind_run [OF assms] split: sum.splits)

lemma traced_seq:
  assumes "traced m" "traced n"
  shows "traced (py_seq m n)"
  unfolding py_seq_def using assms by (intro traced_bind)

lemma traced_try:
  assumes "traced m" "\<And>e. traced (h e)"
  shows "traced (py_try m h)"
  unfolding traced_def
  by (simp add: t_try_on_state [OF assms] t_try_run [OF assms] split: sum.splits)

lemma t_seq_run:
  assumes "traced m" "traced n"
  shows "result (py_seq m n) c =
           (case result m c of Inl e \<Rightarrow> Inl e | Inr v \<Rightarrow> result n (after m c))"
    and "events (py_seq m n) c =
           events m c @ (case result m c of Inl e \<Rightarrow> [] | Inr v \<Rightarrow> events n (after m c))"
    and "after (py_seq m n) c =
           (case result m c of Inl e \<Rightarrow> after m c | Inr v \<Rightarrow> after n (after m c))"
  unfolding py_seq_def using assms by (simp_all add: t_bind_run)

lemma traced_case_option:
  "traced a \<Longrightarrow> (\<And>x. traced (b x)) \<Longrightarrow> traced (case v of None \<Rightarrow> a | Some x \<Rightarrow> b x)"
  by (simp split: option.split)

lemma traced_case_attr:
  "traced a \<Longrightarrow> traced b \<Longrightarrow> (\<And>x. traced (d x)) \<Longrightarrow>
   traced (case v of Absent \<Rightarrow> a | IsNone \<Rightarrow> b | Has x \<Rightarrow> d x)"
  by (simp split: attr.split)

lemma traced_case_list:
  "traced a \<Longrightarrow> (\<And>x xs. traced (b x xs)) \<Longrightarrow> traced (case v of [] \<Rightarrow> a | x # xs \<Rightarrow> b x xs)"
  by (simp split: list.split)

lemma traced_steps:
  "traced (py_return v)" "traced (py_raise e)" "traced (py_lift r)" "traced (call ev r)"
  "traced (print msg)" "traced (sleep dev d)" "traced (self_field fld)" "traced get_self"
  by (intro reads_only_traced ro_intros)+

lemma step_after:
  "after (py_return v) c = c" "after (py_raise e) c = c" "after (py_lift r) c = c"
  "after (call ev r) c = c" "after (print msg) c = c" "after (sleep dev d) c = c"
  "after (self_field fld) c = c" "after get_self c = c"
  by (intro reads_only_after ro_intros)+

lemmas traced_rules = traced_steps traced_set_self traced_bind traced_seq traced_try
  traced_case_option traced_case_attr traced_case_list

lemmas t_run_simps = step_result step_events step_after set_self_run t_bind_run t_seq_run
  t_try_run traced_rules

section \<open>Connecting\<close>

lemma traced_discover_pan_tilt: "traced (discover_pan_tilt spaces)"
  unfolding discover_pan_tilt_def
  by (simp add: traced_rules split: option.split attr.split list.split)

lemma traced_discover_zoom: "traced (discover_zoom spaces)"
  unfolding discover_zoom_def
  by (simp add: traced_rules split: option.split attr.split list.split)

lemma traced_get_ptz_config_options_body: "traced (get_ptz_config_options_body dev)"
  unfolding get_ptz_config_options_body_def
  by (intro traced_rules traced_discover_pan_tilt traced_discover_zoom)

lemma traced_get_ptz_config_options: "traced (get_ptz_config_options dev)"
  unfolding get_ptz_config_options_def
  by (intro traced_rules traced_get_ptz_config_options_body)

lemma get_ptz_config_options_result: "result (get_ptz_config_options dev) c = Inr ()"
  by (simp add: get_ptz_config_options_def t_run_simps traced_get_ptz_config_options_body
      split: sum.splits)

lemma traced_first_profile: "traced (first_profile profiles)"
  unfolding first_profile_def by (intro traced_rules)

lemma traced_connect_body: "traced (connect_body dev)"
  unfolding connect_body_def
  by (intro traced_rules traced_first_profile traced_get_ptz_config_options)

lemma traced_connect: "traced (connect dev)"
  unfolding connect_def by (intro traced_rules traced_connect_body)

lemmas connect_simps = t_run_simps traced_first_profile traced_get_ptz_config_options
  traced_connect_body get_ptz_config_options_result

text \<open>\<^verbatim>\<open>connect\<close> returns \<^verbatim>\<open>True\<close> exactly when its five library calls succeed and a
  profile is there.\<close>

lemma connect_result:
  "result (connect dev) c =
     (case lib_ONVIFCamera dev (host c) (port c) (user c) (password c) (wsdl_arg c) of
        Inl e \<Rightarrow> Inr False
      | Inr cam \<Rightarrow>
     (case lib_GetDeviceInformation dev of
        Inl e \<Rightarrow> Inr False
      | Inr info \<Rightarrow>
     (case lib_create_media_service dev of
        Inl e \<Rightarrow> Inr False
      | Inr ms \<Rightarrow>
     (case lib_GetProfiles dev of
        Inl e \<Rightarrow> Inr False
      | Inr [] \<Rightarrow> Inr False
      | Inr (p # ps) \<Rightarrow>
     (case lib_create_ptz_service dev of
        Inl e \<Rightarrow> Inr False
      | Inr ptz \<Rightarrow> Inr True)))))"
  by (auto simp: connect_def connect_body_def first_profile_def connect_simps
      split: sum.splits list.splits)

text \<open>
  When \<^verbatim>\<open>connect\<close> returns \<^verbatim>\<open>True\<close>, it has stored the camera, the services and the
  first profile, and has ended with \<^verbatim>\<open>_get_ptz_config_options\<close> on that controller.
\<close>

lemma connect_success:
  assumes "result (connect dev) c = Inr True"
  shows "\<exists>cam ms p ps ptz.
           lib_GetProfiles dev = Inr (p # ps) \<and>
           after (connect dev) c =
             after (get_ptz_config_options dev)
               (c\<lparr>camera := Some cam, media_service := Some ms, media_profile := Some p,
                  ptz_service := Some ptz\<rparr>) \<and>
           events (connect dev) c =
             [Print (Info ''connecting''),
              ONVIFCamera (host c) (port c) (user c) (password c) (wsdl_arg c),
              Print (Info ''connected''), GetDeviceInformation, Print (Info ''manufacturer''),
              Print (Info ''model''), Print (Info ''firmware version''), create_media_service,
              Print (Info ''media service created''), GetProfiles, Print (Info ''profile name''),
              Print (Info ''profile token''), create_ptz_service,
              Print (Info ''ptz service created'')] @
             events (get_ptz_config_options dev)
               (c\<lparr>camera := Some cam, media_service := Some ms, media_profile := Some p,
                  ptz_service := Some ptz\<rparr>)"
proof -
  from assms obtain cam info ms p ps ptz where ok:
    "lib_ONVIFCamera dev (host c) (port c) (user c) (password c) (wsdl_arg c) = Inr cam"
    "lib_GetDeviceInformation dev = Inr info" "lib_create_media_service dev = Inr ms"
    "lib_GetProfiles dev = Inr (p # ps)" "lib_create_ptz_service dev = Inr ptz"
    unfolding connect_result by (auto split: sum.splits list.splits)
  have "after (connect dev) c =
             after (get_ptz_config_options dev)
               (c\<lparr>camera := Some cam, media_service := Some ms, media_profile := Some p,
                  ptz_service := Some ptz\<rparr>)"
    using ok by (simp add: connect_def connect_body_def first_profile_def connect_simps)
  moreover have "events (connect dev) c =
             [Print (Info ''connecting''),
              ONVIFCamera (host c) (port c) (user c) (password c) (wsdl_arg c),
              Print (Info ''connected''), GetDeviceInformation, Print (Info ''manufacturer''),
              Print (Info ''model''), Print (Info ''firmware version''), create_media_service,
              Print (Info ''media service created''), GetProfiles, Print (Info ''profile name''),
              Print (Info ''profile token''), create_ptz_service,
              Print (Info ''ptz service created'')] @
             events (get_ptz_config_options dev)
               (c\<lparr>camera := Some cam, media_service := Some ms, media_profile := Some p,
                  ptz_service := Some ptz\<rparr>)"
    using ok by (simp add: connect_def connect_body_def first_profile_def connect_simps)
  ultimately show ?thesis using ok(4) by blast
qed

text \<open>
  \<^verbatim>\<open>_get_ptz_config_options\<close> on a controller that has a PTZ service and a profile: the
  library's \<^verbatim>\<open>GetConfigurationOptions\<close> is called when the request object is made and the
  profile has a PTZ configuration, and the ranges follow its answer.
\<close>

lemmas discovery_defs = get_ptz_config_options_def get_ptz_config_options_body_def
  discover_pan_tilt_def discover_zoom_def not_none_def getattr_def

lemmas discovery_simps = t_run_simps traced_discover_pan_tilt traced_discover_zoom
  traced_get_ptz_config_options_body

lemma discover_calls:
  "calls ''GetConfigurationOptions'' (events (discover_pan_tilt spaces) c) = []"
  "calls ''GetConfigurationOptions'' (events (discover_zoom spaces) c) = []"
  by (simp_all add: discover_pan_tilt_def discover_zoom_def t_run_simps calls_simps
      split: option.splits attr.splits list.splits)

lemma discovery_calls:
  assumes "ptz_service c = Some ptz" "media_profile c = Some p"
  shows "calls ''GetConfigurationOptions'' (events (get_ptz_config_options dev) c) =
           (case PTZConfiguration p of
              Has cfg \<Rightarrow>
                (case lib_create_type dev ''GetConfigurationOptions'' of
                   Inl e \<Rightarrow> []
                 | Inr u \<Rightarrow> [GetConfigurationOptions (PTZConfiguration_token cfg)])
            | _ \<Rightarrow> [])"
  using assms
  by (simp add: get_ptz_config_options_def get_ptz_config_options_body_def not_none_def
      getattr_def discovery_simps calls_simps discover_calls
      split: sum.splits attr.splits option.splits)

lemma discovery_call:
  assumes "ptz_service c = Some ptz" "media_profile c = Some p"
    "GetConfigurationOptions tok \<in> set (events (get_ptz_config_options dev) c)"
  shows "\<exists>cfg. PTZConfiguration p = Has cfg \<and> tok = PTZConfiguration_token cfg \<and>
           lib_create_type dev ''GetConfigurationOptions'' = Inr ()"
proof -
  from assms(3)
  have "GetConfigurationOptions tok
          \<in> set (calls ''GetConfigurationOptions'' (events (get_ptz_config_options dev) c))"
    by (simp add: calls_def)
  then show ?thesis
    unfolding discovery_calls [OF assms(1,2)]
    by (cases "PTZConfiguration p"; cases "lib_create_type dev ''GetConfigurationOptions''")
      auto
qed

lemma discovery_none:
  assumes "ptz_service c = Some ptz" "media_profile c = Some p"
    "\<not> (\<exists>cfg opts sp. PTZConfiguration p = Has cfg \<and>
          lib_create_type dev ''GetConfigurationOptions'' = Inr () \<and>
          lib_GetConfigurationOptions dev (PTZConfiguration_token cfg) = Inr opts \<and>
          Spaces opts = Has sp)"
  shows "pan_range (after (get_ptz_config_options dev) c) = pan_range c \<and>
         tilt_range (after (get_ptz_config_options dev) c) = tilt_range c \<and>
         zoom_range (after (get_ptz_config_options dev) c) = zoom_range c"
  using assms
  by (auto simp: discovery_defs discovery_simps
      split: sum.splits attr.splits option.splits list.splits)

lemma discovery_spaces:
  assumes "ptz_service c = Some ptz" "media_profile c = Some p"
    "PTZConfiguration p = Has cfg"
    "lib_create_type dev ''GetConfigurationOptions'' = Inr ()"
    "lib_GetConfigurationOptions dev (PTZConfiguration_token cfg) = Inr opts"
    "Spaces opts = Has sp"
  shows "pan_range (after (get_ptz_config_options dev) c) =
           (case AbsolutePanTiltPositionSpace sp of
              Has (s # ss) \<Rightarrow> (Min (XRange s), Max (XRange s)) | _ \<Rightarrow> pan_range c)"
    and "tilt_range (after (get_ptz_config_options dev) c) =
           (case AbsolutePanTiltPositionSpace sp of
              Has (s # ss) \<Rightarrow> (Min (YRange s), Max (YRange s)) | _ \<Rightarrow> tilt_range c)"
    and "zoom_range (after (get_ptz_config_options dev) c) =
           (case AbsoluteZoomPositionSpace sp of
              Has (z # zs) \<Rightarrow> (Min (Zoom_XRange z), Max (Zoom_XRange z)) | _ \<Rightarrow> zoom_range c)"
    and "GetConfigurationOptions (PTZConfiguration_token cfg)
           \<in> set (events (get_ptz_config_options dev) c)"
  using assms
  by (auto simp: discovery_defs discovery_simps
      split: sum.splits attr.splits option.splits list.splits)

text \<open>
  Claim C2. After \<^verbatim>\<open>connect\<close> has returned \<^verbatim>\<open>True\<close>: when its \<^verbatim>\<open>GetConfigurationOptions\<close>
  call returned options whose spaces have a non-empty \<^verbatim>\<open>AbsolutePanTiltPositionSpace\<close>,
  \<^verbatim>\<open>pan_range\<close> and \<^verbatim>\<open>tilt_range\<close> are the \<^verbatim>\<open>XRange\<close> and \<^verbatim>\<open>YRange\<close> of its first entry,
  from \<^verbatim>\<open>Min\<close> to \<^verbatim>\<open>Max\<close>; likewise \<^verbatim>\<open>zoom_range\<close> and the first
  \<^verbatim>\<open>AbsoluteZoomPositionSpace\<close>. When no such space was returned (the call failed, was
  not made, or the list is missing or empty), the ranges are as they were before, which
  for a new controller are the defaults \<open>(-1, 1)\<close>, \<open>(-1, 1)\<close> and \<open>(0, 1)\<close>.
\<close>

theorem connect_discovers_ranges:
  assumes "result (connect dev) c = Inr True"
  shows "(\<forall>tok opts sp s ss.
            GetConfigurationOptions tok \<in> set (events (connect dev) c) \<and>
            lib_GetConfigurationOptions dev tok = Inr opts \<and> Spaces opts = Has sp \<and>
            AbsolutePanTiltPositionSpace sp = Has (s # ss) \<longrightarrow>
            pan_range (after (connect dev) c) = (Min (XRange s), Max (XRange s)) \<and>
            tilt_range (after (connect dev) c) = (Min (YRange s), Max (YRange s)))
       \<and> (\<forall>tok opts sp z zs.
            GetConfigurationOptions tok \<in> set (events (connect dev) c) \<and>
            lib_GetConfigurationOptions dev tok = Inr opts \<and> Spaces opts = Has sp \<and>
            AbsoluteZoomPositionSpace sp = Has (z # zs) \<longrightarrow>
            zoom_range (after (connect dev) c) = (Min (Zoom_XRange z), Max (Zoom_XRange z)))
       \<and> (\<not> (\<exists>tok opts sp s ss.
               GetConfigurationOptions tok \<in> set (events (connect dev) c) \<and>
               lib_GetConfigurationOptions dev tok = Inr opts \<and> Spaces opts = Has sp \<and>
               AbsolutePanTiltPositionSpace sp = Has (s # ss)) \<longrightarrow>
            pan_range (after (connect dev) c) = pan_range c \<and>
            tilt_range (after (connect dev) c) = tilt_range c)
       \<and> (\<not> (\<exists>tok opts sp z zs.
               GetConfigurationOptions tok \<in> set (events (connect dev) c) \<and>
               lib_GetConfigurationOptions dev tok = Inr opts \<and> Spaces opts = Has sp \<and>
               AbsoluteZoomPositionSpace sp = Has (z # zs)) \<longrightarrow>
            zoom_range (after (connect dev) c) = zoom_range c)
       \<and> pan_range (init h pt u pw w) = (-1, 1)
       \<and> tilt_range (init h pt u pw w) = (-1, 1)
       \<and> zoom_range (init h pt u pw w) = (0, 1)"
proof -
  from connect_success [OF assms] obtain cam ms p ps ptz where
    aft: "after (connect dev) c =
             after (get_ptz_config_options dev)
               (c\<lparr>camera := Some cam, media_service := Some ms, media_profile := Some p,
                  ptz_service := Some ptz\<rparr>)" and
    evs: "events (connect dev) c =
             [Print (Info ''connecting''),
              ONVIFCamera (host c) (port c) (user c) (password c) (wsdl_arg c),
              Print (Info ''connected''), GetDeviceInformation, Print (Info ''manufacturer''),
              Print (Info ''model''), Print (Info ''firmware version''), create_media_service,
              Print (Info ''media service created''), GetProfiles, Print (Info ''profile name''),
              Print (Info ''profile token''), create_ptz_service,
              Print (Info ''ptz service created'')] @
             events (get_ptz_config_options dev)
               (c\<lparr>camera := Some cam, media_service := Some ms, media_profile := Some p,
                  ptz_service := Some ptz\<rparr>)"
    by blast
  define c4 where "c4 = c\<lparr>camera := Some cam, media_service := Some ms, media_profile := Some p,
                  ptz_service := Some ptz\<rparr>"
  have conn: "ptz_service c4 = Some ptz" "media_profile c4 = Some p"
    and same: "pan_range c4 = pan_range c" "tilt_range c4 = tilt_range c"
      "zoom_range c4 = zoom_range c"
    by (simp_all add: c4_def)
  have aft4: "after (connect dev) c = after (get_ptz_config_options dev) c4"
    using aft by (simp add: c4_def)
  have mem: "GetConfigurationOptions tok \<in> set (events (connect dev) c) \<longleftrightarrow>
             GetConfigurationOptions tok \<in> set (events (get_ptz_config_options dev) c4)" for tok
    unfolding evs c4_def by simp
  have found: "\<exists>cfg. PTZConfiguration p = Has cfg \<and> tok = PTZConfiguration_token cfg \<and>
           lib_create_type dev ''GetConfigurationOptions'' = Inr ()"
    if "GetConfigurationOptions tok \<in> set (events (connect dev) c)" for tok
    using that mem discovery_call [OF conn, of tok dev] by blast
  have pt: "pan_range (after (connect dev) c) = (Min (XRange s), Max (XRange s)) \<and>
            tilt_range (after (connect dev) c) = (Min (YRange s), Max (YRange s))"
    if "GetConfigurationOptions tok \<in> set (events (connect dev) c)"
      "lib_GetConfigurationOptions dev tok = Inr opts" "Spaces opts = Has sp"
      "AbsolutePanTiltPositionSpace sp = Has (s # ss)" for tok opts sp s ss
  proof -
    from found [OF that(1)] obtain cfg where
      cfg: "PTZConfiguration p = Has cfg" "tok = PTZConfiguration_token cfg"
        "lib_create_type dev ''GetConfigurationOptions'' = Inr ()"
      by blast
    show ?thesis
      using discovery_spaces(1,2) [OF conn cfg(1) cfg(3), of opts sp] that(2-4) cfg(2) aft4
      by simp
  qed
  have zm: "zoom_range (after (connect dev) c) = (Min (Zoom_XRange z), Max (Zoom_XRange z))"
    if "GetConfigurationOptions tok \<in> set (events (connect dev) c)"
      "lib_GetConfigurationOptions dev tok = Inr opts" "Spaces opts = Has sp"
      "AbsoluteZoomPositionSpace sp = Has (z # zs)" for tok opts sp z zs
  proof -
    from found [OF that(1)] obtain cfg where
      cfg: "PTZConfiguration p = Has cfg" "tok = PTZConfiguration_token cfg"
        "lib_create_type dev ''GetConfigurationOptions'' = Inr ()"
      by blast
    show ?thesis
      using discovery_spaces(3) [OF conn cfg(1) cfg(3), of opts sp] that(2-4) cfg(2) aft4
      by simp
  qed
  have no_pt: "pan_range (after (connect dev) c) = pan_range c \<and>
               tilt_range (after (connect dev) c) = tilt_range c"
    if none: "\<not> (\<exists>tok opts sp s ss.
               GetConfigurationOptions tok \<in> set (events (connect dev) c) \<and>
               lib_GetConfigurationOptions dev tok = Inr opts \<and> Spaces opts = Has sp \<and>
               AbsolutePanTiltPositionSpace sp = Has (s # ss))"
  proof (cases "\<exists>cfg opts sp. PTZConfiguration p = Has cfg \<and>
          lib_create_type dev ''GetConfigurationOptions'' = Inr () \<and>
          lib_GetConfigurationOptions dev (PTZConfiguration_token cfg) = Inr opts \<and>
          Spaces opts = Has sp")
    case True
    then obtain cfg opts sp where
      r: "PTZConfiguration p = Has cfg" "lib_create_type dev ''GetConfigurationOptions'' = Inr ()"
        "lib_GetConfigurationOptions dev (PTZConfiguration_token cfg) = Inr opts"
        "Spaces opts = Has sp"
      by blast
    note d = discovery_spaces [OF conn r]
    from d(4) mem have "GetConfigurationOptions (PTZConfiguration_token cfg)
        \<in> set (events (connect dev) c)"
      by simp
    with none r have "\<not> (\<exists>s ss. AbsolutePanTiltPositionSpace sp = Has (s # ss))"
      by blast
    then show ?thesis
      using d(1,2) aft4 same by (auto split: attr.splits list.splits)
  next
    case False
    from discovery_none [OF conn False] show ?thesis
      using aft4 same by simp
  qed
  have no_zm: "zoom_range (after (connect dev) c) = zoom_range c"
    if none: "\<not> (\<exists>tok opts sp z zs.
               GetConfigurationOptions tok \<in> set (events (connect dev) c) \<and>
               lib_GetConfigurationOptions dev tok = Inr opts \<and> Spaces opts = Has sp \<and>
               AbsoluteZoomPositionSpace sp = Has (z # zs))"
  proof (cases "\<exists>cfg opts sp. PTZConfiguration p = Has cfg \<and>
          lib_create_type dev ''GetConfigurationOptions'' = Inr () \<and>
          lib_GetConfigurationOptions dev (PTZConfiguration_token cfg) = Inr opts \<and>
          Spaces opts = Has sp")
    case True
    then obtain cfg opts sp where
      r: "PTZConfiguration p = Has cfg" "lib_create_type dev ''GetConfigurationOptions'' = Inr ()"
        "lib_GetConfigurationOptions dev (PTZConfiguration_token cfg) = Inr opts"
        "Spaces opts = Has sp"
      by blast
    note d = discovery_spaces [OF conn r]
    from d(4) mem have "GetConfigurationOptions (PTZConfiguration_token cfg)
        \<in> set (events (connect dev) c)"
      by simp
    with none r have "\<not> (\<exists>z zs. AbsoluteZoomPositionSpace sp = Has (z # zs))"
      by blast
    then show ?thesis
      using d(3) aft4 same by (auto split: attr.splits list.splits)
  next
    case False
    from discovery_none [OF conn False] show ?thesis
      using aft4 same by simp
  qed
  have dflt: "pan_range (init h pt u pw w) = (-1, 1)" "tilt_range (init h pt u pw w) = (-1, 1)"
    "zoom_range (init h pt u pw w) = (0, 1)"
    by (simp_all add: init_def)
  show ?thesis
    using pt zm no_pt no_zm dflt by blast
qed

lemma demo_connect:
  "result (connect demo_device) (init ''192.168.1.100'' 2020 ''admin'' ''secret'' None) = Inr True"
  "GetConfigurationOptions ''PTZToken''
     \<in> set (events (connect demo_device) (init ''192.168.1.100'' 2020 ''admin'' ''secret'' None))"
proof -
  show r: "result (connect demo_device) (init ''192.168.1.100'' 2020 ''admin'' ''secret'' None) =
      Inr True"
    by (simp add: connect_result demo_defs)
  from connect_success [OF r] obtain cam ms p ps ptz where
    p: "lib_GetProfiles demo_device = Inr (p # ps)" and
    e: "events (connect demo_device) (init ''192.168.1.100'' 2020 ''admin'' ''secret'' None) =
             [Print (Info ''connecting''),
              ONVIFCamera (host (init ''192.168.1.100'' 2020 ''admin'' ''secret'' None))
                (port (init ''192.168.1.100'' 2020 ''admin'' ''secret'' None))
                (user (init ''192.168.1.100'' 2020 ''admin'' ''secret'' None))
                (password (init ''192.168.1.100'' 2020 ''admin'' ''secret'' None))
                (wsdl_arg (init ''192.168.1.100'' 2020 ''admin'' ''secret'' None)),
              Print (Info ''connected''), GetDeviceInformation, Print (Info ''manufacturer''),
              Print (Info ''model''), Print (Info ''firmware version''), create_media_service,
              Print (Info ''media service created''), GetProfiles, Print (Info ''profile name''),
              Print (Info ''profile token''), create_ptz_service,
              Print (Info ''ptz service created'')] @
             events (get_ptz_config_options demo_device)
               ((init ''192.168.1.100'' 2020 ''admin'' ''secret'' None)
                  \<lparr>camera := Some cam, media_service := Some ms, media_profile := Some p,
                   ptz_service := Some ptz\<rparr>)"
    by blast
  from p have p': "p = demo_profile"
    by (simp add: demo_device_def)
  have "GetConfigurationOptions (PTZConfiguration_token \<lparr>PTZConfiguration_token = ''PTZToken''\<rparr>)
          \<in> set (events (get_ptz_config_options demo_device)
               ((init ''192.168.1.100'' 2020 ''admin'' ''secret'' None)
                  \<lparr>camera := Some cam, media_service := Some ms, media_profile := Some p,
                   ptz_service := Some ptz\<rparr>))"
    by (rule discovery_spaces(4) [where opts = demo_options and p = p])
      (simp_all add: p' demo_defs)
  then show "GetConfigurationOptions ''PTZToken''
     \<in> set (events (connect demo_device) (init ''192.168.1.100'' 2020 ''admin'' ''secret'' None))"
    unfolding e by simp
qed

theorem connect_discovers_ranges_witness:
  "result (connect demo_device) (init ''192.168.1.100'' 2020 ''admin'' ''secret'' None) = Inr True
   \<and> GetConfigurationOptions ''PTZToken''
       \<in> set (events (connect demo_device) (init ''192.168.1.100'' 2020 ''admin'' ''secret'' None))
   \<and> lib_GetConfigurationOptions demo_device ''PTZToken'' = Inr demo_options
   \<and> pan_range (after (connect demo_device)
        (init ''192.168.1.100'' 2020 ''admin'' ''secret'' None)) = (-1, 1)
   \<and> tilt_range (after (connect demo_device)
        (init ''192.168.1.100'' 2020 ''admin'' ''secret'' None)) = (-1/2, 1/2)
   \<and> zoom_range (after (connect demo_device)
        (init ''192.168.1.100'' 2020 ''admin'' ''secret'' None)) = (0, 1)"
proof -
  let ?c = "init ''192.168.1.100'' 2020 ''admin'' ''secret'' None"
  note t = connect_discovers_ranges [OF demo_connect(1), of "''h''" 0 "''u''" "''p''" None]
  have o: "lib_GetConfigurationOptions demo_device ''PTZToken'' = Inr demo_options"
    by (simp add: demo_defs)
  have sp: "Spaces demo_options = Has
        \<lparr>AbsolutePanTiltPositionSpace =
           Has [\<lparr>XRange = \<lparr>Min = -1, Max = 1\<rparr>, YRange = \<lparr>Min = -1/2, Max = 1/2\<rparr>\<rparr>],
         AbsoluteZoomPositionSpace = Has []\<rparr>"
    by (simp add: demo_defs)
  from t have "\<forall>tok opts sp s ss.
            GetConfigurationOptions tok \<in> set (events (connect demo_device) ?c) \<and>
            lib_GetConfigurationOptions demo_device tok = Inr opts \<and> Spaces opts = Has sp \<and>
            AbsolutePanTiltPositionSpace sp = Has (s # ss) \<longrightarrow>
            pan_range (after (connect demo_device) ?c) = (Min (XRange s), Max (XRange s)) \<and>
            tilt_range (after (connect demo_device) ?c) = (Min (YRange s), Max (YRange s))"
    by (elim conjE) assumption
  from this [rule_format, of "''PTZToken''" demo_options _
        "\<lparr>XRange = \<lparr>Min = -1, Max = 1\<rparr>, YRange = \<lparr>Min = -1/2, Max = 1/2\<rparr>\<rparr>" "[]"]
  have a: "pan_range (after (connect demo_device) ?c) = (-1, 1) \<and>
           tilt_range (after (connect demo_device) ?c) = (-1/2, 1/2)"
    using demo_connect(2) o sp by simp
  have none: "\<not> (\<exists>tok opts sp z zs.
               GetConfigurationOptions tok \<in> set (events (connect demo_device) ?c) \<and>
               lib_GetConfigurationOptions demo_device tok = Inr opts \<and> Spaces opts = Has sp \<and>
               AbsoluteZoomPositionSpace sp = Has (z # zs))"
    by (auto simp: demo_defs)
  from t have "\<not> (\<exists>tok opts sp z zs.
               GetConfigurationOptions tok \<in> set (events (connect demo_device) ?c) \<and>
               lib_GetConfigurationOptions demo_device tok = Inr opts \<and> Spaces opts = Has sp \<and>
               AbsoluteZoomPositionSpace sp = Has (z # zs)) \<longrightarrow>
            zoom_range (after (connect demo_device) ?c) = zoom_range ?c"
    by (elim conjE) assumption
  with none have b: "zoom_range (after (connect demo_device) ?c) = (0, 1)"
    by (simp add: init_def)
  from demo_connect o a b show ?thesis by blast
qed

section \<open>No exception leaves a method\<close>

text \<open>
  A \<^verbatim>\<open>try\<close> block whose handler prints and returns a value returns that value on every
  exception of its body, and the body's value otherwise.
\<close>

lemma try_fallback:
  "result (py_try m (\<lambda>e. py_seq (print (msg e)) (py_return fb))) c =
     (case result m c of Inl e \<Rightarrow> Inr fb | Inr v \<Rightarrow> Inr v)"
proof (cases "m \<lparr>self = c, trace = []\<rparr>")
  case (Pair r s')
  then show ?thesis
    by (cases r)
      (simp_all add: run_defs py_try_def py_seq_def py_bind_def print_def py_return_def)
qed

lemma try_unit: "result (py_try m (\<lambda>e. print (msg e))) c = Inr ()"
proof (cases "m \<lparr>self = c, trace = []\<rparr>")
  case (Pair r s')
  then show ?thesis
    by (cases r) (simp_all add: run_defs py_try_def print_def)
qed

lemma ro_print_preset: "reads_only (print_preset p)"
  unfolding print_preset_def by (intro ro_rules)

lemma ro_presets_loop: "reads_only (presets_loop ps d)"
  by (induction ps arbitrary: d) (auto intro: ro_rules ro_print_preset)

lemmas lib_simps = run_simps ro_if ro_case_option ro_print_position ro_print_move_status
  ro_presets_loop not_none_def

lemma absolute_move_status_raises:
  "(\<forall>tok. \<exists>e. lib_GetStatus dev tok = Inl e) \<longrightarrow>
   result (absolute_move dev pan tilt zoom speed) c = Inr False"
  by (auto simp: absolute_move_def absolute_move_body_def lib_simps split: sum.splits option.splits; metis sum.distinct(1))

lemma absolute_move_raises:
  "(\<forall>tok pos spd. \<exists>e. lib_AbsoluteMove dev tok pos spd = Inl e) \<longrightarrow>
   result (absolute_move dev pan tilt zoom speed) c = Inr False"
  by (auto simp: absolute_move_def absolute_move_body_def lib_simps split: sum.splits option.splits; metis sum.distinct(1))

lemma relative_move_raises:
  "(\<forall>tok tr spd. \<exists>e. lib_RelativeMove dev tok tr spd = Inl e) \<longrightarrow>
   result (relative_move dev pd td zd rspeed) c = Inr False"
  by (auto simp: relative_move_def relative_move_body_def lib_simps split: sum.splits option.splits; metis sum.distinct(1))

lemma get_onvif_stream_url_raises:
  "(\<forall>tok. \<exists>e. lib_GetStreamUri dev tok = Inl e) \<longrightarrow>
   result (get_onvif_stream_url dev) c = Inr []"
  by (auto simp: get_onvif_stream_url_def get_onvif_stream_url_body_def lib_simps split: sum.splits option.splits; metis sum.distinct(1))

lemma set_preset_raises:
  "(\<forall>tok nm pt. \<exists>e. lib_SetPreset dev tok nm pt = Inl e) \<longrightarrow>
   result (set_preset dev preset_name new_token) c = Inr []"
  by (auto simp: set_preset_def set_preset_body_def lib_simps split: sum.splits option.splits; metis sum.distinct(1))

lemma get_status_raises:
  "(\<forall>tok. \<exists>e. lib_GetStatus dev tok = Inl e) \<longrightarrow>
   result (get_status dev) c = Inr []"
  by (auto simp: get_status_def get_status_body_def lib_simps split: sum.splits option.splits; metis sum.distinct(1))

lemma get_presets_raises:
  "(\<forall>tok. \<exists>e. lib_GetPresets dev tok = Inl e) \<longrightarrow>
   result (get_presets dev) c = Inr Map.empty"
  by (auto simp: get_presets_def get_presets_body_def lib_simps split: sum.splits option.splits; metis sum.distinct(1))

lemma get_device_info_raises:
  "(\<exists>e. lib_GetDeviceInformation dev = Inl e) \<longrightarrow>
   result (get_device_info dev) c = Inr []"
  by (auto simp: get_device_info_def get_device_info_body_def lib_simps split: sum.splits option.splits; metis sum.distinct(1))

lemma get_capabilities_raises:
  "(\<exists>e. lib_GetCapabilities dev = Inl e) \<longrightarrow>
   result (get_capabilities dev) c = Inr []"
  by (auto simp: get_capabilities_def get_capabilities_body_def lib_simps split: sum.splits option.splits; metis sum.distinct(1))

lemma get_current_position_raises:
  "(\<forall>tok. \<exists>e. lib_GetStatus dev tok = Inl e) \<longrightarrow>
   result (get_current_position dev) c = Inr (0, 0, 0)"
  by (auto simp: get_current_position_def get_current_position_body_def lib_simps split: sum.splits option.splits; metis sum.distinct(1))

lemma get_ptz_nodes_raises:
  "(\<exists>e. lib_GetNodes dev = Inl e) \<longrightarrow>
   result (get_ptz_nodes dev) c = Inr []"
  by (auto simp: get_ptz_nodes_def get_ptz_nodes_body_def lib_simps split: sum.splits option.splits; metis sum.distinct(1))

lemma connect_raises:
  "(\<exists>e. lib_ONVIFCamera dev (host c) (port c) (user c) (password c) (wsdl_arg c) = Inl e) \<or>
   (\<exists>e. lib_GetDeviceInformation dev = Inl e) \<or>
   (\<exists>e. lib_create_media_service dev = Inl e) \<or>
   (\<exists>e. lib_GetProfiles dev = Inl e) \<or>
   (\<exists>e. lib_create_ptz_service dev = Inl e) \<longrightarrow>
   result (connect dev) c = Inr False"
  by (auto simp: connect_result split: sum.splits list.splits)

lemma connect_catches:
  "result (connect dev) c =
       (case result (connect_body dev) c of Inl e \<Rightarrow> Inr False | Inr v \<Rightarrow> Inr v)"
  unfolding connect_def by (rule try_fallback)

lemma absolute_move_catches:
  "result (absolute_move dev pan tilt zoom speed) c =
       (case result (absolute_move_body dev pan tilt zoom speed) c of Inl e \<Rightarrow> Inr False | Inr v \<Rightarrow> Inr v)"
  unfolding absolute_move_def by (rule try_fallback)

lemma move_to_position_catches:
  "result (move_to_position dev mpan mtilt mspeed) c =
       (case result (absolute_move_body dev (Some mpan) (Some mtilt) None mspeed) c of Inl e \<Rightarrow> Inr False | Inr v \<Rightarrow> Inr v)"
  unfolding move_to_position_def absolute_move_def by (rule try_fallback)

lemma relative_move_catches:
  "result (relative_move dev pd td zd rspeed) c =
       (case result (relative_move_body dev pd td zd rspeed) c of Inl e \<Rightarrow> Inr False | Inr v \<Rightarrow> Inr v)"
  unfolding relative_move_def by (rule try_fallback)

lemma get_onvif_stream_url_catches:
  "result (get_onvif_stream_url dev) c =
       (case result (get_onvif_stream_url_body dev) c of Inl e \<Rightarrow> Inr [] | Inr v \<Rightarrow> Inr v)"
  unfolding get_onvif_stream_url_def by (rule try_fallback)

lemma set_preset_catches:
  "result (set_preset dev preset_name new_token) c =
       (case result (set_preset_body dev preset_name new_token) c of Inl e \<Rightarrow> Inr [] | Inr v \<Rightarrow> Inr v)"
  unfolding set_preset_def by (rule try_fallback)

lemma get_status_catches:
  "result (get_status dev) c =
       (case result (get_status_body dev) c of Inl e \<Rightarrow> Inr [] | Inr v \<Rightarrow> Inr v)"
  unfolding get_status_def by (rule try_fallback)

lemma get_presets_catches:
  "result (get_presets dev) c =
       (case result (get_presets_body dev) c of Inl e \<Rightarrow> Inr Map.empty | Inr v \<Rightarrow> Inr v)"
  unfolding get_presets_def by (rule try_fallback)

lemma get_device_info_catches:
  "result (get_device_info dev) c =
       (case result (get_device_info_body dev) c of Inl e \<Rightarrow> Inr [] | Inr v \<Rightarrow> Inr v)"
  unfolding get_device_info_def by (rule try_fallback)

lemma get_capabilities_catches:
  "result (get_capabilities dev) c =
       (case result (get_capabilities_body dev) c of Inl e \<Rightarrow> Inr [] | Inr v \<Rightarrow> Inr v)"
  unfolding get_capabilities_def by (rule try_fallback)

lemma get_current_position_catches:
  "result (get_current_position dev) c =
       (case result (get_current_position_body dev) c of Inl e \<Rightarrow> Inr (0, 0, 0) | Inr v \<Rightarrow> Inr v)"
  unfolding get_current_position_def by (rule try_fallback)

lemma get_ptz_nodes_catches:
  "result (get_ptz_nodes dev) c =
       (case result (get_ptz_nodes_body dev) c of Inl e \<Rightarrow> Inr [] | Inr v \<Rightarrow> Inr v)"
  unfolding get_ptz_nodes_def by (rule try_fallback)

lemma continuous_move_catches:
  "result (continuous_move dev ps ts zs d) c = Inr ()"
  unfolding continuous_move_def by (rule try_unit)

lemma stop_catches:
  "result (stop dev) c = Inr ()"
  unfolding stop_def by (rule try_unit)

lemma goto_preset_catches:
  "result (goto_preset dev preset gspeed) c = Inr ()"
  unfolding goto_preset_def by (rule try_unit)

lemma remove_preset_catches:
  "result (remove_preset dev old_token) c = Inr ()"
  unfolding remove_preset_def by (rule try_unit)

lemma goto_home_catches:
  "result (goto_home dev hspeed) c = Inr ()"
  unfolding goto_home_def by (rule try_unit)

lemma set_home_catches:
  "result (set_home dev) c = Inr ()"
  unfolding set_home_def by (rule try_unit)

lemma get_rtsp_url_returns:
  "(\<exists>url. result (get_rtsp_url stream_index) c = Inr url)"
  by (simp add: get_rtsp_url_def run_simps)

text \<open>
  Claim C8. No public method raises. Each method whose body is a \<^verbatim>\<open>try\<close> block returns,
  on any exception of the body, its failure value: \<^verbatim>\<open>False\<close> for \<^verbatim>\<open>connect\<close>,
  \<^verbatim>\<open>absolute_move\<close>, \<^verbatim>\<open>move_to_position\<close> and \<^verbatim>\<open>relative_move\<close>; the empty string for
  \<^verbatim>\<open>get_onvif_stream_url\<close> and \<^verbatim>\<open>set_preset\<close>; the empty dictionary for \<^verbatim>\<open>get_status\<close>,
  \<^verbatim>\<open>get_presets\<close>, \<^verbatim>\<open>get_device_info\<close> and \<^verbatim>\<open>get_capabilities\<close>; \<open>(0, 0, 0)\<close> for
  \<^verbatim>\<open>get_current_position\<close>; the empty list for \<^verbatim>\<open>get_ptz_nodes\<close>; and \<^verbatim>\<open>None\<close> for
  \<^verbatim>\<open>continuous_move\<close>, \<^verbatim>\<open>stop\<close>, \<^verbatim>\<open>goto_preset\<close>, \<^verbatim>\<open>remove_preset\<close>, \<^verbatim>\<open>goto_home\<close> and
  \<^verbatim>\<open>set_home\<close>. \<^verbatim>\<open>get_rtsp_url\<close> returns a string. In particular an exception of the
  library call a method makes gives the failure value.
\<close>

theorem no_exception_escapes:
  "result (connect dev) c =
       (case result (connect_body dev) c of Inl e \<Rightarrow> Inr False | Inr v \<Rightarrow> Inr v)
   \<and> result (absolute_move dev pan tilt zoom speed) c =
       (case result (absolute_move_body dev pan tilt zoom speed) c of Inl e \<Rightarrow> Inr False | Inr v \<Rightarrow> Inr v)
   \<and> result (move_to_position dev mpan mtilt mspeed) c =
       (case result (absolute_move_body dev (Some mpan) (Some mtilt) None mspeed) c of Inl e \<Rightarrow> Inr False | Inr v \<Rightarrow> Inr v)
   \<and> result (relative_move dev pd td zd rspeed) c =
       (case result (relative_move_body dev pd td zd rspeed) c of Inl e \<Rightarrow> Inr False | Inr v \<Rightarrow> Inr v)
   \<and> result (get_onvif_stream_url dev) c =
       (case result (get_onvif_stream_url_body dev) c of Inl e \<Rightarrow> Inr [] | Inr v \<Rightarrow> Inr v)
   \<and> result (set_preset dev preset_name new_token) c =
       (case result (set_preset_body dev preset_name new_token) c of Inl e \<Rightarrow> Inr [] | Inr v \<Rightarrow> Inr v)
   \<and> result (get_status dev) c =
       (case result (get_status_body dev) c of Inl e \<Rightarrow> Inr [] | Inr v \<Rightarrow> Inr v)
   \<and> result (get_presets dev) c =
       (case result (get_presets_body dev) c of Inl e \<Rightarrow> Inr Map.empty | Inr v \<Rightarrow> Inr v)
   \<and> result (get_device_info dev) c =
       (case result (get_device_info_body dev) c of Inl e \<Rightarrow> Inr [] | Inr v \<Rightarrow> Inr v)
   \<and> result (get_capabilities dev) c =
       (case result (get_capabilities_body dev) c of Inl e \<Rightarrow> Inr [] | Inr v \<Rightarrow> Inr v)
   \<and> result (get_current_position dev) c =
       (case result (get_current_position_body dev) c of Inl e \<Rightarrow> Inr (0, 0, 0) | Inr v \<Rightarrow> Inr v)
   \<and> result (get_ptz_nodes dev) c =
       (case result (get_ptz_nodes_body dev) c of Inl e \<Rightarrow> Inr [] | Inr v \<Rightarrow> Inr v)
   \<and> result (continuous_move dev ps ts zs d) c = Inr ()
   \<and> result (stop dev) c = Inr ()
   \<and> result (goto_preset dev preset gspeed) c = Inr ()
   \<and> result (remove_preset dev old_token) c = Inr ()
   \<and> result (goto_home dev hspeed) c = Inr ()
   \<and> result (set_home dev) c = Inr ()
   \<and> (\<exists>url. result (get_rtsp_url stream_index) c = Inr url)
   \<and> ((\<forall>tok. \<exists>e. lib_GetStatus dev tok = Inl e) \<longrightarrow>
       result (absolute_move dev pan tilt zoom speed) c = Inr False)
   \<and> ((\<forall>tok pos spd. \<exists>e. lib_AbsoluteMove dev tok pos spd = Inl e) \<longrightarrow>
       result (absolute_move dev pan tilt zoom speed) c = Inr False)
   \<and> ((\<forall>tok tr spd. \<exists>e. lib_RelativeMove dev tok tr spd = Inl e) \<longrightarrow>
       result (relative_move dev pd td zd rspeed) c = Inr False)
   \<and> ((\<forall>tok. \<exists>e. lib_GetStreamUri dev tok = Inl e) \<longrightarrow>
       result (get_onvif_stream_url dev) c = Inr [])
   \<and> ((\<forall>tok nm pt. \<exists>e. lib_SetPreset dev tok nm pt = Inl e) \<longrightarrow>
       result (set_preset dev preset_name new_token) c = Inr [])
   \<and> ((\<forall>tok. \<exists>e. lib_GetStatus dev tok = Inl e) \<longrightarrow>
       result (get_status dev) c = Inr [])
   \<and> ((\<forall>tok. \<exists>e. lib_GetPresets dev tok = Inl e) \<longrightarrow>
       result (get_presets dev) c = Inr Map.empty)
   \<and> ((\<exists>e. lib_GetDeviceInformation dev = Inl e) \<longrightarrow>
       result (get_device_info dev) c = Inr [])
   \<and> ((\<exists>e. lib_GetCapabilities dev = Inl e) \<longrightarrow>
       result (get_capabilities dev) c = Inr [])
   \<and> ((\<forall>tok. \<exists>e. lib_GetStatus dev tok = Inl e) \<longrightarrow>
       result (get_current_position dev) c = Inr (0, 0, 0))
   \<and> ((\<exists>e. lib_GetNodes dev = Inl e) \<longrightarrow>
       result (get_ptz_nodes dev) c = Inr [])
   \<and> ((\<exists>e. lib_ONVIFCamera dev (host c) (port c) (user c) (password c) (wsdl_arg c) = Inl e) \<or>
       (\<exists>e. lib_GetDeviceInformation dev = Inl e) \<or>
       (\<exists>e. lib_create_media_service dev = Inl e) \<or>
       (\<exists>e. lib_GetProfiles dev = Inl e) \<or>
       (\<exists>e. lib_create_ptz_service dev = Inl e) \<longrightarrow>
       result (connect dev) c = Inr False)"
  by (intro conjI)
    (rule connect_catches,
     rule absolute_move_catches,
     rule move_to_position_catches,
     rule relative_move_catches,
     rule get_onvif_stream_url_catches,
     rule set_preset_catches,
     rule get_status_catches,
     rule get_presets_catches,
     rule get_device_info_catches,
     rule get_capabilities_catches,
     rule get_current_position_catches,
     rule get_ptz_nodes_catches,
     rule continuous_move_catches,
     rule stop_catches,
     rule goto_preset_catches,
     rule remove_preset_catches,
     rule goto_home_catches,
     rule set_home_catches,
     rule get_rtsp_url_returns,
     rule absolute_move_status_raises,
     rule absolute_move_raises,
     rule relative_move_raises,
     rule get_onvif_stream_url_raises,
     rule set_preset_raises,
     rule get_status_raises,
     rule get_presets_raises,
     rule get_device_info_raises,
     rule get_capabilities_raises,
     rule get_current_position_raises,
     rule get_ptz_nodes_raises,
     rule connect_raises)

theorem no_exception_escapes_witness:
  "(\<forall>tok. \<exists>e. lib_GetStatus failing_device tok = Inl e)
   \<and> result (get_status failing_device) demo_controller = Inr []
   \<and> result (get_current_position failing_device) demo_controller = Inr (0, 0, 0)
   \<and> result (absolute_move failing_device (Some 0) (Some 0) None 1) demo_controller = Inr False
   \<and> (\<exists>e. lib_GetProfiles failing_device = Inl e)
   \<and> result (connect failing_device) demo_controller = Inr False"
proof -
  note t = no_exception_escapes [of failing_device demo_controller "Some 0" "Some 0" None 1
      0 0 1 0 0 0 1 "''home''" None 0 0 0 1 "''1''" 1 "''1''" 1 1]
  have s: "\<forall>tok. \<exists>e. lib_GetStatus failing_device tok = Inl e"
    by (simp add: demo_defs)
  have p: "\<exists>e. lib_GetProfiles failing_device = Inl e"
    by (simp add: demo_defs)
  from t have "(\<forall>tok. \<exists>e. lib_GetStatus failing_device tok = Inl e) \<longrightarrow>
      result (get_status failing_device) demo_controller = Inr []"
    by (elim conjE) assumption
  with s have a: "result (get_status failing_device) demo_controller = Inr []"
    by blast
  from t have "(\<forall>tok. \<exists>e. lib_GetStatus failing_device tok = Inl e) \<longrightarrow>
      result (get_current_position failing_device) demo_controller = Inr (0, 0, 0)"
    by (elim conjE) assumption
  with s have b: "result (get_current_position failing_device) demo_controller = Inr (0, 0, 0)"
    by blast
  from t have "(\<forall>tok. \<exists>e. lib_GetStatus failing_device tok = Inl e) \<longrightarrow>
      result (absolute_move failing_device (Some 0) (Some 0) None 1) demo_controller = Inr False"
    by (elim conjE) assumption
  with s have c: "result (absolute_move failing_device (Some 0) (Some 0) None 1) demo_controller =
      Inr False"
    by blast
  from t have "(\<exists>e. lib_ONVIFCamera failing_device (host demo_controller) (port demo_controller)
         (user demo_controller) (password demo_controller) (wsdl_arg demo_controller) = Inl e) \<or>
       (\<exists>e. lib_GetDeviceInformation failing_device = Inl e) \<or>
       (\<exists>e. lib_create_media_service failing_device = Inl e) \<or>
       (\<exists>e. lib_GetProfiles failing_device = Inl e) \<or>
       (\<exists>e. lib_create_ptz_service failing_device = Inl e) \<longrightarrow>
       result (connect failing_device) demo_controller = Inr False"
    by (elim conjE) assumption
  with p have d: "result (connect failing_device) demo_controller = Inr False"
    by blast
  from s p a b c d show ?thesis by blast
qed

end
